theory Spec2Isabelle
  imports Main "HOL-Library.Word"
begin

unbundle bit_operations_syntax

section \<open>EtherCAT EoE state machine (master/fsm\_eoe.c): data model\<close>

text \<open>
  The C integer types: \<open>uint8_t\<close>, \<open>uint16_t\<close>, \<open>uint32_t\<close>, \<open>unsigned int\<close>
  (32 bits) and \<open>unsigned long\<close> (64 bits, the LP64 kernel). Arithmetic on them wraps.
\<close>

type_synonym u8 = "8 word"
type_synonym u16 = "16 word"
type_synonym u32 = "32 word"
type_synonym uint = "32 word"
type_synonym ulong = "64 word"

text \<open>
  The states of a datagram (\<open>ec_datagram_state_t\<close>, declared in datagram.h). The file
  compares against INIT, QUEUED, SENT, RECEIVED and TIMED\_OUT; ERROR stands for the state
  of a datagram that is none of these, which every state function treats as "not
  received".
\<close>

datatype ec_datagram_state =
    EC_DATAGRAM_INIT
  | EC_DATAGRAM_QUEUED
  | EC_DATAGRAM_SENT
  | EC_DATAGRAM_RECEIVED
  | EC_DATAGRAM_TIMED_OUT
  | EC_DATAGRAM_ERROR

text \<open>
  A datagram, with the fields this file reads. The fields \<open>state\<close> and \<open>jiffies_sent\<close>
  of the C struct are called \<open>dg_state\<close> and \<open>dg_jiffies_sent\<close> here, because the
  state machine and the request have fields of the same names. \<open>mbox_data\<close> is the mailbox
  payload area of the datagram: the memory that the pointer returned by
  \<open>ec_slave_mbox_prepare_send\<close> points to.
\<close>

record ec_datagram =
  dg_state :: ec_datagram_state
  working_counter :: u16
  dg_jiffies_sent :: ulong
  jiffies_received :: ulong
  mbox_data :: "u8 list"

text \<open>The slave, with the one field the state machine reads: \<open>sii.mailbox_protocols\<close>.\<close>

record ec_slave =
  sii_mailbox_protocols :: u16

text \<open>
  The request (\<open>ec_eoe_request_t\<close>). The \<open>*_included\<close> flags are integers tested
  with \<open>!= 0\<close>. The address fields are kept as their four bytes in memory order, which is
  how \<open>memcpy_swap32\<close> reads them through \<open>&req->ip_address\<close>; \<open>mac_address\<close> and
  \<open>name\<close> are the byte arrays of the struct.
\<close>

record ec_eoe_request =
  jiffies_sent :: ulong
  mac_address_included :: u8
  ip_address_included :: u8
  subnet_mask_included :: u8
  gateway_included :: u8
  dns_included :: u8
  name_included :: u8
  mac_address :: "u8 list"
  ip_address :: "u8 list"
  subnet_mask :: "u8 list"
  gateway :: "u8 list"
  dns :: "u8 list"
  name :: "u8 list"
  result :: u16

text \<open>
  The state of the machine is a function pointer; its possible targets are the six
  state functions of this file. \<open>None\<close> is the NULL pointer throughout.
\<close>

datatype state_fn =
    FN_set_ip_start
  | FN_set_ip_request
  | FN_set_ip_check
  | FN_set_ip_response
  | FN_end
  | FN_error

record ec_fsm_eoe =
  slave :: "nat option"
  retries :: uint
  state :: "state_fn option"
  datagram :: "nat option"
  jiffies_start :: ulong
  request :: "nat option"
  frame_type_retries :: uint

text \<open>
  The memory the state machine works on: the global \<open>jiffies\<close> counter and the slaves,
  requests and datagrams, each addressed by a pointer (a natural number).
\<close>

record mem =
  jiffies :: ulong
  slaves :: "nat \<Rightarrow> ec_slave"
  requests :: "nat \<Rightarrow> ec_eoe_request"
  datagrams :: "nat \<Rightarrow> ec_datagram"

text \<open>
  What the file takes from its headers and from mailbox.c, none of which is part of it:
  the constants (\<open>HZ\<close>, \<open>EC_FSM_RETRIES\<close>, \<open>EC_MAX_HOSTNAME_SIZE\<close>, the mailbox type
  and protocol bit of EoE, the two frame types) and the five mailbox functions. They are
  parameters of every definition below.
  \<^item> \<open>ec_slave_mbox_prepare_send\<close> gives \<open>Inl e\<close> for an error pointer (\<open>IS_ERR\<close>,
    with \<open>PTR_ERR\<close> the nonzero code \<open>e\<close>) and otherwise the prepared datagram, whose
    \<open>mbox_data\<close> is the buffer the returned pointer addresses; what a failing call
    has done to the datagram before it fails is not modelled;
  \<^item> \<open>ec_slave_mbox_fetch\<close> gives \<open>Inl e\<close> for an error pointer and otherwise the
    received payload with the mailbox protocol; \<open>rec_size\<close> is the payload's length.
\<close>

record env =
  HZ :: ulong
  EC_FSM_RETRIES :: uint
  EC_MAX_HOSTNAME_SIZE :: nat
  EC_MBOX_TYPE_EOE :: u8
  EC_MBOX_EOE :: u16
  EC_EOE_FRAMETYPE_SET_IP_REQ :: u8
  EC_EOE_FRAMETYPE_SET_IP_RES :: u8
  ec_slave_mbox_prepare_send :: "ec_slave \<Rightarrow> ec_datagram \<Rightarrow> u8 \<Rightarrow> nat \<Rightarrow> int + ec_datagram"
  ec_slave_mbox_prepare_check :: "ec_slave \<Rightarrow> ec_datagram \<Rightarrow> ec_datagram"
  ec_slave_mbox_check :: "ec_datagram \<Rightarrow> bool"
  ec_slave_mbox_prepare_fetch :: "ec_slave \<Rightarrow> ec_datagram \<Rightarrow> ec_datagram"
  ec_slave_mbox_fetch :: "ec_slave \<Rightarrow> ec_datagram \<Rightarrow> int + (u8 list \<times> u8)"

definition ETH_ALEN :: nat where
  "ETH_ALEN = 6"

definition EC_EOE_RESPONSE_TIMEOUT :: ulong where
  "EC_EOE_RESPONSE_TIMEOUT = 3000"

section \<open>Buffer access\<close>

text \<open>
  A pointer into a buffer is the buffer and an offset. \<open>memset\<close> and \<open>memcpy\<close> write
  \<open>n\<close> bytes starting at the offset.
\<close>

fun memset :: "u8 list \<Rightarrow> nat \<Rightarrow> u8 \<Rightarrow> nat \<Rightarrow> u8 list" where
  "memset buf off c 0 = buf"
| "memset buf off c (Suc n) = memset (buf[off := c]) (Suc off) c n"

fun memcpy :: "u8 list \<Rightarrow> nat \<Rightarrow> u8 list \<Rightarrow> nat \<Rightarrow> u8 list" where
  "memcpy dst off src 0 = dst"
| "memcpy dst off src (Suc n) =
     (case src of
        [] \<Rightarrow> dst
      | b # bs \<Rightarrow> memcpy (dst[off := b]) (Suc off) bs n)"

text \<open>
  Modelled from the spec: the access macros \<open>EC_WRITE_U8\<close>, \<open>EC_WRITE_U16\<close>,
  \<open>EC_WRITE_U32\<close>, \<open>EC_READ_U8\<close> and \<open>EC_READ_U16\<close> of ecrt.h, which is not part of
  the file. All integers on the wire are little-endian.
\<close>

definition EC_WRITE_U8 :: "u8 list \<Rightarrow> nat \<Rightarrow> u8 \<Rightarrow> u8 list" where
  "EC_WRITE_U8 buf off v = buf[off := v]"

definition EC_WRITE_U16 :: "u8 list \<Rightarrow> nat \<Rightarrow> u16 \<Rightarrow> u8 list" where
  "EC_WRITE_U16 buf off v = buf[off := ucast v, off + 1 := ucast (drop_bit 8 v)]"

definition EC_WRITE_U32 :: "u8 list \<Rightarrow> nat \<Rightarrow> u32 \<Rightarrow> u8 list" where
  "EC_WRITE_U32 buf off v =
     buf[off := ucast v, off + 1 := ucast (drop_bit 8 v),
         off + 2 := ucast (drop_bit 16 v), off + 3 := ucast (drop_bit 24 v)]"

definition EC_READ_U8 :: "u8 list \<Rightarrow> nat \<Rightarrow> u8" where
  "EC_READ_U8 buf off = buf ! off"

definition EC_READ_U16 :: "u8 list \<Rightarrow> nat \<Rightarrow> u16" where
  "EC_READ_U16 buf off = ucast (buf ! off) OR push_bit 8 (ucast (buf ! (off + 1)))"

section \<open>The byte-order helper\<close>

text \<open>
  \<open>for (i = 0; i < 4; i++) ((u8 *) dst)[i] = ((const u8 *) src)[3 - i];\<close>
  The loop counter runs from \<open>i\<close> to 4; \<open>dst\<close> is a buffer with an offset, \<open>src\<close> the four
  bytes of the source object.
\<close>

function memcpy_swap32_loop :: "nat \<Rightarrow> u8 list \<Rightarrow> nat \<Rightarrow> u8 list \<Rightarrow> u8 list" where
  "memcpy_swap32_loop i dst off src =
     (if i < 4 then memcpy_swap32_loop (i + 1) (dst[off + i := src ! (3 - i)]) off src
      else dst)"
  by pat_completeness auto
termination
  by (relation "measure (\<lambda>(i, dst, off, src). 4 - i)") auto

definition memcpy_swap32 :: "u8 list \<Rightarrow> nat \<Rightarrow> u8 list \<Rightarrow> u8 list" where
  "memcpy_swap32 dst off src = memcpy_swap32_loop 0 dst off src"

section \<open>Constructor and start of an operation\<close>

definition ec_fsm_eoe_init :: "ec_fsm_eoe \<Rightarrow> ec_fsm_eoe" where
  "ec_fsm_eoe_init fsm =
     fsm\<lparr>slave := None, retries := 0, state := None, datagram := None,
         jiffies_start := 0, request := None, frame_type_retries := 0\<rparr>"

definition ec_fsm_eoe_set_ip_param :: "ec_fsm_eoe \<Rightarrow> nat \<Rightarrow> nat \<Rightarrow> ec_fsm_eoe" where
  "ec_fsm_eoe_set_ip_param fsm sl rq =
     fsm\<lparr>slave := Some sl, request := Some rq, state := Some FN_set_ip_start\<rparr>"

section \<open>The set IP parameter request\<close>

text \<open>
  A call that dereferences a NULL pointer does not return: such a call is \<open>None\<close>.
  Log output (\<open>EC_SLAVE_DBG\<close>, \<open>EC_SLAVE_ERR\<close>, \<open>ec_print_data\<close>) changes none of the
  data modelled here and is left out.
\<close>

definition set_ip_size :: "env \<Rightarrow> nat" where
  "set_ip_size env = 8 + ETH_ALEN + 4 + 4 + 4 + 4 + EC_MAX_HOSTNAME_SIZE env"

definition set_ip_flags :: "ec_eoe_request \<Rightarrow> u32" where
  "set_ip_flags req =
     push_bit 0 (of_bool (mac_address_included req \<noteq> 0)) OR
     push_bit 1 (of_bool (ip_address_included req \<noteq> 0)) OR
     push_bit 2 (of_bool (subnet_mask_included req \<noteq> 0)) OR
     push_bit 3 (of_bool (gateway_included req \<noteq> 0)) OR
     push_bit 4 (of_bool (dns_included req \<noteq> 0)) OR
     push_bit 5 (of_bool (name_included req \<noteq> 0))"

text \<open>
  The writes of \<open>ec_fsm_eoe_prepare_set\<close> into the buffer \<open>data\<close>, from the
  \<open>memset\<close> to the copy of the name; \<open>cur\<close> is the offset of the C pointer \<open>cur\<close> in it.
\<close>

definition prepare_set_data :: "env \<Rightarrow> ec_eoe_request \<Rightarrow> u8 list \<Rightarrow> u8 list" where
  "prepare_set_data env req data0 =
     (let data = memset data0 0 0 (set_ip_size env);
          data = EC_WRITE_U8 data 0 (EC_EOE_FRAMETYPE_SET_IP_REQ env);
          data = EC_WRITE_U8 data 1 0;
          data = EC_WRITE_U16 data 2 0;
          data = EC_WRITE_U32 data 4 (set_ip_flags req);
          cur = 8;
          data = (if mac_address_included req \<noteq> 0
                  then memcpy data cur (mac_address req) ETH_ALEN else data);
          cur = cur + ETH_ALEN;
          data = (if ip_address_included req \<noteq> 0
                  then memcpy_swap32 data cur (ip_address req) else data);
          cur = cur + 4;
          data = (if subnet_mask_included req \<noteq> 0
                  then memcpy_swap32 data cur (subnet_mask req) else data);
          cur = cur + 4;
          data = (if gateway_included req \<noteq> 0
                  then memcpy_swap32 data cur (gateway req) else data);
          cur = cur + 4;
          data = (if dns_included req \<noteq> 0
                  then memcpy_swap32 data cur (dns req) else data);
          cur = cur + 4;
          data = (if name_included req \<noteq> 0
                  then memcpy data cur (name req) (EC_MAX_HOSTNAME_SIZE env) else data)
      in data)"

text \<open>
  The result is the returned \<open>int\<close> (0, or the error code of the error pointer) with the
  memory after the call.
\<close>

definition ec_fsm_eoe_prepare_set ::
  "env \<Rightarrow> ec_fsm_eoe \<Rightarrow> mem \<Rightarrow> nat \<Rightarrow> (int \<times> mem) option" where
  "ec_fsm_eoe_prepare_set env fsm m dgram =
     (case slave fsm of
        None \<Rightarrow> None
      | Some sl \<Rightarrow>
          (case ec_slave_mbox_prepare_send env (slaves m sl) (datagrams m dgram)
                  (EC_MBOX_TYPE_EOE env) (set_ip_size env) of
             Inl e \<Rightarrow> Some (e, m)
           | Inr d \<Rightarrow>
               (case request fsm of
                  None \<Rightarrow> None
                | Some rq \<Rightarrow>
                    Some (0, m\<lparr>datagrams := (datagrams m)
                                   (dgram := d\<lparr>mbox_data :=
                                      prepare_set_data env (requests m rq) (mbox_data d)\<rparr>),
                                requests := (requests m)
                                   (rq := (requests m rq)\<lparr>jiffies_sent := jiffies m\<rparr>)\<rparr>))))"

section \<open>The state functions\<close>

definition ec_fsm_eoe_set_ip_start ::
  "env \<Rightarrow> ec_fsm_eoe \<Rightarrow> mem \<Rightarrow> nat \<Rightarrow> (ec_fsm_eoe \<times> mem) option" where
  "ec_fsm_eoe_set_ip_start env fsm m dgram =
     (case slave fsm of
        None \<Rightarrow> None
      | Some sl \<Rightarrow>
          if sii_mailbox_protocols (slaves m sl) AND EC_MBOX_EOE env = 0
          then Some (fsm\<lparr>state := Some FN_error\<rparr>, m)
          else (case ec_fsm_eoe_prepare_set env fsm m dgram of
                  None \<Rightarrow> None
                | Some (r, m') \<Rightarrow>
                    if r \<noteq> 0 then Some (fsm\<lparr>state := Some FN_error\<rparr>, m')
                    else Some (fsm\<lparr>retries := EC_FSM_RETRIES env,
                                   state := Some FN_set_ip_request\<rparr>, m')))"

text \<open>
  Every path through the REQUEST, CHECK and RESPONSE functions reads \<open>fsm->datagram\<close>
  first and dereferences the slave (in \<open>ec_fsm_eoe_prepare_set\<close>, in a mailbox call
  or in the log output), so with a NULL in either of them the call does not return.

  \<open>fsm->datagram->state == EC_DATAGRAM_TIMED_OUT && fsm->retries--\<close>: the decrement
  happens exactly when the datagram timed out, and the condition holds when the value
  before it was not zero. \<open>timed_out_retry\<close> is the machine after the test.
\<close>

definition timed_out_retry :: "ec_fsm_eoe \<Rightarrow> ec_datagram \<Rightarrow> ec_fsm_eoe" where
  "timed_out_retry fsm d =
     (if dg_state d = EC_DATAGRAM_TIMED_OUT then fsm\<lparr>retries := retries fsm - 1\<rparr> else fsm)"

definition ec_fsm_eoe_set_ip_request ::
  "env \<Rightarrow> ec_fsm_eoe \<Rightarrow> mem \<Rightarrow> nat \<Rightarrow> (ec_fsm_eoe \<times> mem) option" where
  "ec_fsm_eoe_set_ip_request env fsm m dgram =
     (case (slave fsm, datagram fsm) of
        (Some sl, Some p) \<Rightarrow>
          (let d = datagrams m p; fsm1 = timed_out_retry fsm d in
           if dg_state d = EC_DATAGRAM_TIMED_OUT \<and> retries fsm \<noteq> 0 then
             (case ec_fsm_eoe_prepare_set env fsm1 m dgram of
                None \<Rightarrow> None
              | Some (r, m') \<Rightarrow>
                  Some (if r \<noteq> 0 then fsm1\<lparr>state := Some FN_error\<rparr> else fsm1, m'))
           else if dg_state d \<noteq> EC_DATAGRAM_RECEIVED then
             Some (fsm1\<lparr>state := Some FN_error\<rparr>, m)
           else if working_counter d \<noteq> 1 then
             (case request fsm1 of
                None \<Rightarrow> None
              | Some rq \<Rightarrow>
                  (let diff_ms = (jiffies m - jiffies_sent (requests m rq)) * 1000 div HZ env in
                   if working_counter d = 0 \<and> diff_ms < EC_EOE_RESPONSE_TIMEOUT then
                     (case ec_fsm_eoe_prepare_set env fsm1 m dgram of
                        None \<Rightarrow> None
                      | Some (r, m') \<Rightarrow>
                          Some (if r \<noteq> 0 then fsm1\<lparr>state := Some FN_error\<rparr> else fsm1, m'))
                   else Some (fsm1\<lparr>state := Some FN_error\<rparr>, m)))
           else
             Some (fsm1\<lparr>jiffies_start := dg_jiffies_sent d,
                        retries := EC_FSM_RETRIES env,
                        state := Some FN_set_ip_check,
                        frame_type_retries := 10\<rparr>,
                   m\<lparr>datagrams := (datagrams m)
                        (dgram := ec_slave_mbox_prepare_check env (slaves m sl)
                                    (datagrams m dgram))\<rparr>))
      | _ \<Rightarrow> None)"

definition ec_fsm_eoe_set_ip_check ::
  "env \<Rightarrow> ec_fsm_eoe \<Rightarrow> mem \<Rightarrow> nat \<Rightarrow> (ec_fsm_eoe \<times> mem) option" where
  "ec_fsm_eoe_set_ip_check env fsm m dgram =
     (case (slave fsm, datagram fsm) of
        (Some sl, Some p) \<Rightarrow>
          (let d = datagrams m p; fsm1 = timed_out_retry fsm d in
           if dg_state d = EC_DATAGRAM_TIMED_OUT \<and> retries fsm \<noteq> 0 then
             Some (fsm1,
                   m\<lparr>datagrams := (datagrams m)
                        (dgram := ec_slave_mbox_prepare_check env (slaves m sl)
                                    (datagrams m dgram))\<rparr>)
           else if dg_state d \<noteq> EC_DATAGRAM_RECEIVED then
             Some (fsm1\<lparr>state := Some FN_error\<rparr>, m)
           else if working_counter d \<noteq> 1 then
             Some (fsm1\<lparr>state := Some FN_error\<rparr>, m)
           else if \<not> ec_slave_mbox_check env d then
             (let diff_ms = (jiffies_received d - jiffies_start fsm1) * 1000 div HZ env in
              if diff_ms \<ge> EC_EOE_RESPONSE_TIMEOUT then
                Some (fsm1\<lparr>state := Some FN_error\<rparr>, m)
              else
                Some (fsm1\<lparr>retries := EC_FSM_RETRIES env\<rparr>,
                      m\<lparr>datagrams := (datagrams m)
                           (dgram := ec_slave_mbox_prepare_check env (slaves m sl)
                                       (datagrams m dgram))\<rparr>))
           else
             Some (fsm1\<lparr>retries := EC_FSM_RETRIES env, state := Some FN_set_ip_response\<rparr>,
                   m\<lparr>datagrams := (datagrams m)
                        (dgram := ec_slave_mbox_prepare_fetch env (slaves m sl)
                                    (datagrams m dgram))\<rparr>))
      | _ \<Rightarrow> None)"

definition ec_fsm_eoe_set_ip_response ::
  "env \<Rightarrow> ec_fsm_eoe \<Rightarrow> mem \<Rightarrow> nat \<Rightarrow> (ec_fsm_eoe \<times> mem) option" where
  "ec_fsm_eoe_set_ip_response env fsm m dgram =
     (case (slave fsm, datagram fsm) of
        (Some sl, Some p) \<Rightarrow>
          (let d = datagrams m p; fsm1 = timed_out_retry fsm d in
           if dg_state d = EC_DATAGRAM_TIMED_OUT \<and> retries fsm \<noteq> 0 then
             Some (fsm1,
                   m\<lparr>datagrams := (datagrams m)
                        (dgram := ec_slave_mbox_prepare_fetch env (slaves m sl)
                                    (datagrams m dgram))\<rparr>)
           else if dg_state d \<noteq> EC_DATAGRAM_RECEIVED then
             Some (fsm1\<lparr>state := Some FN_error\<rparr>, m)
           else if working_counter d \<noteq> 1 then
             Some (fsm1\<lparr>state := Some FN_error\<rparr>, m)
           else
             (case ec_slave_mbox_fetch env (slaves m sl) d of
                Inl e \<Rightarrow> Some (fsm1\<lparr>state := Some FN_error\<rparr>, m)
              | Inr (data, mbox_prot) \<Rightarrow>
                  if mbox_prot \<noteq> EC_MBOX_TYPE_EOE env then
                    Some (fsm1\<lparr>state := Some FN_error\<rparr>, m)
                  else if length data < 4 then
                    Some (fsm1\<lparr>state := Some FN_error\<rparr>, m)
                  else
                    (let frame_type = EC_READ_U8 data 0 AND 0x0f in
                     if frame_type \<noteq> EC_EOE_FRAMETYPE_SET_IP_RES env then
                       (if frame_type_retries fsm1 \<noteq> 0 then
                          Some (fsm1\<lparr>frame_type_retries := frame_type_retries fsm1 - 1,
                                     jiffies_start := dg_jiffies_sent d,
                                     retries := EC_FSM_RETRIES env,
                                     state := Some FN_set_ip_check\<rparr>,
                                m\<lparr>datagrams := (datagrams m)
                                     (dgram := ec_slave_mbox_prepare_check env (slaves m sl)
                                                 (datagrams m dgram))\<rparr>)
                        else
                          Some (fsm1\<lparr>frame_type_retries := frame_type_retries fsm1 - 1,
                                     state := Some FN_error\<rparr>, m))
                     else
                       (case request fsm1 of
                          None \<Rightarrow> None
                        | Some rq \<Rightarrow>
                            (let res = EC_READ_U16 data 2;
                                 m' = m\<lparr>requests := (requests m)
                                         (rq := (requests m rq)\<lparr>result := res\<rparr>)\<rparr>
                             in if res \<noteq> 0 then Some (fsm1\<lparr>state := Some FN_error\<rparr>, m')
                                else Some (fsm1\<lparr>state := Some FN_end\<rparr>, m'))))))
      | _ \<Rightarrow> None)"

definition ec_fsm_eoe_error ::
  "env \<Rightarrow> ec_fsm_eoe \<Rightarrow> mem \<Rightarrow> nat \<Rightarrow> (ec_fsm_eoe \<times> mem) option" where
  "ec_fsm_eoe_error env fsm m dgram = Some (fsm, m)"

definition ec_fsm_eoe_end ::
  "env \<Rightarrow> ec_fsm_eoe \<Rightarrow> mem \<Rightarrow> nat \<Rightarrow> (ec_fsm_eoe \<times> mem) option" where
  "ec_fsm_eoe_end env fsm m dgram = Some (fsm, m)"

section \<open>Executing the current state\<close>

text \<open>The call through the function pointer \<open>fsm->state\<close>.\<close>

fun call_state ::
  "state_fn \<Rightarrow> env \<Rightarrow> ec_fsm_eoe \<Rightarrow> mem \<Rightarrow> nat \<Rightarrow> (ec_fsm_eoe \<times> mem) option" where
  "call_state FN_set_ip_start = ec_fsm_eoe_set_ip_start"
| "call_state FN_set_ip_request = ec_fsm_eoe_set_ip_request"
| "call_state FN_set_ip_check = ec_fsm_eoe_set_ip_check"
| "call_state FN_set_ip_response = ec_fsm_eoe_set_ip_response"
| "call_state FN_end = ec_fsm_eoe_end"
| "call_state FN_error = ec_fsm_eoe_error"

definition datagram_pending :: "ec_fsm_eoe \<Rightarrow> mem \<Rightarrow> bool" where
  "datagram_pending fsm m =
     (case datagram fsm of
        None \<Rightarrow> False
      | Some p \<Rightarrow>
          dg_state (datagrams m p) = EC_DATAGRAM_INIT \<or>
          dg_state (datagrams m p) = EC_DATAGRAM_QUEUED \<or>
          dg_state (datagrams m p) = EC_DATAGRAM_SENT)"

definition ec_fsm_eoe_exec ::
  "env \<Rightarrow> ec_fsm_eoe \<Rightarrow> mem \<Rightarrow> nat \<Rightarrow> (int \<times> ec_fsm_eoe \<times> mem) option" where
  "ec_fsm_eoe_exec env fsm m dgram =
     (if datagram_pending fsm m then Some (0, fsm, m)
      else
        (case state fsm of
           None \<Rightarrow> None
         | Some f \<Rightarrow>
             (case call_state f env fsm m dgram of
                None \<Rightarrow> None
              | Some (fsm', m') \<Rightarrow>
                  (let datagram_used =
                         (state fsm' \<noteq> Some FN_end \<and> state fsm' \<noteq> Some FN_error)
                   in if datagram_used then Some (1, fsm'\<lparr>datagram := Some dgram\<rparr>, m')
                      else Some (0, fsm'\<lparr>datagram := None\<rparr>, m')))))"

definition ec_fsm_eoe_success :: "ec_fsm_eoe \<Rightarrow> bool" where
  "ec_fsm_eoe_success fsm = (state fsm = Some FN_end)"

section \<open>An example configuration\<close>

text \<open>
  A concrete platform and mailbox layer on which the theorems below are instantiated:
  \<open>HZ = 1000\<close>, three retries, a host name of 32 bytes, and a mailbox in which a
  datagram has data when its payload is not empty.
\<close>

definition example_env :: env where
  "example_env =
     \<lparr>HZ = 1000, EC_FSM_RETRIES = 3, EC_MAX_HOSTNAME_SIZE = 32,
      EC_MBOX_TYPE_EOE = 2, EC_MBOX_EOE = 2,
      EC_EOE_FRAMETYPE_SET_IP_REQ = 2, EC_EOE_FRAMETYPE_SET_IP_RES = 3,
      ec_slave_mbox_prepare_send =
        (\<lambda>sl d t n. Inr (d\<lparr>dg_state := EC_DATAGRAM_INIT, mbox_data := replicate n 0xFF\<rparr>)),
      ec_slave_mbox_prepare_check = (\<lambda>sl d. d\<lparr>dg_state := EC_DATAGRAM_INIT\<rparr>),
      ec_slave_mbox_check = (\<lambda>d. mbox_data d \<noteq> []),
      ec_slave_mbox_prepare_fetch = (\<lambda>sl d. d\<lparr>dg_state := EC_DATAGRAM_INIT\<rparr>),
      ec_slave_mbox_fetch = (\<lambda>sl d. Inr (mbox_data d, 2))\<rparr>"

definition example_slave :: ec_slave where
  "example_slave = \<lparr>sii_mailbox_protocols = 0x0E\<rparr>"

definition example_request :: ec_eoe_request where
  "example_request =
     \<lparr>jiffies_sent = 0,
      mac_address_included = 0, ip_address_included = 1, subnet_mask_included = 0,
      gateway_included = 0, dns_included = 0, name_included = 0,
      mac_address = [0x02, 0x00, 0x5E, 0x10, 0x20, 0x30],
      ip_address = [192, 0, 2, 10],
      subnet_mask = [255, 255, 255, 0],
      gateway = [192, 0, 2, 1],
      dns = [192, 0, 2, 53],
      name = replicate 32 0,
      result = 0xFFFF\<rparr>"

definition example_datagram :: "ec_datagram_state \<Rightarrow> u16 \<Rightarrow> u8 list \<Rightarrow> ec_datagram" where
  "example_datagram st wc payload =
     \<lparr>dg_state = st, working_counter = wc, dg_jiffies_sent = 5000,
      jiffies_received = 5001, mbox_data = payload\<rparr>"

definition example_mem :: "ec_datagram \<Rightarrow> mem" where
  "example_mem d =
     \<lparr>jiffies = 5002, slaves = (\<lambda>p. example_slave), requests = (\<lambda>p. example_request),
      datagrams = (\<lambda>p. d)\<rparr>"

definition example_fsm :: "state_fn \<Rightarrow> ec_fsm_eoe" where
  "example_fsm f =
     \<lparr>slave = Some 1, retries = 2, state = Some f, datagram = Some 4,
      jiffies_start = 4000, request = Some 2, frame_type_retries = 10\<rparr>"

section \<open>The request payload as the specification lays it out\<close>

text \<open>
  The flags byte: bit 0 for the MAC address, bit 1 for the IP address, bit 2 for the
  subnet mask, bit 3 for the gateway, bit 4 for the DNS server, bit 5 for the name.
\<close>

definition spec_flags :: "ec_eoe_request \<Rightarrow> u8" where
  "spec_flags req =
     (if mac_address_included req \<noteq> 0 then 1 else 0) +
     (if ip_address_included req \<noteq> 0 then 2 else 0) +
     (if subnet_mask_included req \<noteq> 0 then 4 else 0) +
     (if gateway_included req \<noteq> 0 then 8 else 0) +
     (if dns_included req \<noteq> 0 then 16 else 0) +
     (if name_included req \<noteq> 0 then 32 else 0)"

text \<open>A field of \<open>n\<close> bytes: its bytes when it is included, zeros when it is not.\<close>

definition spec_field :: "u8 \<Rightarrow> u8 list \<Rightarrow> nat \<Rightarrow> u8 list" where
  "spec_field included bytes n = (if included \<noteq> 0 then bytes else replicate n 0)"

text \<open>
  Frame type, three reserved bytes, the flags as a little-endian 32-bit word, the MAC
  address, the four addresses byte-reversed, the host name.
\<close>

definition spec_set_ip_payload :: "env \<Rightarrow> ec_eoe_request \<Rightarrow> u8 list" where
  "spec_set_ip_payload env req =
     [EC_EOE_FRAMETYPE_SET_IP_REQ env, 0, 0, 0] @
     [spec_flags req, 0, 0, 0] @
     spec_field (mac_address_included req) (mac_address req) 6 @
     spec_field (ip_address_included req) (rev (ip_address req)) 4 @
     spec_field (subnet_mask_included req) (rev (subnet_mask req)) 4 @
     spec_field (gateway_included req) (rev (gateway req)) 4 @
     spec_field (dns_included req) (rev (dns req)) 4 @
     spec_field (name_included req) (name req) (EC_MAX_HOSTNAME_SIZE env)"

text \<open>The sizes of the arrays of a request, as the struct declares them.\<close>

definition request_sizes_ok :: "env \<Rightarrow> ec_eoe_request \<Rightarrow> bool" where
  "request_sizes_ok env req =
     (length (mac_address req) = ETH_ALEN \<and> length (ip_address req) = 4 \<and>
      length (subnet_mask req) = 4 \<and> length (gateway req) = 4 \<and> length (dns req) = 4 \<and>
      length (name req) = EC_MAX_HOSTNAME_SIZE env)"

section \<open>The master's cycles\<close>

text \<open>
  Modelled from the spec: the caller of \<open>ec_fsm_eoe_exec\<close>, which is not part of the
  file. Once per cycle the master calls the entry point with a datagram for this cycle;
  before the call the transport has worked on the datagram the machine stored in the
  cycle before. A cycle gives the value of \<open>jiffies\<close> during the call (the state
  functions read it once or twice within one call, and the model reads the same value
  both times), the stored datagram as the transport left it, and the datagram passed.
\<close>

record cycle =
  cy_jiffies :: ulong
  cy_resolved :: ec_datagram
  cy_datagram :: nat

definition arrive :: "cycle \<Rightarrow> ec_fsm_eoe \<Rightarrow> mem \<Rightarrow> mem" where
  "arrive c fsm m =
     m\<lparr>jiffies := cy_jiffies c,
       datagrams := (case datagram fsm of
                       None \<Rightarrow> datagrams m
                     | Some p \<Rightarrow> (datagrams m)(p := cy_resolved c))\<rparr>"

fun run :: "env \<Rightarrow> cycle list \<Rightarrow> ec_fsm_eoe \<Rightarrow> mem \<Rightarrow> (ec_fsm_eoe \<times> mem) option" where
  "run env [] fsm m = Some (fsm, m)"
| "run env (c # cs) fsm m =
     (case ec_fsm_eoe_exec env fsm (arrive c fsm m) (cy_datagram c) of
        None \<Rightarrow> None
      | Some (used, fsm', m') \<Rightarrow> run env cs fsm' m')"

text \<open>What a cycle finds in the stored datagram.\<close>

definition acknowledged :: "cycle \<Rightarrow> bool" where
  "acknowledged c =
     (dg_state (cy_resolved c) = EC_DATAGRAM_RECEIVED \<and> working_counter (cy_resolved c) = 1)"

definition check_ready :: "env \<Rightarrow> cycle \<Rightarrow> bool" where
  "check_ready env c = (acknowledged c \<and> ec_slave_mbox_check env (cy_resolved c))"

definition stray_frame :: "env \<Rightarrow> ec_slave \<Rightarrow> cycle \<Rightarrow> bool" where
  "stray_frame env sl c =
     (acknowledged c \<and>
      (case ec_slave_mbox_fetch env sl (cy_resolved c) of
         Inl e \<Rightarrow> False
       | Inr (data, mbox_prot) \<Rightarrow>
           mbox_prot = EC_MBOX_TYPE_EOE env \<and> 4 \<le> length data \<and>
           data ! 0 AND 0x0f \<noteq> EC_EOE_FRAMETYPE_SET_IP_RES env))"

definition good_frame :: "env \<Rightarrow> ec_slave \<Rightarrow> cycle \<Rightarrow> bool" where
  "good_frame env sl c =
     (acknowledged c \<and>
      (case ec_slave_mbox_fetch env sl (cy_resolved c) of
         Inl e \<Rightarrow> False
       | Inr (data, mbox_prot) \<Rightarrow>
           mbox_prot = EC_MBOX_TYPE_EOE env \<and> 4 \<le> length data \<and>
           data ! 0 AND 0x0f = EC_EOE_FRAMETYPE_SET_IP_RES env \<and>
           EC_READ_U16 data 2 = 0))"

text \<open>A mailbox poll followed by a fetch, for each pair of the list.\<close>

fun polls :: "(cycle \<times> cycle) list \<Rightarrow> cycle list" where
  "polls [] = []"
| "polls ((cc, cr) # ps) = cc # cr # polls ps"

text \<open>
  Every cycle of the list is less than 3000 ms after the one before it, the first after
  the time \<open>t\<close>, as the REQUEST state measures it.
\<close>

fun within_window :: "env \<Rightarrow> ulong \<Rightarrow> cycle list \<Rightarrow> bool" where
  "within_window env t [] = True"
| "within_window env t (c # cs) =
     ((cy_jiffies c - t) * 1000 div HZ env < EC_EOE_RESPONSE_TIMEOUT \<and>
      within_window env (cy_jiffies c) cs)"

text \<open>
  The mailbox accepts the send of the request and gives a buffer of the size asked for;
  and it does so in every cycle of a run, for the slave of the machine and the datagram
  passed in that cycle.
\<close>

definition send_prepared :: "env \<Rightarrow> ec_slave \<Rightarrow> ec_datagram \<Rightarrow> bool" where
  "send_prepared env sl d =
     (case ec_slave_mbox_prepare_send env sl d (EC_MBOX_TYPE_EOE env) (set_ip_size env) of
        Inl e \<Rightarrow> False
      | Inr d' \<Rightarrow> set_ip_size env \<le> length (mbox_data d'))"

fun sends_prepared :: "env \<Rightarrow> cycle list \<Rightarrow> ec_fsm_eoe \<Rightarrow> mem \<Rightarrow> bool" where
  "sends_prepared env [] fsm m = True"
| "sends_prepared env (c # cs) fsm m =
     ((case slave fsm of
         None \<Rightarrow> True
       | Some sl \<Rightarrow>
           send_prepared env (slaves m sl) (datagrams (arrive c fsm m) (cy_datagram c))) \<and>
      (case ec_fsm_eoe_exec env fsm (arrive c fsm m) (cy_datagram c) of
         None \<Rightarrow> True
       | Some (used, fsm', m') \<Rightarrow> sends_prepared env cs fsm' m'))"

text \<open>
  The RESPONSE state is about to decode a payload of another frame type than the SET IP
  response, and the number of cycles of a run in which it does.
\<close>

definition stray_found :: "env \<Rightarrow> ec_fsm_eoe \<Rightarrow> mem \<Rightarrow> bool" where
  "stray_found env fsm m =
     (state fsm = Some FN_set_ip_response \<and>
      (case (slave fsm, datagram fsm) of
         (Some sl, Some p) \<Rightarrow>
           dg_state (datagrams m p) = EC_DATAGRAM_RECEIVED \<and>
           working_counter (datagrams m p) = 1 \<and>
           (case ec_slave_mbox_fetch env (slaves m sl) (datagrams m p) of
              Inl e \<Rightarrow> False
            | Inr (data, mbox_prot) \<Rightarrow>
                mbox_prot = EC_MBOX_TYPE_EOE env \<and> 4 \<le> length data \<and>
                data ! 0 AND 0x0f \<noteq> EC_EOE_FRAMETYPE_SET_IP_RES env)
       | _ \<Rightarrow> False))"

fun stray_count :: "env \<Rightarrow> cycle list \<Rightarrow> ec_fsm_eoe \<Rightarrow> mem \<Rightarrow> nat" where
  "stray_count env [] fsm m = 0"
| "stray_count env (c # cs) fsm m =
     (if stray_found env fsm (arrive c fsm m) then 1 else 0) +
     (case ec_fsm_eoe_exec env fsm (arrive c fsm m) (cy_datagram c) of
        None \<Rightarrow> 0
      | Some (used, fsm', m') \<Rightarrow> stray_count env cs fsm' m')"

section \<open>Example cycles\<close>

text \<open>
  A cycle at time \<open>t\<close> that finds the stored datagram as \<open>d\<close> and passes datagram 5,
  the example configuration with a mailbox that refuses every send with \<open>-EBUSY\<close>, and
  the example configuration with a mailbox that refuses the send to a slave without
  mailbox protocols with \<open>-EPROTONOSUPPORT\<close>.
\<close>

definition example_cycle :: "ulong \<Rightarrow> ec_datagram \<Rightarrow> cycle" where
  "example_cycle t d = \<lparr>cy_jiffies = t, cy_resolved = d, cy_datagram = 5\<rparr>"

definition busy_env :: env where
  "busy_env = example_env\<lparr>ec_slave_mbox_prepare_send := (\<lambda>sl d t n. Inl (- 16))\<rparr>"

definition picky_env :: env where
  "picky_env = example_env\<lparr>ec_slave_mbox_prepare_send :=
     (\<lambda>sl d t n. if sii_mailbox_protocols sl = 0 then Inl (- 93)
                  else Inr (d\<lparr>dg_state := EC_DATAGRAM_INIT, mbox_data := replicate n 0xFF\<rparr>))\<rparr>"

section \<open>The byte-order helper reverses four bytes\<close>

lemma memcpy_swap32_unfold:
  "memcpy_swap32 dst off src =
     dst[off := src ! 3, off + 1 := src ! 2, off + 2 := src ! 1, off + 3 := src ! 0]"
proof -
  have l4: "\<And>d. memcpy_swap32_loop 4 d off src = d"
    by (subst memcpy_swap32_loop.simps) simp
  have l3: "\<And>d. memcpy_swap32_loop 3 d off src = d[off + 3 := src ! 0]"
    by (subst memcpy_swap32_loop.simps) (simp add: l4)
  have l2: "\<And>d. memcpy_swap32_loop 2 d off src = d[off + 2 := src ! 1, off + 3 := src ! 0]"
    by (subst memcpy_swap32_loop.simps) (simp add: l3 eval_nat_numeral)
  have l1: "\<And>d. memcpy_swap32_loop 1 d off src =
      d[off + 1 := src ! 2, off + 2 := src ! 1, off + 3 := src ! 0]"
    by (subst memcpy_swap32_loop.simps) (simp add: l2 eval_nat_numeral)
  show ?thesis
    unfolding memcpy_swap32_def
    by (subst memcpy_swap32_loop.simps) (simp add: l1 eval_nat_numeral)
qed

lemma length_memcpy_swap32: "length (memcpy_swap32 dst off src) = length dst"
  by (simp add: memcpy_swap32_unfold)

lemma four_bytes: "length (xs::u8 list) = 4 \<Longrightarrow> \<exists>a b c d. xs = [a, b, c, d]"
  by (auto simp: numeral_eq_Suc length_Suc_conv)

lemma memcpy_swap32_rev:
  assumes d: "length d = 4" and s: "length s = 4"
  shows "memcpy_swap32 d 0 s = rev s"
proof -
  obtain d0 d1 d2 d3 where dd: "d = [d0, d1, d2, d3]"
    using four_bytes [OF d] by blast
  obtain s0 s1 s2 s3 where ss: "s = [s0, s1, s2, s3]"
    using four_bytes [OF s] by blast
  show ?thesis
    by (simp add: memcpy_swap32_unfold dd ss)
qed

text \<open>
  C8. \<open>memcpy_swap32(dst, src)\<close> writes \<open>dst[i] = src[3 - i]\<close> for \<open>i\<close> in 0..3 and
  nothing else, whatever the host: on a destination of four bytes the result is the
  reversed source, and swapping twice through two buffers gives the source back.
\<close>

theorem memcpy_swap32_reverses:
  assumes "off + 4 \<le> length dst" and "length src = 4" and "length d1 = 4" and "length d2 = 4"
  shows "length (memcpy_swap32 dst off src) = length dst \<and>
         (\<forall>i<4. memcpy_swap32 dst off src ! (off + i) = src ! (3 - i)) \<and>
         (\<forall>j<length dst. j < off \<or> off + 4 \<le> j \<longrightarrow> memcpy_swap32 dst off src ! j = dst ! j) \<and>
         memcpy_swap32 d1 0 src = rev src \<and>
         memcpy_swap32 d2 0 (memcpy_swap32 d1 0 src) = src"
proof -
  have a: "\<forall>i<4. memcpy_swap32 dst off src ! (off + i) = src ! (3 - i)"
  proof (intro allI impI)
    fix i :: nat assume "i < 4"
    then consider "i = 0" | "i = 1" | "i = 2" | "i = 3" by linarith
    then show "memcpy_swap32 dst off src ! (off + i) = src ! (3 - i)"
      using assms(1) by cases (simp_all add: memcpy_swap32_unfold nth_list_update)
  qed
  have b: "\<forall>j<length dst. j < off \<or> off + 4 \<le> j \<longrightarrow> memcpy_swap32 dst off src ! j = dst ! j"
    by (auto simp: memcpy_swap32_unfold nth_list_update)
  have c: "memcpy_swap32 d1 0 src = rev src"
    by (rule memcpy_swap32_rev [OF assms(3) assms(2)])
  have d: "memcpy_swap32 d2 0 (memcpy_swap32 d1 0 src) = src"
    using memcpy_swap32_rev [OF assms(4), of "rev src"] assms(2) by (simp add: c)
  show ?thesis using a b c d by (simp add: length_memcpy_swap32)
qed

theorem memcpy_swap32_reverses_witness:
  "memcpy_swap32 [9, 9, 9, 9, 9, 9] 1 [192, 0, 2, 10] = [9, 10, 2, 0, 192, 9] \<and>
   memcpy_swap32 [0, 0, 0, 0] 0 [192, 0, 2, 10] = [10, 2, 0, 192] \<and>
   memcpy_swap32 [7, 7, 7, 7] 0 (memcpy_swap32 [0, 0, 0, 0] 0 [192, 0, 2, 10]) = [192, 0, 2, 10]"
proof -
  have h1: "(1::nat) + 4 \<le> length [9, 9, 9, 9, 9, 9 :: u8]" by simp
  have h2: "length [192, 0, 2, 10 :: u8] = 4" by simp
  have h3: "length [0, 0, 0, 0 :: u8] = 4" by simp
  have h4: "length [7, 7, 7, 7 :: u8] = 4" by simp
  have w: "memcpy_swap32 [0, 0, 0, 0] 0 [192, 0, 2, 10] = rev [192, 0, 2, 10] \<and>
        memcpy_swap32 [7, 7, 7, 7] 0 (memcpy_swap32 [0, 0, 0, 0] 0 [192, 0, 2, 10]) =
          [192, 0, 2, 10]"
    using memcpy_swap32_reverses [OF h1 h2 h3 h4] by blast
  have u: "memcpy_swap32 [9, 9, 9, 9, 9, 9] 1 [192, 0, 2, 10] = [9, 10, 2, 0, 192, 9]"
    by (simp add: memcpy_swap32_unfold)
  from w have w1: "memcpy_swap32 [0, 0, 0, 0] 0 [192, 0, 2, 10] = [10, 2, 0, 192]"
    by simp
  from w have w2:
    "memcpy_swap32 [7, 7, 7, 7] 0 (memcpy_swap32 [0, 0, 0, 0] 0 [192, 0, 2, 10]) =
       [192, 0, 2, 10]"
    by (rule conjunct2)
  show ?thesis using u w1 w2 by (intro conjI)
qed

section \<open>Starting an operation\<close>

text \<open>
  C7, as the code has it. \<open>ec_fsm_eoe_set_ip_param\<close> sets the state to the START
  function and stores the given slave and request; \<open>retries\<close>, \<open>frame_type_retries\<close>,
  \<open>jiffies_start\<close> and the stored datagram keep the values they had before the call.
  On a machine that \<open>ec_fsm_eoe_init\<close> has just constructed these are 0 and NULL.
\<close>

theorem set_ip_param_keeps_counters:
  "state (ec_fsm_eoe_set_ip_param fsm sl rq) = Some FN_set_ip_start \<and>
   slave (ec_fsm_eoe_set_ip_param fsm sl rq) = Some sl \<and>
   request (ec_fsm_eoe_set_ip_param fsm sl rq) = Some rq \<and>
   retries (ec_fsm_eoe_set_ip_param fsm sl rq) = retries fsm \<and>
   frame_type_retries (ec_fsm_eoe_set_ip_param fsm sl rq) = frame_type_retries fsm \<and>
   jiffies_start (ec_fsm_eoe_set_ip_param fsm sl rq) = jiffies_start fsm \<and>
   datagram (ec_fsm_eoe_set_ip_param fsm sl rq) = datagram fsm \<and>
   retries (ec_fsm_eoe_set_ip_param (ec_fsm_eoe_init fsm) sl rq) = 0 \<and>
   frame_type_retries (ec_fsm_eoe_set_ip_param (ec_fsm_eoe_init fsm) sl rq) = 0 \<and>
   datagram (ec_fsm_eoe_set_ip_param (ec_fsm_eoe_init fsm) sl rq) = None"
  by (simp add: ec_fsm_eoe_set_ip_param_def ec_fsm_eoe_init_def)

text \<open>
  C7, as the claim has it, fails on a machine that is in use: started again while it
  polls the mailbox, the machine keeps its two retry counters and its datagram.
\<close>

theorem set_ip_param_resets_counterexample:
  "\<not> (retries (ec_fsm_eoe_set_ip_param (example_fsm FN_set_ip_check) 1 2) = 0 \<and>
      frame_type_retries (ec_fsm_eoe_set_ip_param (example_fsm FN_set_ip_check) 1 2) = 0 \<and>
      datagram (ec_fsm_eoe_set_ip_param (example_fsm FN_set_ip_check) 1 2) = None)"
  by (simp add: ec_fsm_eoe_set_ip_param_def example_fsm_def)

section \<open>The entry point\<close>

lemma datagram_pending_iff:
  "datagram_pending fsm m \<longleftrightarrow>
     (\<exists>p. datagram fsm = Some p \<and>
          dg_state (datagrams m p) \<in> {EC_DATAGRAM_INIT, EC_DATAGRAM_QUEUED, EC_DATAGRAM_SENT})"
  by (auto simp: datagram_pending_def split: option.splits)

lemma exec_pending:
  "datagram_pending fsm m \<Longrightarrow> ec_fsm_eoe_exec env fsm m dgram = Some (0, fsm, m)"
  by (simp add: ec_fsm_eoe_exec_def)

lemma exec_run:
  assumes "\<not> datagram_pending fsm m" and "state fsm = Some f"
    and "call_state f env fsm m dgram = Some (fsm', m')"
  shows "ec_fsm_eoe_exec env fsm m dgram =
           (if state fsm' \<noteq> Some FN_end \<and> state fsm' \<noteq> Some FN_error
            then Some (1, fsm'\<lparr>datagram := Some dgram\<rparr>, m')
            else Some (0, fsm'\<lparr>datagram := None\<rparr>, m'))"
  using assms by (simp add: ec_fsm_eoe_exec_def)

text \<open>
  C9. Called in the END or the ERROR state with no datagram pending, \<open>ec_fsm_eoe_exec\<close>
  returns 0, leaves the memory (the datagrams, so nothing is prepared for the transport,
  and the requests) as it was, and changes nothing in the machine but the stored
  datagram, which becomes NULL.
\<close>

theorem exec_terminal_idle:
  assumes "state fsm = Some FN_end \<or> state fsm = Some FN_error"
    and "\<not> datagram_pending fsm m"
  shows "ec_fsm_eoe_exec env fsm m dgram = Some (0, fsm\<lparr>datagram := None\<rparr>, m)"
  using assms by (auto simp: ec_fsm_eoe_exec_def ec_fsm_eoe_end_def ec_fsm_eoe_error_def)

theorem exec_terminal_idle_witness:
  "(state (example_fsm FN_error) = Some FN_end \<or> state (example_fsm FN_error) = Some FN_error) \<and>
   \<not> datagram_pending (example_fsm FN_error)
       (example_mem (example_datagram EC_DATAGRAM_RECEIVED 1 [])) \<and>
   ec_fsm_eoe_exec example_env (example_fsm FN_error)
       (example_mem (example_datagram EC_DATAGRAM_RECEIVED 1 [])) 5 =
     Some (0, (example_fsm FN_error)\<lparr>datagram := None\<rparr>,
           example_mem (example_datagram EC_DATAGRAM_RECEIVED 1 []))"
proof -
  have h1: "state (example_fsm FN_error) = Some FN_end \<or>
            state (example_fsm FN_error) = Some FN_error"
    by (simp add: example_fsm_def)
  have h2: "\<not> datagram_pending (example_fsm FN_error)
              (example_mem (example_datagram EC_DATAGRAM_RECEIVED 1 []))"
    by (simp add: datagram_pending_def example_fsm_def example_mem_def example_datagram_def)
  show ?thesis using h1 h2 exec_terminal_idle [OF h1 h2] by simp
qed

text \<open>
  C5. With a stored datagram in state INIT, QUEUED or SENT, \<open>ec_fsm_eoe_exec\<close> returns 0
  and changes nothing: no state function runs. Otherwise it calls the function
  \<open>fsm->state\<close> points to once, and when that call returns it gives 1 and stores the
  passed datagram if the new state is neither END nor ERROR, and gives 0 and stores NULL
  if it is one of the two.
\<close>

theorem exec_driving_contract:
  "(datagram fsm = Some p \<and>
    dg_state (datagrams m p) \<in> {EC_DATAGRAM_INIT, EC_DATAGRAM_QUEUED, EC_DATAGRAM_SENT}
      \<longrightarrow> ec_fsm_eoe_exec env fsm m dgram = Some (0, fsm, m)) \<and>
   ((datagram fsm = None \<or>
     (datagram fsm = Some p \<and>
      dg_state (datagrams m p) \<notin> {EC_DATAGRAM_INIT, EC_DATAGRAM_QUEUED, EC_DATAGRAM_SENT})) \<and>
    state fsm = Some f \<and> call_state f env fsm m dgram = Some (fsm', m')
      \<longrightarrow> (state fsm' \<noteq> Some FN_end \<and> state fsm' \<noteq> Some FN_error
             \<longrightarrow> ec_fsm_eoe_exec env fsm m dgram = Some (1, fsm'\<lparr>datagram := Some dgram\<rparr>, m')) \<and>
          (state fsm' = Some FN_end \<or> state fsm' = Some FN_error
             \<longrightarrow> ec_fsm_eoe_exec env fsm m dgram = Some (0, fsm'\<lparr>datagram := None\<rparr>, m')))"
proof (intro conjI impI)
  assume "datagram fsm = Some p \<and>
    dg_state (datagrams m p) \<in> {EC_DATAGRAM_INIT, EC_DATAGRAM_QUEUED, EC_DATAGRAM_SENT}"
  then have "datagram_pending fsm m"
    by (auto simp: datagram_pending_iff)
  then show "ec_fsm_eoe_exec env fsm m dgram = Some (0, fsm, m)"
    by (rule exec_pending)
next
  assume a: "(datagram fsm = None \<or>
     (datagram fsm = Some p \<and>
      dg_state (datagrams m p) \<notin> {EC_DATAGRAM_INIT, EC_DATAGRAM_QUEUED, EC_DATAGRAM_SENT})) \<and>
    state fsm = Some f \<and> call_state f env fsm m dgram = Some (fsm', m')"
    and b: "state fsm' \<noteq> Some FN_end \<and> state fsm' \<noteq> Some FN_error"
  from a have "\<not> datagram_pending fsm m"
    by (auto simp: datagram_pending_iff)
  with a b show "ec_fsm_eoe_exec env fsm m dgram = Some (1, fsm'\<lparr>datagram := Some dgram\<rparr>, m')"
    by (simp add: exec_run)
next
  assume a: "(datagram fsm = None \<or>
     (datagram fsm = Some p \<and>
      dg_state (datagrams m p) \<notin> {EC_DATAGRAM_INIT, EC_DATAGRAM_QUEUED, EC_DATAGRAM_SENT})) \<and>
    state fsm = Some f \<and> call_state f env fsm m dgram = Some (fsm', m')"
    and b: "state fsm' = Some FN_end \<or> state fsm' = Some FN_error"
  from a have "\<not> datagram_pending fsm m"
    by (auto simp: datagram_pending_iff)
  with a b show "ec_fsm_eoe_exec env fsm m dgram = Some (0, fsm'\<lparr>datagram := None\<rparr>, m')"
    by (auto simp: exec_run)
qed

lemmas example_defs =
  example_env_def example_slave_def example_request_def example_datagram_def
  example_mem_def example_fsm_def

theorem exec_driving_contract_witness:
  "ec_fsm_eoe_exec example_env (example_fsm FN_set_ip_check)
       (example_mem (example_datagram EC_DATAGRAM_SENT 0 [])) 5 =
     Some (0, example_fsm FN_set_ip_check, example_mem (example_datagram EC_DATAGRAM_SENT 0 [])) \<and>
   ec_fsm_eoe_exec example_env (example_fsm FN_set_ip_check)
       (example_mem (example_datagram EC_DATAGRAM_RECEIVED 1 [0x03, 0x00, 0x00, 0x00])) 5 =
     Some (1, (example_fsm FN_set_ip_check)
                \<lparr>retries := 3, state := Some FN_set_ip_response, datagram := Some 5\<rparr>,
           (example_mem (example_datagram EC_DATAGRAM_RECEIVED 1 [0x03, 0x00, 0x00, 0x00]))
             \<lparr>datagrams := (\<lambda>p. example_datagram EC_DATAGRAM_RECEIVED 1 [0x03, 0x00, 0x00, 0x00])
                (5 := example_datagram EC_DATAGRAM_INIT 1 [0x03, 0x00, 0x00, 0x00])\<rparr>) \<and>
   ec_fsm_eoe_exec example_env (example_fsm FN_set_ip_check)
       (example_mem (example_datagram EC_DATAGRAM_RECEIVED 0 [])) 5 =
     Some (0, (example_fsm FN_set_ip_check)\<lparr>state := Some FN_error, datagram := None\<rparr>,
           example_mem (example_datagram EC_DATAGRAM_RECEIVED 0 []))"
proof -
  let ?F = "example_fsm FN_set_ip_check"
  let ?M = "\<lambda>st wc data. example_mem (example_datagram st wc data)"
  have f: "state ?F = Some FN_set_ip_check" and d: "datagram ?F = Some 4"
    by (simp_all add: example_defs)
  have p: "dg_state (datagrams (?M EC_DATAGRAM_SENT 0 []) 4) \<in>
      {EC_DATAGRAM_INIT, EC_DATAGRAM_QUEUED, EC_DATAGRAM_SENT}"
    by (simp add: example_defs)
  have q: "\<And>wc data. dg_state (datagrams (?M EC_DATAGRAM_RECEIVED wc data) 4) \<notin>
      {EC_DATAGRAM_INIT, EC_DATAGRAM_QUEUED, EC_DATAGRAM_SENT}"
    by (simp add: example_defs)
  have c1: "call_state FN_set_ip_check example_env ?F
        (?M EC_DATAGRAM_RECEIVED 1 [0x03, 0x00, 0x00, 0x00]) 5 =
      Some (?F\<lparr>retries := 3, state := Some FN_set_ip_response\<rparr>,
            (?M EC_DATAGRAM_RECEIVED 1 [0x03, 0x00, 0x00, 0x00])
              \<lparr>datagrams := (\<lambda>p. example_datagram EC_DATAGRAM_RECEIVED 1 [0x03, 0x00, 0x00, 0x00])
                 (5 := example_datagram EC_DATAGRAM_INIT 1 [0x03, 0x00, 0x00, 0x00])\<rparr>)"
    by (simp add: ec_fsm_eoe_set_ip_check_def timed_out_retry_def example_defs)
  have c2: "call_state FN_set_ip_check example_env ?F (?M EC_DATAGRAM_RECEIVED 0 []) 5 =
      Some (?F\<lparr>state := Some FN_error\<rparr>, ?M EC_DATAGRAM_RECEIVED 0 [])"
    by (simp add: ec_fsm_eoe_set_ip_check_def timed_out_retry_def example_defs)
  have s1: "state (?F\<lparr>retries := 3, state := Some FN_set_ip_response\<rparr>) \<noteq> Some FN_end \<and>
            state (?F\<lparr>retries := 3, state := Some FN_set_ip_response\<rparr>) \<noteq> Some FN_error"
    by simp
  have s2: "state (?F\<lparr>state := Some FN_error\<rparr>) = Some FN_end \<or>
            state (?F\<lparr>state := Some FN_error\<rparr>) = Some FN_error"
    by simp
  have a: "ec_fsm_eoe_exec example_env ?F (?M EC_DATAGRAM_SENT 0 []) 5 =
      Some (0, ?F, ?M EC_DATAGRAM_SENT 0 [])"
    using exec_driving_contract [of ?F 4 "?M EC_DATAGRAM_SENT 0 []" example_env 5] d p
    by blast
  have b: "ec_fsm_eoe_exec example_env ?F (?M EC_DATAGRAM_RECEIVED 1 [0x03, 0x00, 0x00, 0x00]) 5 =
      Some (1, ?F\<lparr>retries := 3, state := Some FN_set_ip_response, datagram := Some 5\<rparr>,
            (?M EC_DATAGRAM_RECEIVED 1 [0x03, 0x00, 0x00, 0x00])
              \<lparr>datagrams := (\<lambda>p. example_datagram EC_DATAGRAM_RECEIVED 1 [0x03, 0x00, 0x00, 0x00])
                 (5 := example_datagram EC_DATAGRAM_INIT 1 [0x03, 0x00, 0x00, 0x00])\<rparr>)"
    using exec_driving_contract [of ?F 4 "?M EC_DATAGRAM_RECEIVED 1 [0x03, 0x00, 0x00, 0x00]"
        example_env 5 FN_set_ip_check] d f q c1 s1
    by (metis (no_types, lifting))
  have c: "ec_fsm_eoe_exec example_env ?F (?M EC_DATAGRAM_RECEIVED 0 []) 5 =
      Some (0, ?F\<lparr>state := Some FN_error, datagram := None\<rparr>, ?M EC_DATAGRAM_RECEIVED 0 [])"
    using exec_driving_contract [of ?F 4 "?M EC_DATAGRAM_RECEIVED 0 []"
        example_env 5 FN_set_ip_check] d f q c2 s2
    by (metis (no_types, lifting))
  show ?thesis using a b c by (intro conjI)
qed

section \<open>Word arithmetic\<close>

lemma u8_lt: "unat (x::u8) < 256"
  using unsigned_less [of x, where 'a = nat] by simp

lemma unat_ucast_u8: "unat (ucast x :: u16) = unat (x::u8)"
proof -
  have "unat x < 2 ^ 16" using u8_lt [of x] by simp
  then show ?thesis
    by (simp add: unsigned_ucast_eq take_bit_nat_eq_self)
qed

lemma diff_ms_exact:
  "unat (t::ulong) * 1000 < 2 ^ 64 \<Longrightarrow> unat (t * 1000 div h) = unat t * 1000 div unat h"
proof -
  assume a: "unat t * 1000 < 2 ^ 64"
  have "unat t * unat (1000::ulong) < 2 ^ LENGTH(64)" using a by simp
  then have "unat (t * 1000) = unat t * unat (1000::ulong)"
    by (simp only: unat_mult_lem)
  then show ?thesis by (simp add: unat_div)
qed

lemma le16_or_add:
  fixes a b :: u8
  shows "(ucast a OR push_bit 8 (ucast b) :: u16) = ucast a + push_bit 8 (ucast b)"
  by (rule disjunctive_add_eq_or [symmetric])
     (auto simp: bit_eq_iff bit_simps dest: bit_imp_le_length)

lemma read_u16_le: "unat (EC_READ_U16 data 2) = unat (data ! 2) + 256 * unat (data ! 3)"
proof -
  have p: "\<And>x::u8. unat (push_bit 8 (ucast x) :: u16) = 256 * unat x"
  proof -
    fix x :: u8
    have "unat (ucast x :: u16) * unat (256 :: u16) < 2 ^ LENGTH(16)"
      using u8_lt [of x] by (simp add: unat_ucast_u8)
    then have "unat ((ucast x :: u16) * 256) = unat (ucast x :: u16) * unat (256 :: u16)"
      by (simp only: unat_mult_lem)
    then show "unat (push_bit 8 (ucast x) :: u16) = 256 * unat x"
      by (simp add: push_bit_eq_mult unat_ucast_u8)
  qed
  have "unat (ucast (data ! 2) :: u16) + unat (push_bit 8 (ucast (data ! 3)) :: u16) < 2 ^ LENGTH(16)"
    using u8_lt [of "data ! 2"] u8_lt [of "data ! 3"] by (simp add: unat_ucast_u8 p)
  then have "unat ((ucast (data ! 2) :: u16) + push_bit 8 (ucast (data ! 3))) =
      unat (ucast (data ! 2) :: u16) + unat (push_bit 8 (ucast (data ! 3)) :: u16)"
    by (simp only: unat_add_lem)
  then show ?thesis
    by (simp add: EC_READ_U16_def le16_or_add unat_ucast_u8 p)
qed

lemma flags_bytes:
  "ucast (set_ip_flags req) = spec_flags req \<and>
   (ucast (drop_bit 8 (set_ip_flags req)) :: u8) = 0 \<and>
   (ucast (drop_bit 16 (set_ip_flags req)) :: u8) = 0 \<and>
   (ucast (drop_bit 24 (set_ip_flags req)) :: u8) = 0"
  by (simp add: set_ip_flags_def spec_flags_def)

section \<open>The absolute timeout of the CHECK state\<close>

text \<open>
  C2. In CHECK, with the stored datagram received with working counter 1 and no data in
  the mailbox, the machine compares \<open>(jiffies_received - jiffies_start) * 1000 / HZ\<close>
  with 3000: at 3000 or more it goes to ERROR, whatever \<open>retries\<close> holds; below 3000 it
  prepares another mailbox check on the passed datagram, sets \<open>retries\<close> to
  \<open>EC_FSM_RETRIES\<close> and stays in CHECK. As long as the product does not overflow the
  64 bits, the compared value is the elapsed time in milliseconds.
\<close>

theorem check_response_timeout:
  assumes "slave fsm = Some sl" and "datagram fsm = Some p"
    and "dg_state (datagrams m p) = EC_DATAGRAM_RECEIVED"
    and "working_counter (datagrams m p) = 1"
    and "\<not> ec_slave_mbox_check env (datagrams m p)"
  shows "(3000 \<le> (jiffies_received (datagrams m p) - jiffies_start fsm) * 1000 div HZ env
            \<longrightarrow> ec_fsm_eoe_set_ip_check env fsm m dgram =
                  Some (fsm\<lparr>state := Some FN_error\<rparr>, m)) \<and>
         ((jiffies_received (datagrams m p) - jiffies_start fsm) * 1000 div HZ env < 3000
            \<longrightarrow> ec_fsm_eoe_set_ip_check env fsm m dgram =
                  Some (fsm\<lparr>retries := EC_FSM_RETRIES env\<rparr>,
                        m\<lparr>datagrams := (datagrams m)
                             (dgram := ec_slave_mbox_prepare_check env (slaves m sl)
                                         (datagrams m dgram))\<rparr>)) \<and>
         (unat (jiffies_received (datagrams m p) - jiffies_start fsm) * 1000 < 2 ^ 64
            \<longrightarrow> unat ((jiffies_received (datagrams m p) - jiffies_start fsm) * 1000 div HZ env) =
                  unat (jiffies_received (datagrams m p) - jiffies_start fsm) * 1000
                    div unat (HZ env))"
proof (intro conjI impI)
  assume "3000 \<le> (jiffies_received (datagrams m p) - jiffies_start fsm) * 1000 div HZ env"
  with assms show "ec_fsm_eoe_set_ip_check env fsm m dgram = Some (fsm\<lparr>state := Some FN_error\<rparr>, m)"
    by (simp add: ec_fsm_eoe_set_ip_check_def timed_out_retry_def EC_EOE_RESPONSE_TIMEOUT_def
          Let_def)
next
  assume "(jiffies_received (datagrams m p) - jiffies_start fsm) * 1000 div HZ env < 3000"
  with assms show "ec_fsm_eoe_set_ip_check env fsm m dgram =
      Some (fsm\<lparr>retries := EC_FSM_RETRIES env\<rparr>,
            m\<lparr>datagrams := (datagrams m)
                 (dgram := ec_slave_mbox_prepare_check env (slaves m sl) (datagrams m dgram))\<rparr>)"
    by (simp add: ec_fsm_eoe_set_ip_check_def timed_out_retry_def EC_EOE_RESPONSE_TIMEOUT_def
          Let_def not_le)
next
  assume "unat (jiffies_received (datagrams m p) - jiffies_start fsm) * 1000 < 2 ^ 64"
  then show "unat ((jiffies_received (datagrams m p) - jiffies_start fsm) * 1000 div HZ env) =
      unat (jiffies_received (datagrams m p) - jiffies_start fsm) * 1000 div unat (HZ env)"
    by (rule diff_ms_exact)
qed

theorem check_response_timeout_witness:
  "ec_fsm_eoe_set_ip_check example_env ((example_fsm FN_set_ip_check)\<lparr>jiffies_start := 1000\<rparr>)
       (example_mem (example_datagram EC_DATAGRAM_RECEIVED 1 [])) 5 =
     Some ((example_fsm FN_set_ip_check)\<lparr>jiffies_start := 1000, state := Some FN_error\<rparr>,
           example_mem (example_datagram EC_DATAGRAM_RECEIVED 1 [])) \<and>
   state (fst (the (ec_fsm_eoe_set_ip_check example_env (example_fsm FN_set_ip_check)
       (example_mem (example_datagram EC_DATAGRAM_RECEIVED 1 [])) 5))) = Some FN_set_ip_check \<and>
   retries (fst (the (ec_fsm_eoe_set_ip_check example_env (example_fsm FN_set_ip_check)
       (example_mem (example_datagram EC_DATAGRAM_RECEIVED 1 [])) 5))) = 3"
proof -
  let ?M = "example_mem (example_datagram EC_DATAGRAM_RECEIVED 1 [])"
  let ?F = "example_fsm FN_set_ip_check"
  let ?G = "(example_fsm FN_set_ip_check)\<lparr>jiffies_start := 1000\<rparr>"
  have f1: "slave ?F = Some 1" and f2: "datagram ?F = Some 4"
    and g1: "slave ?G = Some 1" and g2: "datagram ?G = Some 4"
    by (simp_all add: example_defs)
  have m3: "dg_state (datagrams ?M 4) = EC_DATAGRAM_RECEIVED"
    and m4: "working_counter (datagrams ?M 4) = 1"
    and m5: "\<not> ec_slave_mbox_check example_env (datagrams ?M 4)"
    by (simp_all add: example_defs)
  have late: "3000 \<le> (jiffies_received (datagrams ?M 4) - jiffies_start ?G) * 1000
                 div HZ example_env"
    by (simp add: example_defs)
  have early: "(jiffies_received (datagrams ?M 4) - jiffies_start ?F) * 1000
                 div HZ example_env < 3000"
    by (simp add: example_defs)
  have a: "ec_fsm_eoe_set_ip_check example_env ?G ?M 5 = Some (?G\<lparr>state := Some FN_error\<rparr>, ?M)"
    using check_response_timeout [OF g1 g2 m3 m4 m5, of 5] late by blast
  have b: "ec_fsm_eoe_set_ip_check example_env ?F ?M 5 =
      Some (?F\<lparr>retries := EC_FSM_RETRIES example_env\<rparr>,
            ?M\<lparr>datagrams := (datagrams ?M)
                 (5 := ec_slave_mbox_prepare_check example_env (slaves ?M 1) (datagrams ?M 5))\<rparr>)"
    using check_response_timeout [OF f1 f2 m3 m4 m5, of 5] early by blast
  have c: "state (fst (the (ec_fsm_eoe_set_ip_check example_env ?F ?M 5))) = Some FN_set_ip_check"
    by (simp add: b) (simp add: example_defs)
  have d: "retries (fst (the (ec_fsm_eoe_set_ip_check example_env ?F ?M 5))) = 3"
    by (simp add: b) (simp add: example_defs)
  show ?thesis using a c d by simp
qed

section \<open>Validation of the response\<close>

text \<open>
  C4. In RESPONSE, after a fetch that succeeded: a mailbox protocol other than EoE is an
  error; else a payload of fewer than 4 bytes is an error; else, when the low four bits
  of byte 0 are the SET IP response type, the little-endian 16-bit value of bytes 2 and 3
  is stored in \<open>request->result\<close>, and the new state is END when it is 0 and ERROR when
  it is not, the code staying in the request.
\<close>

theorem response_validation:
  assumes "slave fsm = Some sl" and "datagram fsm = Some p"
    and "dg_state (datagrams m p) = EC_DATAGRAM_RECEIVED"
    and "working_counter (datagrams m p) = 1"
    and "ec_slave_mbox_fetch env (slaves m sl) (datagrams m p) = Inr (data, mbox_prot)"
  shows "(mbox_prot \<noteq> EC_MBOX_TYPE_EOE env
            \<longrightarrow> ec_fsm_eoe_set_ip_response env fsm m dgram =
                  Some (fsm\<lparr>state := Some FN_error\<rparr>, m)) \<and>
         (mbox_prot = EC_MBOX_TYPE_EOE env \<and> length data < 4
            \<longrightarrow> ec_fsm_eoe_set_ip_response env fsm m dgram =
                  Some (fsm\<lparr>state := Some FN_error\<rparr>, m)) \<and>
         (mbox_prot = EC_MBOX_TYPE_EOE env \<and> 4 \<le> length data \<and>
          data ! 0 AND 0x0f = EC_EOE_FRAMETYPE_SET_IP_RES env \<and> request fsm = Some rq
            \<longrightarrow> ec_fsm_eoe_set_ip_response env fsm m dgram =
                  Some (fsm\<lparr>state := Some (if EC_READ_U16 data 2 = 0 then FN_end else FN_error)\<rparr>,
                        m\<lparr>requests := (requests m)
                             (rq := (requests m rq)\<lparr>result := EC_READ_U16 data 2\<rparr>)\<rparr>) \<and>
                unat (EC_READ_U16 data 2) = unat (data ! 2) + 256 * unat (data ! 3))"
  using assms
  by (simp add: ec_fsm_eoe_set_ip_response_def timed_out_retry_def EC_READ_U8_def read_u16_le Let_def)

theorem response_validation_witness:
  "ec_fsm_eoe_set_ip_response example_env (example_fsm FN_set_ip_response)
       (example_mem (example_datagram EC_DATAGRAM_RECEIVED 1 [0x03, 0x00, 0x01, 0x00])) 5 =
     Some ((example_fsm FN_set_ip_response)\<lparr>state := Some FN_error\<rparr>,
           (example_mem (example_datagram EC_DATAGRAM_RECEIVED 1 [0x03, 0x00, 0x01, 0x00]))
             \<lparr>requests := (\<lambda>p. example_request)(2 := example_request\<lparr>result := 1\<rparr>)\<rparr>) \<and>
   ec_fsm_eoe_set_ip_response example_env (example_fsm FN_set_ip_response)
       (example_mem (example_datagram EC_DATAGRAM_RECEIVED 1 [0x03, 0x00, 0x00, 0x00])) 5 =
     Some ((example_fsm FN_set_ip_response)\<lparr>state := Some FN_end\<rparr>,
           (example_mem (example_datagram EC_DATAGRAM_RECEIVED 1 [0x03, 0x00, 0x00, 0x00]))
             \<lparr>requests := (\<lambda>p. example_request)(2 := example_request\<lparr>result := 0\<rparr>)\<rparr>) \<and>
   ec_fsm_eoe_set_ip_response example_env (example_fsm FN_set_ip_response)
       (example_mem (example_datagram EC_DATAGRAM_RECEIVED 1 [0x03, 0x00, 0x00])) 5 =
     Some ((example_fsm FN_set_ip_response)\<lparr>state := Some FN_error\<rparr>,
           example_mem (example_datagram EC_DATAGRAM_RECEIVED 1 [0x03, 0x00, 0x00]))"
proof -
  let ?F = "example_fsm FN_set_ip_response"
  let ?M = "\<lambda>data. example_mem (example_datagram EC_DATAGRAM_RECEIVED 1 data)"
  have f1: "slave ?F = Some 1" and f2: "datagram ?F = Some 4" and f3: "request ?F = Some 2"
    by (simp_all add: example_defs)
  have m3: "\<And>data. dg_state (datagrams (?M data) 4) = EC_DATAGRAM_RECEIVED"
    and m4: "\<And>data. working_counter (datagrams (?M data) 4) = 1"
    and m5: "\<And>data. ec_slave_mbox_fetch example_env (slaves (?M data) 1) (datagrams (?M data) 4) =
                Inr (data, 2)"
    by (simp_all add: example_defs)
  have ok: "\<And>data. 4 \<le> length data \<Longrightarrow> data ! 0 AND 0x0f = 3 \<Longrightarrow>
      2 = EC_MBOX_TYPE_EOE example_env \<and> 4 \<le> length data \<and>
      data ! 0 AND 0x0f = EC_EOE_FRAMETYPE_SET_IP_RES example_env \<and> request ?F = Some 2"
    by (simp add: example_defs)
  have ok1: "2 = EC_MBOX_TYPE_EOE example_env \<and> 4 \<le> length [0x03, 0x00, 0x01, 0x00 :: u8] \<and>
      [0x03, 0x00, 0x01, 0x00] ! 0 AND 0x0f = EC_EOE_FRAMETYPE_SET_IP_RES example_env \<and>
      request ?F = Some 2"
    by (rule ok) simp_all
  have ok0: "2 = EC_MBOX_TYPE_EOE example_env \<and> 4 \<le> length [0x03, 0x00, 0x00, 0x00 :: u8] \<and>
      [0x03, 0x00, 0x00, 0x00] ! 0 AND 0x0f = EC_EOE_FRAMETYPE_SET_IP_RES example_env \<and>
      request ?F = Some 2"
    by (rule ok) simp_all
  have short: "2 = EC_MBOX_TYPE_EOE example_env \<and> length [0x03, 0x00, 0x00 :: u8] < 4"
    by (simp add: example_defs)
  have a: "ec_fsm_eoe_set_ip_response example_env ?F (?M [0x03, 0x00, 0x01, 0x00]) 5 =
      Some (?F\<lparr>state := Some FN_error\<rparr>,
            (?M [0x03, 0x00, 0x01, 0x00])\<lparr>requests := (\<lambda>p. example_request)(2 := example_request\<lparr>result := 1\<rparr>)\<rparr>)"
  proof -
    have "ec_fsm_eoe_set_ip_response example_env ?F (?M [0x03, 0x00, 0x01, 0x00]) 5 =
        Some (?F\<lparr>state := Some (if EC_READ_U16 [0x03, 0x00, 0x01, 0x00] 2 = 0
                                  then FN_end else FN_error)\<rparr>,
              (?M [0x03, 0x00, 0x01, 0x00])\<lparr>requests := (requests (?M [0x03, 0x00, 0x01, 0x00]))
                 (2 := (requests (?M [0x03, 0x00, 0x01, 0x00]) 2)
                    \<lparr>result := EC_READ_U16 [0x03, 0x00, 0x01, 0x00] 2\<rparr>)\<rparr>)"
      by (rule response_validation [OF f1 f2 m3 m4 m5, THEN conjunct2, THEN conjunct2,
            THEN mp, OF ok1, THEN conjunct1])
    also have "\<dots> = Some (?F\<lparr>state := Some FN_error\<rparr>,
            (?M [0x03, 0x00, 0x01, 0x00])\<lparr>requests := (\<lambda>p. example_request)(2 := example_request\<lparr>result := 1\<rparr>)\<rparr>)"
      by (simp add: EC_READ_U16_def example_mem_def)
    finally show ?thesis .
  qed
  have b: "ec_fsm_eoe_set_ip_response example_env ?F (?M [0x03, 0x00, 0x00, 0x00]) 5 =
      Some (?F\<lparr>state := Some FN_end\<rparr>,
            (?M [0x03, 0x00, 0x00, 0x00])\<lparr>requests := (\<lambda>p. example_request)(2 := example_request\<lparr>result := 0\<rparr>)\<rparr>)"
  proof -
    have "ec_fsm_eoe_set_ip_response example_env ?F (?M [0x03, 0x00, 0x00, 0x00]) 5 =
        Some (?F\<lparr>state := Some (if EC_READ_U16 [0x03, 0x00, 0x00, 0x00] 2 = 0
                                  then FN_end else FN_error)\<rparr>,
              (?M [0x03, 0x00, 0x00, 0x00])\<lparr>requests := (requests (?M [0x03, 0x00, 0x00, 0x00]))
                 (2 := (requests (?M [0x03, 0x00, 0x00, 0x00]) 2)
                    \<lparr>result := EC_READ_U16 [0x03, 0x00, 0x00, 0x00] 2\<rparr>)\<rparr>)"
      by (rule response_validation [OF f1 f2 m3 m4 m5, THEN conjunct2, THEN conjunct2,
            THEN mp, OF ok0, THEN conjunct1])
    also have "\<dots> = Some (?F\<lparr>state := Some FN_end\<rparr>,
            (?M [0x03, 0x00, 0x00, 0x00])\<lparr>requests := (\<lambda>p. example_request)(2 := example_request\<lparr>result := 0\<rparr>)\<rparr>)"
      by (simp add: EC_READ_U16_def example_mem_def)
    finally show ?thesis .
  qed
  have c: "ec_fsm_eoe_set_ip_response example_env ?F (?M [0x03, 0x00, 0x00]) 5 =
      Some (?F\<lparr>state := Some FN_error\<rparr>, ?M [0x03, 0x00, 0x00])"
    by (rule response_validation [OF f1 f2 m3 m4 m5, THEN conjunct2, THEN conjunct1,
          THEN mp, OF short])
  show ?thesis using a b c by (intro conjI)
qed

section \<open>The layout of the request\<close>

lemma memset_splice:
  "off + n \<le> length buf \<Longrightarrow>
   memset buf off c n = take off buf @ replicate n c @ drop (off + n) buf"
proof (induction n arbitrary: buf off)
  case 0
  then show ?case by simp
next
  case (Suc n)
  from Suc.prems have lt: "off < length buf" by simp
  have "memset buf off c (Suc n) = memset (buf[off := c]) (Suc off) c n" by simp
  also have "\<dots> = take (Suc off) (buf[off := c]) @ replicate n c @
      drop (Suc off + n) (buf[off := c])"
    using Suc.prems by (intro Suc.IH) simp
  also have "take (Suc off) (buf[off := c]) = take off buf @ [c]"
    using lt by (simp add: take_Suc_conv_app_nth)
  also have "drop (Suc off + n) (buf[off := c]) = drop (off + Suc n) buf"
    by simp
  finally show ?case by (simp add: replicate_app_Cons_same)
qed

lemma memcpy_splice:
  "off + n \<le> length dst \<Longrightarrow> n \<le> length src \<Longrightarrow>
   memcpy dst off src n = take off dst @ take n src @ drop (off + n) dst"
proof (induction n arbitrary: dst off src)
  case 0
  then show ?case by simp
next
  case (Suc n)
  from Suc.prems obtain b bs where src: "src = b # bs" by (cases src) auto
  from Suc.prems have lt: "off < length dst" by simp
  have "memcpy dst off src (Suc n) = memcpy (dst[off := b]) (Suc off) bs n"
    by (simp add: src)
  also have "\<dots> = take (Suc off) (dst[off := b]) @ take n bs @
      drop (Suc off + n) (dst[off := b])"
    using Suc.prems src by (intro Suc.IH) simp_all
  also have "take (Suc off) (dst[off := b]) = take off dst @ [b]"
    using lt by (simp add: take_Suc_conv_app_nth)
  also have "drop (Suc off + n) (dst[off := b]) = drop (off + Suc n) dst"
    by simp
  finally show ?case by (simp add: src)
qed

lemma memcpy_segment:
  assumes "length A = off" and "length B = n" and "length src = n"
  shows "memcpy (A @ B @ C) off src n = A @ src @ C"
  using assms by (simp add: memcpy_splice)

lemma memcpy_swap32_segment:
  assumes "length A = off" and "length B = 4" and "length src = 4"
  shows "memcpy_swap32 (A @ B @ C) off src = A @ rev src @ C"
proof -
  obtain b0 b1 b2 b3 where B: "B = [b0, b1, b2, b3]"
    using four_bytes [OF assms(2)] by blast
  obtain s0 s1 s2 s3 where s: "src = [s0, s1, s2, s3]"
    using four_bytes [OF assms(3)] by blast
  show ?thesis
    using assms(1) by (simp add: memcpy_swap32_unfold B s list_update_append)
qed

lemma spec_field_length: "length bytes = n \<Longrightarrow> length (spec_field inc bytes n) = n"
  by (simp add: spec_field_def)

lemma write_field_memcpy:
  assumes "length A = off" and "length src = n"
  shows "(if inc \<noteq> 0 then memcpy (A @ replicate n 0 @ C) off src n else A @ replicate n 0 @ C) =
         A @ spec_field inc src n @ C"
  using assms by (simp add: spec_field_def memcpy_segment)

lemma write_field_swap32:
  assumes "length A = off" and "length src = 4"
  shows "(if inc \<noteq> 0 then memcpy_swap32 (A @ replicate 4 0 @ C) off src
          else A @ replicate 4 0 @ C) =
         A @ spec_field inc (rev src) 4 @ C"
  using assms by (simp add: spec_field_def memcpy_swap32_segment)

lemma header_writes:
  "EC_WRITE_U32 (EC_WRITE_U16 (EC_WRITE_U8 (EC_WRITE_U8 (replicate 8 0 @ R) 0 t) 1 0) 2 0) 4
     (set_ip_flags req) =
   [t, 0, 0, 0] @ [spec_flags req, 0, 0, 0] @ R"
proof -
  have r: "replicate 8 (0::u8) = [0, 0, 0, 0, 0, 0, 0, 0]"
    by (simp add: numeral_eq_Suc)
  show ?thesis
    by (simp add: r EC_WRITE_U8_def EC_WRITE_U16_def EC_WRITE_U32_def flags_bytes)
qed

lemma prepare_set_data_layout:
  assumes len: "set_ip_size env \<le> length data0" and wf: "request_sizes_ok env req"
  shows "prepare_set_data env req data0 =
           spec_set_ip_payload env req @ drop (set_ip_size env) data0"
proof -
  define T where "T = drop (set_ip_size env) data0"
  define H where "H = EC_MAX_HOSTNAME_SIZE env"
  define hdr where "hdr = [EC_EOE_FRAMETYPE_SET_IP_REQ env, 0, 0, 0] @ [spec_flags req, 0, 0, 0]"
  define f1 where "f1 = spec_field (mac_address_included req) (mac_address req) 6"
  define f2 where "f2 = spec_field (ip_address_included req) (rev (ip_address req)) 4"
  define f3 where "f3 = spec_field (subnet_mask_included req) (rev (subnet_mask req)) 4"
  define f4 where "f4 = spec_field (gateway_included req) (rev (gateway req)) 4"
  define f5 where "f5 = spec_field (dns_included req) (rev (dns req)) 4"
  define f6 where "f6 = spec_field (name_included req) (name req) H"
  define b0 where "b0 = memset data0 0 0 (set_ip_size env)"
  define b1 where "b1 = EC_WRITE_U32 (EC_WRITE_U16 (EC_WRITE_U8 (EC_WRITE_U8 b0 0
      (EC_EOE_FRAMETYPE_SET_IP_REQ env)) 1 0) 2 0) 4 (set_ip_flags req)"
  define b2 where "b2 = (if mac_address_included req \<noteq> 0
      then memcpy b1 8 (mac_address req) ETH_ALEN else b1)"
  define b3 where "b3 = (if ip_address_included req \<noteq> 0
      then memcpy_swap32 b2 (8 + ETH_ALEN) (ip_address req) else b2)"
  define b4 where "b4 = (if subnet_mask_included req \<noteq> 0
      then memcpy_swap32 b3 (8 + ETH_ALEN + 4) (subnet_mask req) else b3)"
  define b5 where "b5 = (if gateway_included req \<noteq> 0
      then memcpy_swap32 b4 (8 + ETH_ALEN + 4 + 4) (gateway req) else b4)"
  define b6 where "b6 = (if dns_included req \<noteq> 0
      then memcpy_swap32 b5 (8 + ETH_ALEN + 4 + 4 + 4) (dns req) else b5)"
  define b7 where "b7 = (if name_included req \<noteq> 0
      then memcpy b6 (8 + ETH_ALEN + 4 + 4 + 4 + 4) (name req) (EC_MAX_HOSTNAME_SIZE env)
      else b6)"
  have code: "prepare_set_data env req data0 = b7"
    unfolding prepare_set_data_def Let_def b7_def b6_def b5_def b4_def b3_def b2_def b1_def b0_def
    by (rule refl)
  from wf have l1: "length (mac_address req) = 6" and l2: "length (ip_address req) = 4"
    and l3: "length (subnet_mask req) = 4" and l4: "length (gateway req) = 4"
    and l5: "length (dns req) = 4" and l6: "length (name req) = H"
    by (simp_all add: request_sizes_ok_def ETH_ALEN_def H_def)
  have lh: "length hdr = 8" by (simp add: hdr_def)
  have lf1: "length f1 = 6" and lf2: "length f2 = 4" and lf3: "length f3 = 4"
    and lf4: "length f4 = 4" and lf5: "length f5 = 4"
    using l1 l2 l3 l4 l5 by (simp_all add: f1_def f2_def f3_def f4_def f5_def spec_field_def)
  have size: "set_ip_size env = 8 + (6 + (4 + (4 + (4 + (4 + H)))))"
    by (simp add: set_ip_size_def ETH_ALEN_def H_def)
  have s0: "b0 = replicate 8 0 @ replicate 6 0 @ replicate 4 0 @ replicate 4 0 @
      replicate 4 0 @ replicate 4 0 @ replicate H 0 @ T"
    using len unfolding b0_def T_def
    by (simp only: memset_splice add_0 take_0 append_Nil size replicate_add append_assoc)
  have s1: "b1 = hdr @ replicate 6 0 @ replicate 4 0 @ replicate 4 0 @
      replicate 4 0 @ replicate 4 0 @ replicate H 0 @ T"
    unfolding b1_def s0 hdr_def by (simp only: header_writes append_assoc)
  have s2: "b2 = hdr @ f1 @ replicate 4 0 @ replicate 4 0 @
      replicate 4 0 @ replicate 4 0 @ replicate H 0 @ T"
    unfolding b2_def s1 f1_def ETH_ALEN_def
    by (rule write_field_memcpy [OF lh l1])
  have s3: "b3 = (hdr @ f1) @ f2 @ replicate 4 0 @
      replicate 4 0 @ replicate 4 0 @ replicate H 0 @ T"
  proof -
    have "b2 = (hdr @ f1) @ replicate 4 0 @ replicate 4 0 @
      replicate 4 0 @ replicate 4 0 @ replicate H 0 @ T"
      by (simp add: s2)
    then show ?thesis
      unfolding b3_def f2_def ETH_ALEN_def
      by (simp only:) (rule write_field_swap32, simp_all add: lh lf1 l2)
  qed
  have s4: "b4 = (hdr @ f1 @ f2) @ f3 @
      replicate 4 0 @ replicate 4 0 @ replicate H 0 @ T"
  proof -
    have "b3 = (hdr @ f1 @ f2) @ replicate 4 0 @
      replicate 4 0 @ replicate 4 0 @ replicate H 0 @ T"
      by (simp add: s3)
    then show ?thesis
      unfolding b4_def f3_def ETH_ALEN_def
      by (simp only:) (rule write_field_swap32, simp_all add: lh lf1 lf2 l3)
  qed
  have s5: "b5 = (hdr @ f1 @ f2 @ f3) @ f4 @ replicate 4 0 @ replicate H 0 @ T"
  proof -
    have "b4 = (hdr @ f1 @ f2 @ f3) @ replicate 4 0 @ replicate 4 0 @ replicate H 0 @ T"
      by (simp add: s4)
    then show ?thesis
      unfolding b5_def f4_def ETH_ALEN_def
      by (simp only:) (rule write_field_swap32, simp_all add: lh lf1 lf2 lf3 l4)
  qed
  have s6: "b6 = (hdr @ f1 @ f2 @ f3 @ f4) @ f5 @ replicate H 0 @ T"
  proof -
    have "b5 = (hdr @ f1 @ f2 @ f3 @ f4) @ replicate 4 0 @ replicate H 0 @ T"
      by (simp add: s5)
    then show ?thesis
      unfolding b6_def f5_def ETH_ALEN_def
      by (simp only:) (rule write_field_swap32, simp_all add: lh lf1 lf2 lf3 lf4 l5)
  qed
  have s7: "b7 = (hdr @ f1 @ f2 @ f3 @ f4 @ f5) @ f6 @ T"
  proof -
    have "b6 = (hdr @ f1 @ f2 @ f3 @ f4 @ f5) @ replicate H 0 @ T"
      by (simp add: s6)
    then show ?thesis
      unfolding b7_def f6_def ETH_ALEN_def H_def [symmetric]
      by (simp only:) (rule write_field_memcpy, simp_all add: lh lf1 lf2 lf3 lf4 lf5 l6)
  qed
  have "spec_set_ip_payload env req = hdr @ f1 @ f2 @ f3 @ f4 @ f5 @ f6"
    by (simp add: spec_set_ip_payload_def hdr_def f1_def f2_def f3_def f4_def f5_def f6_def H_def)
  then show ?thesis
    by (simp add: code s7 T_def)
qed

lemma spec_flags_bits:
  "bit (spec_flags req) 0 = (mac_address_included req \<noteq> 0) \<and>
   bit (spec_flags req) 1 = (ip_address_included req \<noteq> 0) \<and>
   bit (spec_flags req) 2 = (subnet_mask_included req \<noteq> 0) \<and>
   bit (spec_flags req) 3 = (gateway_included req \<noteq> 0) \<and>
   bit (spec_flags req) 4 = (dns_included req \<noteq> 0) \<and>
   bit (spec_flags req) 5 = (name_included req \<noteq> 0) \<and>
   \<not> bit (spec_flags req) 6 \<and> \<not> bit (spec_flags req) 7"
  by (simp add: spec_flags_def)

lemma spec_set_ip_payload_length:
  "request_sizes_ok env req \<Longrightarrow>
   length (spec_set_ip_payload env req) = 8 + 6 + 4 * 4 + EC_MAX_HOSTNAME_SIZE env"
  by (simp add: spec_set_ip_payload_def spec_field_def request_sizes_ok_def ETH_ALEN_def)

text \<open>
  C6. When the mailbox hands out a buffer of at least \<open>8 + 6 + 4 * 4 + EC_MAX_HOSTNAME_SIZE\<close>
  bytes, \<open>ec_fsm_eoe_prepare_set\<close> returns 0 and the first that many bytes of the buffer
  are the payload as the specification lays it out: the frame type, three zero bytes, the
  flags as a little-endian 32-bit word with bits 0 to 5 set exactly for the included
  fields, the MAC address, the four addresses byte-reversed and the name, each field in
  its fixed place and all zero when it is not included.
\<close>

theorem prepare_set_layout:
  assumes "slave fsm = Some sl" and "request fsm = Some rq"
    and "request_sizes_ok env (requests m rq)"
    and "ec_slave_mbox_prepare_send env (slaves m sl) (datagrams m dgram)
           (EC_MBOX_TYPE_EOE env) (set_ip_size env) = Inr d"
    and "set_ip_size env \<le> length (mbox_data d)"
  shows "\<exists>m'. ec_fsm_eoe_prepare_set env fsm m dgram = Some (0, m') \<and>
           set_ip_size env = 8 + 6 + 4 * 4 + EC_MAX_HOSTNAME_SIZE env \<and>
           take (set_ip_size env) (mbox_data (datagrams m' dgram)) =
             spec_set_ip_payload env (requests m rq) \<and>
           length (spec_set_ip_payload env (requests m rq)) = set_ip_size env \<and>
           bit (spec_flags (requests m rq)) 0 = (mac_address_included (requests m rq) \<noteq> 0) \<and>
           bit (spec_flags (requests m rq)) 1 = (ip_address_included (requests m rq) \<noteq> 0) \<and>
           bit (spec_flags (requests m rq)) 2 = (subnet_mask_included (requests m rq) \<noteq> 0) \<and>
           bit (spec_flags (requests m rq)) 3 = (gateway_included (requests m rq) \<noteq> 0) \<and>
           bit (spec_flags (requests m rq)) 4 = (dns_included (requests m rq) \<noteq> 0) \<and>
           bit (spec_flags (requests m rq)) 5 = (name_included (requests m rq) \<noteq> 0) \<and>
           \<not> bit (spec_flags (requests m rq)) 6 \<and> \<not> bit (spec_flags (requests m rq)) 7"
proof -
  let ?req = "requests m rq"
  let ?m' = "m\<lparr>datagrams := (datagrams m)
                 (dgram := d\<lparr>mbox_data := prepare_set_data env ?req (mbox_data d)\<rparr>),
               requests := (requests m)(rq := ?req\<lparr>jiffies_sent := jiffies m\<rparr>)\<rparr>"
  have run: "ec_fsm_eoe_prepare_set env fsm m dgram = Some (0, ?m')"
    using assms(1,2,4) by (simp add: ec_fsm_eoe_prepare_set_def)
  have size: "set_ip_size env = 8 + 6 + 4 * 4 + EC_MAX_HOSTNAME_SIZE env"
    by (simp add: set_ip_size_def ETH_ALEN_def)
  have len: "length (spec_set_ip_payload env ?req) = set_ip_size env"
    using spec_set_ip_payload_length [OF assms(3)] size by simp
  have "mbox_data (datagrams ?m' dgram) = prepare_set_data env ?req (mbox_data d)"
    by simp
  also have "\<dots> = spec_set_ip_payload env ?req @ drop (set_ip_size env) (mbox_data d)"
    by (rule prepare_set_data_layout [OF assms(5) assms(3)])
  finally have "take (set_ip_size env) (mbox_data (datagrams ?m' dgram)) =
      spec_set_ip_payload env ?req"
    using len by simp
  with run size len spec_flags_bits [of ?req] show ?thesis by blast
qed

theorem prepare_set_layout_witness:
  "\<exists>m'. ec_fsm_eoe_prepare_set example_env (example_fsm FN_set_ip_start)
           (example_mem (example_datagram EC_DATAGRAM_INIT 0 [])) 5 = Some (0, m') \<and>
        take 62 (mbox_data (datagrams m' 5)) =
          [0x02, 0, 0, 0] @ [0x02, 0, 0, 0] @ replicate 6 0 @ [10, 2, 0, 192] @ replicate 44 0"
proof -
  let ?F = "example_fsm FN_set_ip_start"
  let ?M = "example_mem (example_datagram EC_DATAGRAM_INIT 0 [])"
  let ?d = "(example_datagram EC_DATAGRAM_INIT 0 [])
              \<lparr>dg_state := EC_DATAGRAM_INIT, mbox_data := replicate 62 0xFF\<rparr>"
  have h1: "slave ?F = Some 1" and h2: "request ?F = Some 2"
    by (simp_all add: example_defs)
  have h3: "request_sizes_ok example_env (requests ?M 2)"
    by (simp add: example_defs request_sizes_ok_def ETH_ALEN_def)
  have h4: "ec_slave_mbox_prepare_send example_env (slaves ?M 1) (datagrams ?M 5)
      (EC_MBOX_TYPE_EOE example_env) (set_ip_size example_env) = Inr ?d"
    by (simp add: example_env_def example_mem_def set_ip_size_def ETH_ALEN_def)
  have size: "set_ip_size example_env = 62"
    by (simp add: set_ip_size_def ETH_ALEN_def example_env_def)
  have h5: "set_ip_size example_env \<le> length (mbox_data ?d)"
    by (simp add: size)
  have payload: "spec_set_ip_payload example_env (requests ?M 2) =
      [0x02, 0, 0, 0] @ [0x02, 0, 0, 0] @ replicate 6 0 @ [10, 2, 0, 192] @ replicate 44 0"
    by (simp add: spec_set_ip_payload_def spec_field_def spec_flags_def example_defs
          replicate_add [symmetric])
  from prepare_set_layout [OF h1 h2 h3 h4 h5]
  obtain m' where "ec_fsm_eoe_prepare_set example_env ?F ?M 5 = Some (0, m')"
    and "take (set_ip_size example_env) (mbox_data (datagrams m' 5)) =
           spec_set_ip_payload example_env (requests ?M 2)"
    by blast
  then show ?thesis
    unfolding size payload by blast
qed

section \<open>Single steps of the state functions\<close>

lemma arrive_simps:
  "slaves (arrive c fsm m) = slaves m"
  "requests (arrive c fsm m) = requests m"
  "jiffies (arrive c fsm m) = cy_jiffies c"
  "datagram fsm = Some p \<Longrightarrow> datagrams (arrive c fsm m) p = cy_resolved c"
  by (simp_all add: arrive_def)

lemma not_pending_arrive:
  assumes "datagram fsm = Some p"
    and "dg_state (cy_resolved c) = EC_DATAGRAM_RECEIVED \<or>
         dg_state (cy_resolved c) = EC_DATAGRAM_TIMED_OUT"
  shows "\<not> datagram_pending fsm (arrive c fsm m)"
  using assms by (auto simp: datagram_pending_def arrive_def)

lemma request_timed_out_exhausted:
  assumes "slave fsm = Some sl" and "datagram fsm = Some p"
    and "dg_state (datagrams m p) = EC_DATAGRAM_TIMED_OUT" and "retries fsm = 0"
  shows "ec_fsm_eoe_set_ip_request env fsm m dgram =
           Some (fsm\<lparr>retries := retries fsm - 1, state := Some FN_error\<rparr>, m)"
  using assms by (simp add: ec_fsm_eoe_set_ip_request_def timed_out_retry_def)

lemma request_acknowledged:
  assumes "slave fsm = Some sl" and "datagram fsm = Some p"
    and "dg_state (datagrams m p) = EC_DATAGRAM_RECEIVED"
    and "working_counter (datagrams m p) = 1"
  shows "\<exists>m'. ec_fsm_eoe_set_ip_request env fsm m dgram =
                Some (fsm\<lparr>jiffies_start := dg_jiffies_sent (datagrams m p),
                          retries := EC_FSM_RETRIES env,
                          state := Some FN_set_ip_check,
                          frame_type_retries := 10\<rparr>, m') \<and>
           slaves m' = slaves m \<and> requests m' = requests m"
  using assms by (simp add: ec_fsm_eoe_set_ip_request_def timed_out_retry_def)

lemma check_data_ready:
  assumes "slave fsm = Some sl" and "datagram fsm = Some p"
    and "dg_state (datagrams m p) = EC_DATAGRAM_RECEIVED"
    and "working_counter (datagrams m p) = 1"
    and "ec_slave_mbox_check env (datagrams m p)"
  shows "\<exists>m'. ec_fsm_eoe_set_ip_check env fsm m dgram =
                Some (fsm\<lparr>retries := EC_FSM_RETRIES env, state := Some FN_set_ip_response\<rparr>, m') \<and>
           slaves m' = slaves m \<and> requests m' = requests m"
  using assms by (simp add: ec_fsm_eoe_set_ip_check_def timed_out_retry_def)

lemma response_stray:
  assumes "slave fsm = Some sl" and "datagram fsm = Some p"
    and "dg_state (datagrams m p) = EC_DATAGRAM_RECEIVED"
    and "working_counter (datagrams m p) = 1"
    and "ec_slave_mbox_fetch env (slaves m sl) (datagrams m p) = Inr (data, EC_MBOX_TYPE_EOE env)"
    and "4 \<le> length data"
    and "data ! 0 AND 0x0f \<noteq> EC_EOE_FRAMETYPE_SET_IP_RES env"
  shows "frame_type_retries fsm \<noteq> 0 \<Longrightarrow>
         \<exists>m'. ec_fsm_eoe_set_ip_response env fsm m dgram =
                Some (fsm\<lparr>frame_type_retries := frame_type_retries fsm - 1,
                          jiffies_start := dg_jiffies_sent (datagrams m p),
                          retries := EC_FSM_RETRIES env,
                          state := Some FN_set_ip_check\<rparr>, m') \<and>
           slaves m' = slaves m \<and> requests m' = requests m"
    and "frame_type_retries fsm = 0 \<Longrightarrow>
         ec_fsm_eoe_set_ip_response env fsm m dgram =
           Some (fsm\<lparr>frame_type_retries := frame_type_retries fsm - 1,
                     state := Some FN_error\<rparr>, m)"
  using assms
  by (simp_all add: ec_fsm_eoe_set_ip_response_def timed_out_retry_def EC_READ_U8_def)

lemma response_good:
  assumes "slave fsm = Some sl" and "datagram fsm = Some p" and "request fsm = Some rq"
    and "dg_state (datagrams m p) = EC_DATAGRAM_RECEIVED"
    and "working_counter (datagrams m p) = 1"
    and "ec_slave_mbox_fetch env (slaves m sl) (datagrams m p) = Inr (data, EC_MBOX_TYPE_EOE env)"
    and "4 \<le> length data"
    and "data ! 0 AND 0x0f = EC_EOE_FRAMETYPE_SET_IP_RES env"
    and "EC_READ_U16 data 2 = 0"
  shows "\<exists>m'. ec_fsm_eoe_set_ip_response env fsm m dgram =
                Some (fsm\<lparr>state := Some FN_end\<rparr>, m') \<and>
           slaves m' = slaves m \<and> result (requests m' rq) = 0"
  using assms
  by (simp add: ec_fsm_eoe_set_ip_response_def timed_out_retry_def EC_READ_U8_def)

lemma check_any:
  assumes "ec_fsm_eoe_set_ip_check env fsm m dgram = Some (f', m')"
    and "state fsm = Some FN_set_ip_check"
  shows "slaves m' = slaves m \<and> slave f' = slave fsm \<and> request f' = request fsm \<and>
         frame_type_retries f' = frame_type_retries fsm \<and>
         (state f' = Some FN_set_ip_check \<or> state f' = Some FN_set_ip_response \<or>
          state f' = Some FN_error)"
  using assms
  by (auto simp: ec_fsm_eoe_set_ip_check_def timed_out_retry_def Let_def
      split: option.splits if_splits)

lemma response_any:
  assumes "ec_fsm_eoe_set_ip_response env fsm m dgram = Some (f', m')"
    and "state fsm = Some FN_set_ip_response"
  shows "slaves m' = slaves m \<and> slave f' = slave fsm \<and> request f' = request fsm \<and>
         (stray_found env fsm m \<longrightarrow>
            (frame_type_retries fsm \<noteq> 0 \<longrightarrow>
               state f' = Some FN_set_ip_check \<and>
               frame_type_retries f' = frame_type_retries fsm - 1) \<and>
            (frame_type_retries fsm = 0 \<longrightarrow> state f' = Some FN_error)) \<and>
         (\<not> stray_found env fsm m \<longrightarrow>
            frame_type_retries f' = frame_type_retries fsm \<and>
            (state f' = Some FN_set_ip_response \<or> state f' = Some FN_end \<or>
             state f' = Some FN_error))"
  using assms
  by (auto simp: ec_fsm_eoe_set_ip_response_def timed_out_retry_def Let_def stray_found_def
      EC_READ_U8_def
      split: option.splits if_splits sum.splits prod.splits)

lemma spec_set_ip_payload_stamp:
  "spec_set_ip_payload env (req\<lparr>jiffies_sent := t\<rparr>) = spec_set_ip_payload env req"
  by (simp add: spec_set_ip_payload_def spec_flags_def)

lemma request_sizes_ok_stamp:
  "request_sizes_ok env (req\<lparr>jiffies_sent := t\<rparr>) = request_sizes_ok env req"
  by (simp add: request_sizes_ok_def)

lemma prepare_set_prepared:
  assumes "slave fsm = Some sl" and "request fsm = Some rq"
    and "send_prepared env (slaves m sl) (datagrams m dgram)"
    and "request_sizes_ok env (requests m rq)"
  shows "\<exists>m'. ec_fsm_eoe_prepare_set env fsm m dgram = Some (0, m') \<and>
           slaves m' = slaves m \<and>
           requests m' = (requests m)(rq := (requests m rq)\<lparr>jiffies_sent := jiffies m\<rparr>) \<and>
           take (set_ip_size env) (mbox_data (datagrams m' dgram)) =
             spec_set_ip_payload env (requests m rq)"
proof -
  from assms(3) obtain d where d: "ec_slave_mbox_prepare_send env (slaves m sl)
      (datagrams m dgram) (EC_MBOX_TYPE_EOE env) (set_ip_size env) = Inr d"
    and len: "set_ip_size env \<le> length (mbox_data d)"
    by (auto simp: send_prepared_def split: sum.splits)
  let ?req = "requests m rq"
  let ?m' = "m\<lparr>datagrams := (datagrams m)
                 (dgram := d\<lparr>mbox_data := prepare_set_data env ?req (mbox_data d)\<rparr>),
               requests := (requests m)(rq := ?req\<lparr>jiffies_sent := jiffies m\<rparr>)\<rparr>"
  have run: "ec_fsm_eoe_prepare_set env fsm m dgram = Some (0, ?m')"
    using assms(1,2) d by (simp add: ec_fsm_eoe_prepare_set_def)
  have size: "length (spec_set_ip_payload env ?req) = set_ip_size env"
    using spec_set_ip_payload_length [OF assms(4)]
    by (simp add: set_ip_size_def ETH_ALEN_def)
  have "mbox_data (datagrams ?m' dgram) =
      spec_set_ip_payload env ?req @ drop (set_ip_size env) (mbox_data d)"
    using prepare_set_data_layout [OF len assms(4)] by simp
  then have "take (set_ip_size env) (mbox_data (datagrams ?m' dgram)) =
      spec_set_ip_payload env ?req"
    using size by simp
  with run show ?thesis by auto
qed

section \<open>Runs of cycles\<close>

lemma run_step:
  assumes "datagram fsm = Some p"
    and "dg_state (cy_resolved c) = EC_DATAGRAM_RECEIVED \<or>
         dg_state (cy_resolved c) = EC_DATAGRAM_TIMED_OUT"
    and "state fsm = Some f"
    and "call_state f env fsm (arrive c fsm m) (cy_datagram c) = Some (fsm', m')"
  shows "run env (c # cs) fsm m =
           run env cs
             (fsm'\<lparr>datagram := (if state fsm' \<noteq> Some FN_end \<and> state fsm' \<noteq> Some FN_error
                                  then Some (cy_datagram c) else None)\<rparr>) m'"
  using exec_run [OF not_pending_arrive [OF assms(1,2)] assms(3,4)]
  by simp

lemma run_append:
  "run env (xs @ ys) fsm m =
     (case run env xs fsm m of None \<Rightarrow> None | Some (fsm', m') \<Rightarrow> run env ys fsm' m')"
  by (induction xs arbitrary: fsm m) (auto split: option.splits)

lemma request_exhausted_step:
  assumes "state fsm = Some FN_set_ip_request" and "slave fsm = Some sl"
    and "datagram fsm = Some p" and "retries fsm = 0"
    and "dg_state (cy_resolved c) = EC_DATAGRAM_TIMED_OUT"
  shows "run env [c] fsm m =
           Some (fsm\<lparr>retries := retries fsm - 1, state := Some FN_error, datagram := None\<rparr>,
                 arrive c fsm m)"
proof -
  have st: "dg_state (datagrams (arrive c fsm m) p) = EC_DATAGRAM_TIMED_OUT"
    using assms(3,5) by (simp add: arrive_simps)
  have h: "call_state FN_set_ip_request env fsm (arrive c fsm m) (cy_datagram c) =
      Some (fsm\<lparr>retries := retries fsm - 1, state := Some FN_error\<rparr>, arrive c fsm m)"
    using request_timed_out_exhausted [OF assms(2,3) st assms(4)] by simp
  show ?thesis
    using run_step [OF assms(3) _ assms(1) h, of "[]"] assms(5) by simp
qed

lemma last_take:
  "0 < k \<Longrightarrow> k \<le> length xs \<Longrightarrow> last (take k xs) = xs ! (k - 1)"
proof -
  assume k: "0 < k" "k \<le> length xs"
  then have ne: "take k xs \<noteq> []" by auto
  have "last (take k xs) = take k xs ! (length (take k xs) - 1)"
    by (rule last_conv_nth [OF ne])
  also have "length (take k xs) = k" using k by simp
  also have "take k xs ! (k - 1) = xs ! (k - 1)" using k by simp
  finally show ?thesis .
qed

lemma exec_step:
  assumes "datagram fsm = Some p"
    and "dg_state (cy_resolved c) = EC_DATAGRAM_RECEIVED \<or>
         dg_state (cy_resolved c) = EC_DATAGRAM_TIMED_OUT"
    and "state fsm = Some f"
    and "call_state f env fsm (arrive c fsm m) (cy_datagram c) = Some (fsm', m')"
  shows "ec_fsm_eoe_exec env fsm (arrive c fsm m) (cy_datagram c) =
           (if state fsm' \<noteq> Some FN_end \<and> state fsm' \<noteq> Some FN_error
            then Some (1, fsm'\<lparr>datagram := Some (cy_datagram c)\<rparr>, m')
            else Some (0, fsm'\<lparr>datagram := None\<rparr>, m'))"
  by (rule exec_run [OF not_pending_arrive [OF assms(1,2)] assms(3,4)])

lemma sends_prepared_prefix:
  "sends_prepared env (xs @ ys) fsm m \<Longrightarrow> sends_prepared env xs fsm m"
  by (induction xs arbitrary: fsm m) (auto split: option.splits)

lemma sends_prepared_all:
  "\<forall>s d. send_prepared env s d \<Longrightarrow> sends_prepared env cs fsm m"
  by (induction cs arbitrary: fsm m) (auto split: option.splits)

lemma request_encode_exec:
  assumes "state fsm = Some FN_set_ip_request" and "slave fsm = Some sl"
    and "request fsm = Some rq" and "datagram fsm = Some p"
    and "sends_prepared env (c # cs) fsm m"
    and "request_sizes_ok env (requests m rq)"
    and "(dg_state (cy_resolved c) = EC_DATAGRAM_TIMED_OUT \<and> retries fsm \<noteq> 0 \<and>
          g = fsm\<lparr>retries := retries fsm - 1\<rparr>) \<or>
         (dg_state (cy_resolved c) = EC_DATAGRAM_RECEIVED \<and>
          working_counter (cy_resolved c) = 0 \<and>
          (cy_jiffies c - jiffies_sent (requests m rq)) * 1000 div HZ env
            < EC_EOE_RESPONSE_TIMEOUT \<and> g = fsm)"
  shows "\<exists>m1. ec_fsm_eoe_exec env fsm (arrive c fsm m) (cy_datagram c) =
                Some (1, g\<lparr>datagram := Some (cy_datagram c)\<rparr>, m1) \<and>
              sends_prepared env cs (g\<lparr>datagram := Some (cy_datagram c)\<rparr>) m1 \<and>
              slaves m1 = slaves m \<and>
              requests m1 = (requests m)(rq := (requests m rq)\<lparr>jiffies_sent := cy_jiffies c\<rparr>) \<and>
              take (set_ip_size env) (mbox_data (datagrams m1 (cy_datagram c))) =
                spec_set_ip_payload env (requests m rq)"
proof -
  let ?M = "arrive c fsm m"
  have sp: "send_prepared env (slaves ?M sl) (datagrams ?M (cy_datagram c))"
    using assms(2,5) by (simp add: arrive_simps)
  have ok: "request_sizes_ok env (requests ?M rq)"
    using assms(6) by (simp add: arrive_simps)
  have gs: "slave g = Some sl" "request g = Some rq" "state g = Some FN_set_ip_request"
    using assms(1,2,3,7) by auto
  from prepare_set_prepared [OF gs(1,2) sp ok]
  obtain m1 where ps: "ec_fsm_eoe_prepare_set env g ?M (cy_datagram c) = Some (0, m1)"
    and s: "slaves m1 = slaves m"
    and r: "requests m1 = (requests m)(rq := (requests m rq)\<lparr>jiffies_sent := cy_jiffies c\<rparr>)"
    and pl: "take (set_ip_size env) (mbox_data (datagrams m1 (cy_datagram c))) =
                spec_set_ip_payload env (requests m rq)"
    by (auto simp: arrive_simps)
  have st: "datagrams ?M p = cy_resolved c" using assms(4) by (simp add: arrive_simps)
  have h: "call_state FN_set_ip_request env fsm ?M (cy_datagram c) = Some (g, m1)"
    using assms(2,3,4,7) ps st
    by (auto simp: ec_fsm_eoe_set_ip_request_def timed_out_retry_def arrive_simps)
  have rt: "dg_state (cy_resolved c) = EC_DATAGRAM_RECEIVED \<or>
         dg_state (cy_resolved c) = EC_DATAGRAM_TIMED_OUT"
    using assms(7) by auto
  have e: "ec_fsm_eoe_exec env fsm ?M (cy_datagram c) =
      Some (1, g\<lparr>datagram := Some (cy_datagram c)\<rparr>, m1)"
    using exec_step [OF assms(4) rt assms(1) h] gs(3) by simp
  have "sends_prepared env cs (g\<lparr>datagram := Some (cy_datagram c)\<rparr>) m1"
    using assms(5) e by simp
  with e s r pl show ?thesis by blast
qed

lemma request_no_ack_late:
  assumes "slave fsm = Some sl" and "request fsm = Some rq" and "datagram fsm = Some p"
    and "dg_state (datagrams m p) = EC_DATAGRAM_RECEIVED"
    and "working_counter (datagrams m p) = 0"
    and "EC_EOE_RESPONSE_TIMEOUT \<le>
           (jiffies m - jiffies_sent (requests m rq)) * 1000 div HZ env"
  shows "ec_fsm_eoe_set_ip_request env fsm m dgram = Some (fsm\<lparr>state := Some FN_error\<rparr>, m)"
  using assms
  by (simp add: ec_fsm_eoe_set_ip_request_def timed_out_retry_def not_less [symmetric])

lemma exec_keeps_slave:
  assumes "ec_fsm_eoe_exec env fsm m dgram = Some (u, f', m')"
  shows "slave f' = slave fsm \<and> slaves m' = slaves m"
proof (cases "datagram_pending fsm m")
  case True
  with assms show ?thesis by (simp add: ec_fsm_eoe_exec_def)
next
  case False
  with assms obtain f g where st: "state fsm = Some f"
    and h: "call_state f env fsm m dgram = Some (g, m')"
    and f': "slave f' = slave g"
    by (auto simp: ec_fsm_eoe_exec_def Let_def split: option.splits if_splits)
  have ps: "\<And>x r k. ec_fsm_eoe_prepare_set env x m dgram = Some (r, k) \<Longrightarrow> slaves k = slaves m"
    by (auto simp: ec_fsm_eoe_prepare_set_def split: option.splits sum.splits)
  have "slave g = slave fsm \<and> slaves m' = slaves m"
  proof (cases f)
    case FN_set_ip_start
    with h ps show ?thesis
      by (auto simp: ec_fsm_eoe_set_ip_start_def split: option.splits if_splits)
  next
    case FN_set_ip_request
    with h ps show ?thesis
      by (auto simp: ec_fsm_eoe_set_ip_request_def timed_out_retry_def Let_def
          split: option.splits if_splits)
  next
    case FN_set_ip_check
    with h show ?thesis
      by (auto simp: ec_fsm_eoe_set_ip_check_def timed_out_retry_def Let_def
          split: option.splits if_splits)
  next
    case FN_set_ip_response
    with h show ?thesis
      by (auto simp: ec_fsm_eoe_set_ip_response_def timed_out_retry_def Let_def
          split: option.splits if_splits sum.splits prod.splits)
  next
    case FN_end
    with h show ?thesis by (simp add: ec_fsm_eoe_end_def)
  next
    case FN_error
    with h show ?thesis by (simp add: ec_fsm_eoe_error_def)
  qed
  with f' show ?thesis by simp
qed

lemma sends_prepared_slave:
  "\<forall>d. send_prepared env (slaves m sl) d \<Longrightarrow> slave fsm = Some sl \<Longrightarrow>
   sends_prepared env cs fsm m"
proof (induction cs arbitrary: fsm m)
  case Nil
  then show ?case by simp
next
  case (Cons c cs)
  have a: "send_prepared env (slaves m sl) (datagrams (arrive c fsm m) (cy_datagram c))"
    using Cons.prems(1) by simp
  have b: "sends_prepared env cs f' m'"
    if e: "ec_fsm_eoe_exec env fsm (arrive c fsm m) (cy_datagram c) = Some (u, f', m')"
    for u f' m'
  proof -
    from exec_keeps_slave [OF e] have "slave f' = Some sl" "slaves m' = slaves m"
      using Cons.prems(2) by (simp_all add: arrive_simps)
    with Cons.IH [of m' f'] Cons.prems(1) show ?thesis by simp
  qed
  from a b Cons.prems(2) show ?case by (auto split: option.splits)
qed

lemma picky_env_simps:
  "EC_FSM_RETRIES picky_env = 3" "HZ picky_env = 1000"
  "set_ip_size picky_env = 62"
  "\<forall>d. send_prepared picky_env example_slave d"
  "request_sizes_ok picky_env example_request"
  "spec_set_ip_payload picky_env example_request =
     [0x02, 0, 0, 0] @ [0x02, 0, 0, 0] @ replicate 6 0 @ [10, 2, 0, 192] @ replicate 44 0"
  by (simp_all add: picky_env_def example_env_def example_slave_def example_request_def
      set_ip_size_def ETH_ALEN_def send_prepared_def request_sizes_ok_def
      spec_set_ip_payload_def spec_field_def spec_flags_def replicate_add [symmetric])

section \<open>The retry bound of the REQUEST state\<close>

lemma request_retries_encode_run:
  "state fsm = Some FN_set_ip_request \<Longrightarrow> slave fsm = Some sl \<Longrightarrow>
   request fsm = Some rq \<Longrightarrow> datagram fsm = Some p \<Longrightarrow>
   \<forall>c\<in>set cs. dg_state (cy_resolved c) = EC_DATAGRAM_TIMED_OUT \<Longrightarrow>
   length cs \<le> unat (retries fsm) \<Longrightarrow>
   sends_prepared env cs fsm m \<Longrightarrow> request_sizes_ok env (requests m rq) \<Longrightarrow>
   \<exists>fsm' m'. run env cs fsm m = Some (fsm', m') \<and>
     state fsm' = Some FN_set_ip_request \<and> slave fsm' = Some sl \<and>
     request fsm' = Some rq \<and> (\<exists>q. datagram fsm' = Some q) \<and>
     retries fsm' = retries fsm - of_nat (length cs) \<and>
     (cs \<noteq> [] \<longrightarrow>
        jiffies_sent (requests m' rq) = cy_jiffies (last cs) \<and>
        take (set_ip_size env) (mbox_data (datagrams m' (cy_datagram (last cs)))) =
          spec_set_ip_payload env (requests m rq))"
proof (induction cs arbitrary: fsm m p)
  case Nil
  then show ?case by simp
next
  case (Cons c cs)
  from Cons.prems(6) have nz: "retries fsm \<noteq> 0" by auto
  from Cons.prems(5) have to: "dg_state (cy_resolved c) = EC_DATAGRAM_TIMED_OUT" by simp
  let ?g = "fsm\<lparr>retries := retries fsm - 1\<rparr>"
  let ?f1 = "?g\<lparr>datagram := Some (cy_datagram c)\<rparr>"
  from request_encode_exec [OF Cons.prems(1,2,3,4,7,8), of ?g] to nz
  obtain m1 where e: "ec_fsm_eoe_exec env fsm (arrive c fsm m) (cy_datagram c) =
      Some (1, ?f1, m1)"
    and sp: "sends_prepared env cs ?f1 m1"
    and rq: "requests m1 = (requests m)(rq := (requests m rq)\<lparr>jiffies_sent := cy_jiffies c\<rparr>)"
    and pl: "take (set_ip_size env) (mbox_data (datagrams m1 (cy_datagram c))) =
                spec_set_ip_payload env (requests m rq)"
    by blast
  have step: "run env (c # cs) fsm m = run env cs ?f1 m1" using e by simp
  have js: "jiffies_sent (requests m1 rq) = cy_jiffies c" using rq by simp
  have same: "spec_set_ip_payload env (requests m1 rq) = spec_set_ip_payload env (requests m rq)"
    using rq by (simp add: spec_set_ip_payload_stamp)
  have ok: "request_sizes_ok env (requests m1 rq)"
    using rq Cons.prems(8) by (simp add: request_sizes_ok_stamp)
  have le: "length cs \<le> unat (retries ?f1)"
    using Cons.prems(6) nz by (simp add: unat_minus_one)
  have all: "\<forall>c\<in>set cs. dg_state (cy_resolved c) = EC_DATAGRAM_TIMED_OUT"
    using Cons.prems(5) by simp
  from Cons.IH [of ?f1 "cy_datagram c" m1, OF _ _ _ _ all le sp ok] Cons.prems(1,2,3)
  obtain fsm' m' where r: "run env cs ?f1 m1 = Some (fsm', m')"
    and i: "state fsm' = Some FN_set_ip_request" "slave fsm' = Some sl"
      "request fsm' = Some rq" "\<exists>q. datagram fsm' = Some q"
      "retries fsm' = retries ?f1 - of_nat (length cs)"
    and j: "cs \<noteq> [] \<longrightarrow>
        jiffies_sent (requests m' rq) = cy_jiffies (last cs) \<and>
        take (set_ip_size env) (mbox_data (datagrams m' (cy_datagram (last cs)))) =
          spec_set_ip_payload env (requests m1 rq)"
    by auto
  have k: "cs = [] \<longrightarrow> m' = m1"
    using r by auto
  have rt: "retries fsm' = retries fsm - of_nat (length (c # cs))"
    using i(5) by simp
  have lst: "jiffies_sent (requests m' rq) = cy_jiffies (last (c # cs)) \<and>
        take (set_ip_size env) (mbox_data (datagrams m' (cy_datagram (last (c # cs))))) =
          spec_set_ip_payload env (requests m rq)"
    using j k js pl same by (cases "cs = []") simp_all
  from step r i(1-4) rt lst show ?case by auto
qed

text \<open>
  C3. The machine is in REQUEST with \<open>retries = EC_FSM_RETRIES = N\<close>, as START leaves
  it, and in each of \<open>N + 1\<close> cycles the stored datagram has timed out. In each of the
  first \<open>N\<close> of these cycles the mailbox accepts the send of that cycle. After each of
  the first \<open>N\<close> cycles the machine is still in REQUEST, with one retry less and the
  request encoded again: \<open>jiffies_sent\<close> is the time of that cycle, and the datagram
  passed in that cycle holds the payload of the request as the specification lays it
  out. After cycle \<open>N + 1\<close> the machine is in ERROR.
\<close>

theorem request_retry_bound:
  assumes "state fsm = Some FN_set_ip_request" and "slave fsm = Some sl"
    and "request fsm = Some rq" and "datagram fsm = Some p"
    and "retries fsm = EC_FSM_RETRIES env"
    and "length cs = Suc (unat (EC_FSM_RETRIES env))"
    and "\<forall>c\<in>set cs. dg_state (cy_resolved c) = EC_DATAGRAM_TIMED_OUT"
    and "sends_prepared env (take (unat (EC_FSM_RETRIES env)) cs) fsm m"
    and "request_sizes_ok env (requests m rq)"
  shows "(\<forall>k\<le>unat (EC_FSM_RETRIES env).
            \<exists>fsm' m'. run env (take k cs) fsm m = Some (fsm', m') \<and>
              state fsm' = Some FN_set_ip_request \<and>
              retries fsm' = EC_FSM_RETRIES env - of_nat k \<and>
              (0 < k \<longrightarrow>
                 jiffies_sent (requests m' rq) = cy_jiffies (cs ! (k - 1)) \<and>
                 take (set_ip_size env)
                   (mbox_data (datagrams m' (cy_datagram (cs ! (k - 1))))) =
                   spec_set_ip_payload env (requests m rq))) \<and>
         (\<exists>fsm' m'. run env cs fsm m = Some (fsm', m') \<and> state fsm' = Some FN_error)"
proof -
  let ?N = "unat (EC_FSM_RETRIES env)"
  have first: "\<exists>fsm' m'. run env (take k cs) fsm m = Some (fsm', m') \<and>
      state fsm' = Some FN_set_ip_request \<and> slave fsm' = Some sl \<and>
      (\<exists>q. datagram fsm' = Some q) \<and>
      retries fsm' = EC_FSM_RETRIES env - of_nat k \<and>
      (0 < k \<longrightarrow>
         jiffies_sent (requests m' rq) = cy_jiffies (cs ! (k - 1)) \<and>
         take (set_ip_size env) (mbox_data (datagrams m' (cy_datagram (cs ! (k - 1))))) =
           spec_set_ip_payload env (requests m rq))"
    if k: "k \<le> ?N" for k
  proof -
    have len: "length (take k cs) = k" using k assms(6) by simp
    have to: "\<forall>c\<in>set (take k cs). dg_state (cy_resolved c) = EC_DATAGRAM_TIMED_OUT"
      using assms(7) by (meson in_set_takeD)
    have le: "length (take k cs) \<le> unat (retries fsm)"
      using k len assms(5) by simp
    have lst: "0 < k \<Longrightarrow> last (take k cs) = cs ! (k - 1)"
      using k assms(6) by (simp add: last_take)
    have "take ?N cs = take k cs @ drop k (take ?N cs)"
      using k by (metis append_take_drop_id min.absorb1 take_take)
    then have sp: "sends_prepared env (take k cs) fsm m"
      using assms(8) sends_prepared_prefix by metis
    from request_retries_encode_run [OF assms(1,2,3,4) to le sp assms(9)]
    show ?thesis
      using len lst assms(5) by auto
  qed
  from first [of ?N] obtain f1 m1 where r1: "run env (take ?N cs) fsm m = Some (f1, m1)"
    and s1: "state f1 = Some FN_set_ip_request" "slave f1 = Some sl"
    and d1: "\<exists>q. datagram f1 = Some q"
    and z: "retries f1 = EC_FSM_RETRIES env - of_nat ?N"
    by auto
  from d1 obtain q where q: "datagram f1 = Some q" by blast
  have z0: "retries f1 = 0" using z by simp
  have split: "cs = take ?N cs @ [cs ! ?N]"
    using assms(6) take_Suc_conv_app_nth [of ?N cs] by simp
  have to: "dg_state (cy_resolved (cs ! ?N)) = EC_DATAGRAM_TIMED_OUT"
    using assms(6,7) by simp
  have "run env cs fsm m = run env [cs ! ?N] f1 m1"
    by (subst split) (simp add: run_append r1)
  also have "\<dots> = Some (f1\<lparr>retries := retries f1 - 1, state := Some FN_error, datagram := None\<rparr>,
      arrive (cs ! ?N) f1 m1)"
    by (rule request_exhausted_step [OF s1 q z0 to])
  finally have last: "\<exists>fsm' m'. run env cs fsm m = Some (fsm', m') \<and> state fsm' = Some FN_error"
    by simp
  from first last show ?thesis by blast
qed

theorem request_retry_bound_witness:
  "(\<exists>fsm' m'. run picky_env
        (take 3 (replicate 4 (example_cycle 6000 (example_datagram EC_DATAGRAM_TIMED_OUT 0 []))))
        ((example_fsm FN_set_ip_request)\<lparr>retries := 3\<rparr>)
        (example_mem (example_datagram EC_DATAGRAM_SENT 0 [])) = Some (fsm', m') \<and>
      state fsm' = Some FN_set_ip_request \<and> retries fsm' = 0 \<and>
      jiffies_sent (requests m' 2) = 6000 \<and>
      take 62 (mbox_data (datagrams m' 5)) =
        [0x02, 0, 0, 0] @ [0x02, 0, 0, 0] @ replicate 6 0 @ [10, 2, 0, 192] @ replicate 44 0) \<and>
   (\<exists>fsm' m'. run picky_env
        (replicate 4 (example_cycle 6000 (example_datagram EC_DATAGRAM_TIMED_OUT 0 [])))
        ((example_fsm FN_set_ip_request)\<lparr>retries := 3\<rparr>)
        (example_mem (example_datagram EC_DATAGRAM_SENT 0 [])) = Some (fsm', m') \<and>
      state fsm' = Some FN_error)"
proof -
  let ?F = "(example_fsm FN_set_ip_request)\<lparr>retries := 3\<rparr>"
  let ?M = "example_mem (example_datagram EC_DATAGRAM_SENT 0 [])"
  let ?c = "example_cycle 6000 (example_datagram EC_DATAGRAM_TIMED_OUT 0 [])"
  let ?cs = "replicate 4 ?c"
  have h1: "state ?F = Some FN_set_ip_request" and h2: "slave ?F = Some 1"
    and h3: "request ?F = Some 2" and h4: "datagram ?F = Some 4"
    and h5: "retries ?F = EC_FSM_RETRIES picky_env"
    by (simp_all add: example_fsm_def picky_env_simps)
  have n: "unat (EC_FSM_RETRIES picky_env) = 3"
    by (simp add: picky_env_simps)
  have h6: "length ?cs = Suc (unat (EC_FSM_RETRIES picky_env))"
    by (simp add: n)
  have h7: "\<forall>c\<in>set ?cs. dg_state (cy_resolved c) = EC_DATAGRAM_TIMED_OUT"
    by (simp add: example_cycle_def example_datagram_def)
  have sl: "slaves ?M 1 = example_slave" and rq: "requests ?M 2 = example_request"
    by (simp_all add: example_mem_def)
  have h8: "sends_prepared picky_env (take (unat (EC_FSM_RETRIES picky_env)) ?cs) ?F ?M"
    by (rule sends_prepared_slave [OF _ h2]) (simp add: example_mem_def picky_env_simps)
  have h9: "request_sizes_ok picky_env (requests ?M 2)"
    by (simp add: rq picky_env_simps)
  note T = request_retry_bound [OF h1 h2 h3 h4 h5 h6 h7 h8 h9]
  have k: "(3::nat) \<le> unat (EC_FSM_RETRIES picky_env)" by (simp add: n)
  have c3: "?cs ! (3 - 1) = ?c" by simp
  from T [THEN conjunct1, rule_format, OF k]
  obtain f1 m1 where r: "run picky_env (take 3 ?cs) ?F ?M = Some (f1, m1)"
    and s: "state f1 = Some FN_set_ip_request"
    and t: "retries f1 = EC_FSM_RETRIES picky_env - of_nat 3"
    and j: "jiffies_sent (requests m1 2) = cy_jiffies (?cs ! (3 - 1))"
    and p: "take (set_ip_size picky_env) (mbox_data (datagrams m1 (cy_datagram (?cs ! (3 - 1))))) =
              spec_set_ip_payload picky_env (requests ?M 2)"
    by auto
  have a: "\<exists>fsm' m'. run picky_env (take 3 ?cs) ?F ?M = Some (fsm', m') \<and>
      state fsm' = Some FN_set_ip_request \<and> retries fsm' = 0 \<and>
      jiffies_sent (requests m' 2) = 6000 \<and>
      take 62 (mbox_data (datagrams m' 5)) =
        [0x02, 0, 0, 0] @ [0x02, 0, 0, 0] @ replicate 6 0 @ [10, 2, 0, 192] @ replicate 44 0"
    using r s t j p unfolding c3 rq picky_env_simps
    by (simp add: example_cycle_def)
  from T [THEN conjunct2]
  have b: "\<exists>fsm' m'. run picky_env ?cs ?F ?M = Some (fsm', m') \<and> state fsm' = Some FN_error" .
  from a b show ?thesis by (rule conjI)
qed

section \<open>The acknowledgement window of the REQUEST state\<close>

lemma request_window_encode_run:
  "state fsm = Some FN_set_ip_request \<Longrightarrow> slave fsm = Some sl \<Longrightarrow>
   request fsm = Some rq \<Longrightarrow> datagram fsm = Some p \<Longrightarrow>
   \<forall>c\<in>set cs. dg_state (cy_resolved c) = EC_DATAGRAM_RECEIVED \<and>
               working_counter (cy_resolved c) = 0 \<Longrightarrow>
   within_window env (jiffies_sent (requests m rq)) cs \<Longrightarrow>
   sends_prepared env cs fsm m \<Longrightarrow> request_sizes_ok env (requests m rq) \<Longrightarrow>
   \<exists>fsm' m'. run env cs fsm m = Some (fsm', m') \<and>
     state fsm' = Some FN_set_ip_request \<and> slave fsm' = Some sl \<and>
     request fsm' = Some rq \<and> (\<exists>q. datagram fsm' = Some q) \<and>
     retries fsm' = retries fsm \<and> slaves m' = slaves m \<and>
     request_sizes_ok env (requests m' rq) \<and>
     spec_set_ip_payload env (requests m' rq) = spec_set_ip_payload env (requests m rq) \<and>
     (cs = [] \<longrightarrow> fsm' = fsm \<and> m' = m) \<and>
     (cs \<noteq> [] \<longrightarrow>
        jiffies_sent (requests m' rq) = cy_jiffies (last cs) \<and>
        take (set_ip_size env) (mbox_data (datagrams m' (cy_datagram (last cs)))) =
          spec_set_ip_payload env (requests m rq))"
proof (induction cs arbitrary: fsm m p)
  case Nil
  then show ?case by simp
next
  case (Cons c cs)
  from Cons.prems(5) have rc: "dg_state (cy_resolved c) = EC_DATAGRAM_RECEIVED"
    and wc: "working_counter (cy_resolved c) = 0" by simp_all
  from Cons.prems(6) have win: "(cy_jiffies c - jiffies_sent (requests m rq)) * 1000
      div HZ env < EC_EOE_RESPONSE_TIMEOUT" by simp
  let ?f1 = "fsm\<lparr>datagram := Some (cy_datagram c)\<rparr>"
  from request_encode_exec [OF Cons.prems(1,2,3,4,7,8), of fsm] rc wc win
  obtain m1 where e: "ec_fsm_eoe_exec env fsm (arrive c fsm m) (cy_datagram c) =
      Some (1, ?f1, m1)"
    and sp: "sends_prepared env cs ?f1 m1"
    and sl: "slaves m1 = slaves m"
    and rq: "requests m1 = (requests m)(rq := (requests m rq)\<lparr>jiffies_sent := cy_jiffies c\<rparr>)"
    and pl: "take (set_ip_size env) (mbox_data (datagrams m1 (cy_datagram c))) =
                spec_set_ip_payload env (requests m rq)"
    by blast
  have step: "run env (c # cs) fsm m = run env cs ?f1 m1" using e by simp
  have js: "jiffies_sent (requests m1 rq) = cy_jiffies c" using rq by simp
  have same: "spec_set_ip_payload env (requests m1 rq) = spec_set_ip_payload env (requests m rq)"
    using rq by (simp add: spec_set_ip_payload_stamp)
  have ok: "request_sizes_ok env (requests m1 rq)"
    using rq Cons.prems(8) by (simp add: request_sizes_ok_stamp)
  have w: "within_window env (jiffies_sent (requests m1 rq)) cs"
    using Cons.prems(6) js by simp
  have all: "\<forall>c\<in>set cs. dg_state (cy_resolved c) = EC_DATAGRAM_RECEIVED \<and>
               working_counter (cy_resolved c) = 0"
    using Cons.prems(5) by simp
  from Cons.IH [of ?f1 "cy_datagram c" m1, OF _ _ _ _ all w sp ok] Cons.prems(1,2,3)
  obtain fsm' m' where r: "run env cs ?f1 m1 = Some (fsm', m')"
    and i: "state fsm' = Some FN_set_ip_request" "slave fsm' = Some sl"
      "request fsm' = Some rq" "\<exists>q. datagram fsm' = Some q"
      "retries fsm' = retries ?f1" "slaves m' = slaves m1"
      "request_sizes_ok env (requests m' rq)"
      "spec_set_ip_payload env (requests m' rq) = spec_set_ip_payload env (requests m1 rq)"
    and k: "cs = [] \<longrightarrow> fsm' = ?f1 \<and> m' = m1"
    and j: "cs \<noteq> [] \<longrightarrow>
        jiffies_sent (requests m' rq) = cy_jiffies (last cs) \<and>
        take (set_ip_size env) (mbox_data (datagrams m' (cy_datagram (last cs)))) =
          spec_set_ip_payload env (requests m1 rq)"
    by auto
  have lst: "jiffies_sent (requests m' rq) = cy_jiffies (last (c # cs)) \<and>
        take (set_ip_size env) (mbox_data (datagrams m' (cy_datagram (last (c # cs))))) =
          spec_set_ip_payload env (requests m rq)"
    using j k js pl same by (cases "cs = []") simp_all
  have rt: "retries fsm' = retries fsm" using i(5) by simp
  have sm: "slaves m' = slaves m" using i(6) sl by simp
  have sp': "spec_set_ip_payload env (requests m' rq) = spec_set_ip_payload env (requests m rq)"
    using i(8) same by simp
  from step r i(1-4,7) rt sm sp' lst show ?case by auto
qed

text \<open>
  C10, as the code has it. The REQUEST state measures the 3000 ms from
  \<open>request->jiffies_sent\<close>, which every successful \<open>ec_fsm_eoe_prepare_set\<close> sets to
  the current time. So when every cycle finds the stored datagram received with working
  counter 0, less than 3000 ms after the encoding before it, and the mailbox accepts the
  send of each of these cycles, the machine encodes the request again in every cycle
  (\<open>jiffies_sent\<close> is the time of the cycle, the datagram passed holds the payload of the
  request) and stays in REQUEST, however many cycles there are. The window of one more
  such cycle starts at the last of these encodings: 3000 ms or more after it the machine
  goes to ERROR, less than 3000 ms after it, with the send accepted, the request is
  encoded once more.
\<close>

theorem request_window_restarts:
  assumes "state fsm = Some FN_set_ip_request" and "slave fsm = Some sl"
    and "request fsm = Some rq" and "datagram fsm = Some p"
    and "\<forall>c\<in>set (cs @ [c']). dg_state (cy_resolved c) = EC_DATAGRAM_RECEIVED \<and>
                     working_counter (cy_resolved c) = 0"
    and "within_window env (jiffies_sent (requests m rq)) cs"
    and "sends_prepared env cs fsm m"
    and "request_sizes_ok env (requests m rq)"
  shows "\<exists>fsm' m'. run env cs fsm m = Some (fsm', m') \<and>
           state fsm' = Some FN_set_ip_request \<and> retries fsm' = retries fsm \<and>
           (cs = [] \<longrightarrow> jiffies_sent (requests m' rq) = jiffies_sent (requests m rq)) \<and>
           (cs \<noteq> [] \<longrightarrow>
              jiffies_sent (requests m' rq) = cy_jiffies (last cs) \<and>
              take (set_ip_size env) (mbox_data (datagrams m' (cy_datagram (last cs)))) =
                spec_set_ip_payload env (requests m rq)) \<and>
           (3000 \<le> (cy_jiffies c' - jiffies_sent (requests m' rq)) * 1000 div HZ env \<longrightarrow>
              run env (cs @ [c']) fsm m =
                Some (fsm'\<lparr>state := Some FN_error, datagram := None\<rparr>, arrive c' fsm' m')) \<and>
           ((cy_jiffies c' - jiffies_sent (requests m' rq)) * 1000 div HZ env < 3000 \<and>
            send_prepared env (slaves m sl) (datagrams (arrive c' fsm' m') (cy_datagram c')) \<longrightarrow>
              (\<exists>m''. run env (cs @ [c']) fsm m =
                        Some (fsm'\<lparr>datagram := Some (cy_datagram c')\<rparr>, m'') \<and>
                      jiffies_sent (requests m'' rq) = cy_jiffies c' \<and>
                      take (set_ip_size env) (mbox_data (datagrams m'' (cy_datagram c'))) =
                        spec_set_ip_payload env (requests m rq)))"
proof -
  have all: "\<forall>c\<in>set cs. dg_state (cy_resolved c) = EC_DATAGRAM_RECEIVED \<and>
               working_counter (cy_resolved c) = 0"
    and rc: "dg_state (cy_resolved c') = EC_DATAGRAM_RECEIVED"
    and wc: "working_counter (cy_resolved c') = 0"
    using assms(5) by simp_all
  from request_window_encode_run [OF assms(1,2,3,4) all assms(6,7,8)]
  obtain f1 m1 where r: "run env cs fsm m = Some (f1, m1)"
    and i: "state f1 = Some FN_set_ip_request" "slave f1 = Some sl" "request f1 = Some rq"
      "retries f1 = retries fsm" "slaves m1 = slaves m"
      "request_sizes_ok env (requests m1 rq)"
      "spec_set_ip_payload env (requests m1 rq) = spec_set_ip_payload env (requests m rq)"
    and d: "\<exists>q. datagram f1 = Some q"
    and k: "cs = [] \<longrightarrow> f1 = fsm \<and> m1 = m"
    and j: "cs \<noteq> [] \<longrightarrow>
        jiffies_sent (requests m1 rq) = cy_jiffies (last cs) \<and>
        take (set_ip_size env) (mbox_data (datagrams m1 (cy_datagram (last cs)))) =
          spec_set_ip_payload env (requests m rq)"
    by blast
  from d obtain q where q: "datagram f1 = Some q" by blast
  let ?M = "arrive c' f1 m1"
  have app: "run env (cs @ [c']) fsm m = run env [c'] f1 m1"
    using r by (simp add: run_append)
  have late: "3000 \<le> (cy_jiffies c' - jiffies_sent (requests m1 rq)) * 1000 div HZ env \<longrightarrow>
      run env (cs @ [c']) fsm m =
        Some (f1\<lparr>state := Some FN_error, datagram := None\<rparr>, ?M)"
  proof
    assume a: "3000 \<le> (cy_jiffies c' - jiffies_sent (requests m1 rq)) * 1000 div HZ env"
    have st: "dg_state (datagrams ?M q) = EC_DATAGRAM_RECEIVED"
      and w0: "working_counter (datagrams ?M q) = 0"
      using rc wc q by (simp_all add: arrive_simps)
    have t: "EC_EOE_RESPONSE_TIMEOUT \<le>
        (jiffies ?M - jiffies_sent (requests ?M rq)) * 1000 div HZ env"
      using a by (simp add: arrive_simps EC_EOE_RESPONSE_TIMEOUT_def)
    have h: "call_state FN_set_ip_request env f1 ?M (cy_datagram c') =
        Some (f1\<lparr>state := Some FN_error\<rparr>, ?M)"
      using request_no_ack_late [OF i(2,3) q st w0 t] by simp
    have "run env [c'] f1 m1 = Some (f1\<lparr>state := Some FN_error, datagram := None\<rparr>, ?M)"
      using run_step [OF q _ i(1) h, of "[]"] rc by simp
    with app show "run env (cs @ [c']) fsm m =
        Some (f1\<lparr>state := Some FN_error, datagram := None\<rparr>, ?M)"
      by simp
  qed
  have early: "(cy_jiffies c' - jiffies_sent (requests m1 rq)) * 1000 div HZ env < 3000 \<and>
      send_prepared env (slaves m sl) (datagrams ?M (cy_datagram c')) \<longrightarrow>
      (\<exists>m''. run env (cs @ [c']) fsm m = Some (f1\<lparr>datagram := Some (cy_datagram c')\<rparr>, m'') \<and>
         jiffies_sent (requests m'' rq) = cy_jiffies c' \<and>
         take (set_ip_size env) (mbox_data (datagrams m'' (cy_datagram c'))) =
           spec_set_ip_payload env (requests m rq))"
  proof
    assume a: "(cy_jiffies c' - jiffies_sent (requests m1 rq)) * 1000 div HZ env < 3000 \<and>
      send_prepared env (slaves m sl) (datagrams ?M (cy_datagram c'))"
    have sp: "sends_prepared env [c'] f1 m1"
      using a i(2,5) by (simp split: option.splits)
    have win: "(cy_jiffies c' - jiffies_sent (requests m1 rq)) * 1000 div HZ env
        < EC_EOE_RESPONSE_TIMEOUT"
      using a by (simp add: EC_EOE_RESPONSE_TIMEOUT_def)
    from request_encode_exec [OF i(1,2,3) q sp i(6), of f1] rc wc win
    obtain m2 where e: "ec_fsm_eoe_exec env f1 ?M (cy_datagram c') =
        Some (1, f1\<lparr>datagram := Some (cy_datagram c')\<rparr>, m2)"
      and rq: "requests m2 = (requests m1)(rq := (requests m1 rq)\<lparr>jiffies_sent := cy_jiffies c'\<rparr>)"
      and pl: "take (set_ip_size env) (mbox_data (datagrams m2 (cy_datagram c'))) =
                spec_set_ip_payload env (requests m1 rq)"
      by blast
    have "run env [c'] f1 m1 = Some (f1\<lparr>datagram := Some (cy_datagram c')\<rparr>, m2)"
      using e by simp
    moreover have "jiffies_sent (requests m2 rq) = cy_jiffies c'" using rq by simp
    ultimately show "\<exists>m''. run env (cs @ [c']) fsm m =
          Some (f1\<lparr>datagram := Some (cy_datagram c')\<rparr>, m'') \<and>
         jiffies_sent (requests m'' rq) = cy_jiffies c' \<and>
         take (set_ip_size env) (mbox_data (datagrams m'' (cy_datagram c'))) =
           spec_set_ip_payload env (requests m rq)"
      using app pl i(7) by simp
  qed
  have e0: "cs = [] \<longrightarrow> jiffies_sent (requests m1 rq) = jiffies_sent (requests m rq)"
    using k by simp
  from r i(1,4) e0 j late early show ?thesis by blast
qed

theorem request_window_restarts_witness:
  "\<exists>fsm' m'. run picky_env
       [example_cycle 2000 (example_datagram EC_DATAGRAM_RECEIVED 0 []),
        example_cycle 4000 (example_datagram EC_DATAGRAM_RECEIVED 0 []),
        example_cycle 6000 (example_datagram EC_DATAGRAM_RECEIVED 0 [])]
       (example_fsm FN_set_ip_request)
       (example_mem (example_datagram EC_DATAGRAM_SENT 0 [])) = Some (fsm', m') \<and>
     state fsm' = Some FN_set_ip_request \<and> jiffies_sent (requests m' 2) = 6000 \<and>
     take 62 (mbox_data (datagrams m' 5)) =
       [0x02, 0, 0, 0] @ [0x02, 0, 0, 0] @ replicate 6 0 @ [10, 2, 0, 192] @ replicate 44 0 \<and>
     run picky_env
       ([example_cycle 2000 (example_datagram EC_DATAGRAM_RECEIVED 0 []),
         example_cycle 4000 (example_datagram EC_DATAGRAM_RECEIVED 0 []),
         example_cycle 6000 (example_datagram EC_DATAGRAM_RECEIVED 0 [])] @
        [example_cycle 9000 (example_datagram EC_DATAGRAM_RECEIVED 0 [])])
       (example_fsm FN_set_ip_request)
       (example_mem (example_datagram EC_DATAGRAM_SENT 0 [])) =
       Some (fsm'\<lparr>state := Some FN_error, datagram := None\<rparr>,
             arrive (example_cycle 9000 (example_datagram EC_DATAGRAM_RECEIVED 0 [])) fsm' m') \<and>
     (\<exists>m''. run picky_env
       ([example_cycle 2000 (example_datagram EC_DATAGRAM_RECEIVED 0 []),
         example_cycle 4000 (example_datagram EC_DATAGRAM_RECEIVED 0 []),
         example_cycle 6000 (example_datagram EC_DATAGRAM_RECEIVED 0 [])] @
        [example_cycle 8999 (example_datagram EC_DATAGRAM_RECEIVED 0 [])])
       (example_fsm FN_set_ip_request)
       (example_mem (example_datagram EC_DATAGRAM_SENT 0 [])) =
       Some (fsm'\<lparr>datagram := Some 5\<rparr>, m'') \<and>
       jiffies_sent (requests m'' 2) = 8999)"
proof -
  let ?F = "example_fsm FN_set_ip_request"
  let ?M = "example_mem (example_datagram EC_DATAGRAM_SENT 0 [])"
  let ?c = "\<lambda>t. example_cycle t (example_datagram EC_DATAGRAM_RECEIVED 0 [])"
  let ?cs = "[?c 2000, ?c 4000, ?c 6000]"
  have h1: "state ?F = Some FN_set_ip_request" and h2: "slave ?F = Some 1"
    and h3: "request ?F = Some 2" and h4: "datagram ?F = Some 4"
    by (simp_all add: example_fsm_def)
  have h5: "\<forall>c\<in>set (?cs @ [?c t]). dg_state (cy_resolved c) = EC_DATAGRAM_RECEIVED \<and>
                     working_counter (cy_resolved c) = 0" for t
    by (simp add: example_cycle_def example_datagram_def)
  have sl: "slaves ?M 1 = example_slave" and rq: "requests ?M 2 = example_request"
    by (simp_all add: example_mem_def)
  have h6: "within_window picky_env (jiffies_sent (requests ?M 2)) ?cs"
    by (simp add: rq example_cycle_def example_request_def picky_env_simps
          EC_EOE_RESPONSE_TIMEOUT_def)
  have h7: "sends_prepared picky_env ?cs ?F ?M"
    by (rule sends_prepared_slave [OF _ h2]) (simp add: example_mem_def picky_env_simps)
  have h8: "request_sizes_ok picky_env (requests ?M 2)"
    by (simp add: rq picky_env_simps)
  have lst: "last ?cs = ?c 6000" by simp
  from request_window_restarts [OF h1 h2 h3 h4 h5 [of 9000] h6 h7 h8]
  obtain f1 m1 where r: "run picky_env ?cs ?F ?M = Some (f1, m1)"
    and s: "state f1 = Some FN_set_ip_request"
    and j: "jiffies_sent (requests m1 2) = cy_jiffies (last ?cs)"
    and p: "take (set_ip_size picky_env) (mbox_data (datagrams m1 (cy_datagram (last ?cs)))) =
              spec_set_ip_payload picky_env (requests ?M 2)"
    and late: "3000 \<le> (cy_jiffies (?c 9000) - jiffies_sent (requests m1 2)) * 1000
                 div HZ picky_env \<longrightarrow>
        run picky_env (?cs @ [?c 9000]) ?F ?M =
          Some (f1\<lparr>state := Some FN_error, datagram := None\<rparr>, arrive (?c 9000) f1 m1)"
    by auto
  have j6: "jiffies_sent (requests m1 2) = 6000"
    using j unfolding lst by (simp add: example_cycle_def)
  have p6: "take 62 (mbox_data (datagrams m1 5)) =
      [0x02, 0, 0, 0] @ [0x02, 0, 0, 0] @ replicate 6 0 @ [10, 2, 0, 192] @ replicate 44 0"
    using p unfolding lst rq picky_env_simps by (simp add: example_cycle_def)
  have e: "run picky_env (?cs @ [?c 9000]) ?F ?M =
      Some (f1\<lparr>state := Some FN_error, datagram := None\<rparr>, arrive (?c 9000) f1 m1)"
    using late by (simp add: j6 example_cycle_def picky_env_simps)
  from request_window_restarts [OF h1 h2 h3 h4 h5 [of 8999] h6 h7 h8] r
  have early: "(cy_jiffies (?c 8999) - jiffies_sent (requests m1 2)) * 1000
                 div HZ picky_env < 3000 \<and>
        send_prepared picky_env (slaves ?M 1)
          (datagrams (arrive (?c 8999) f1 m1) (cy_datagram (?c 8999))) \<longrightarrow>
        (\<exists>m''. run picky_env (?cs @ [?c 8999]) ?F ?M =
                  Some (f1\<lparr>datagram := Some (cy_datagram (?c 8999))\<rparr>, m'') \<and>
                jiffies_sent (requests m'' 2) = cy_jiffies (?c 8999) \<and>
                take (set_ip_size picky_env) (mbox_data (datagrams m'' (cy_datagram (?c 8999)))) =
                  spec_set_ip_payload picky_env (requests ?M 2))"
    by auto
  have "(cy_jiffies (?c 8999) - jiffies_sent (requests m1 2)) * 1000 div HZ picky_env < 3000 \<and>
        send_prepared picky_env (slaves ?M 1)
          (datagrams (arrive (?c 8999) f1 m1) (cy_datagram (?c 8999)))"
    by (simp add: j6 example_cycle_def example_mem_def picky_env_simps)
  with early obtain m2 where
    "run picky_env (?cs @ [?c 8999]) ?F ?M = Some (f1\<lparr>datagram := Some (cy_datagram (?c 8999))\<rparr>, m2)"
    and "jiffies_sent (requests m2 2) = cy_jiffies (?c 8999)"
    by blast
  then have g: "\<exists>m''. run picky_env (?cs @ [?c 8999]) ?F ?M = Some (f1\<lparr>datagram := Some 5\<rparr>, m'') \<and>
      jiffies_sent (requests m'' 2) = 8999"
    by (simp add: example_cycle_def)
  from r s j6 p6 e g show ?thesis by blast
qed

text \<open>
  C10, as the claim has it, fails when the mailbox refuses the send: the cycle finds
  working counter 0 within the window, the request cannot be encoded again, and the
  machine goes to ERROR.
\<close>

theorem request_window_counterexample:
  "dg_state (cy_resolved (example_cycle 2000 (example_datagram EC_DATAGRAM_RECEIVED 0 []))) =
     EC_DATAGRAM_RECEIVED \<and>
   working_counter (cy_resolved (example_cycle 2000 (example_datagram EC_DATAGRAM_RECEIVED 0 []))) = 0 \<and>
   within_window busy_env
     (jiffies_sent (requests (example_mem (example_datagram EC_DATAGRAM_SENT 0 [])) 2))
     [example_cycle 2000 (example_datagram EC_DATAGRAM_RECEIVED 0 [])] \<and>
   run busy_env [example_cycle 2000 (example_datagram EC_DATAGRAM_RECEIVED 0 [])]
      (example_fsm FN_set_ip_request)
      (example_mem (example_datagram EC_DATAGRAM_SENT 0 [])) =
    Some ((example_fsm FN_set_ip_request)\<lparr>state := Some FN_error, datagram := None\<rparr>,
          arrive (example_cycle 2000 (example_datagram EC_DATAGRAM_RECEIVED 0 []))
            (example_fsm FN_set_ip_request)
            (example_mem (example_datagram EC_DATAGRAM_SENT 0 [])))"
  by (simp add: busy_env_def example_cycle_def example_defs EC_EOE_RESPONSE_TIMEOUT_def
        ec_fsm_eoe_exec_def datagram_pending_def arrive_def ec_fsm_eoe_set_ip_request_def
        timed_out_retry_def ec_fsm_eoe_prepare_set_def)

section \<open>Recovery from stray segments\<close>

lemma poll_step:
  assumes "state fsm = Some FN_set_ip_check" and "slave fsm = Some sl"
    and "datagram fsm = Some p" and "check_ready env cc"
  shows "\<exists>m1. run env (cc # cs) fsm m =
                run env cs (fsm\<lparr>retries := EC_FSM_RETRIES env,
                                 state := Some FN_set_ip_response,
                                 datagram := Some (cy_datagram cc)\<rparr>) m1 \<and>
              slaves m1 = slaves m \<and> requests m1 = requests m"
proof -
  let ?m = "arrive cc fsm m"
  from assms(4) have rc: "dg_state (cy_resolved cc) = EC_DATAGRAM_RECEIVED"
    and wc: "working_counter (cy_resolved cc) = 1"
    and ck: "ec_slave_mbox_check env (cy_resolved cc)"
    by (simp_all add: check_ready_def acknowledged_def)
  have a: "dg_state (datagrams ?m p) = EC_DATAGRAM_RECEIVED"
    and b: "working_counter (datagrams ?m p) = 1"
    and c: "ec_slave_mbox_check env (datagrams ?m p)"
    using rc wc ck assms(3) by (simp_all add: arrive_simps)
  from check_data_ready [OF assms(2,3) a b c, of "cy_datagram cc"]
  obtain m1 where h: "ec_fsm_eoe_set_ip_check env fsm ?m (cy_datagram cc) =
      Some (fsm\<lparr>retries := EC_FSM_RETRIES env, state := Some FN_set_ip_response\<rparr>, m1)"
    and s: "slaves m1 = slaves m" "requests m1 = requests m"
    by (auto simp: arrive_simps)
  have "run env (cc # cs) fsm m =
      run env cs (fsm\<lparr>retries := EC_FSM_RETRIES env, state := Some FN_set_ip_response,
                       datagram := Some (cy_datagram cc)\<rparr>) m1"
    using run_step [OF assms(3) _ assms(1), of cc env m _ m1 cs] rc h by simp
  with s show ?thesis by blast
qed

lemma stray_step:
  assumes "state fsm = Some FN_set_ip_response" and "slave fsm = Some sl"
    and "datagram fsm = Some p" and "stray_frame env (slaves m sl) cr"
    and "frame_type_retries fsm \<noteq> 0"
  shows "\<exists>m1. run env (cr # cs) fsm m =
                run env cs (fsm\<lparr>frame_type_retries := frame_type_retries fsm - 1,
                                 jiffies_start := dg_jiffies_sent (cy_resolved cr),
                                 retries := EC_FSM_RETRIES env,
                                 state := Some FN_set_ip_check,
                                 datagram := Some (cy_datagram cr)\<rparr>) m1 \<and>
              slaves m1 = slaves m \<and> requests m1 = requests m"
proof -
  let ?m = "arrive cr fsm m"
  from assms(4) obtain data where rc: "dg_state (cy_resolved cr) = EC_DATAGRAM_RECEIVED"
    and wc: "working_counter (cy_resolved cr) = 1"
    and ft: "ec_slave_mbox_fetch env (slaves m sl) (cy_resolved cr) =
               Inr (data, EC_MBOX_TYPE_EOE env)"
    and ln: "4 \<le> length data"
    and ne: "data ! 0 AND 0x0f \<noteq> EC_EOE_FRAMETYPE_SET_IP_RES env"
    by (auto simp: stray_frame_def acknowledged_def split: sum.splits)
  have a: "dg_state (datagrams ?m p) = EC_DATAGRAM_RECEIVED"
    and b: "working_counter (datagrams ?m p) = 1"
    and c: "ec_slave_mbox_fetch env (slaves ?m sl) (datagrams ?m p) =
              Inr (data, EC_MBOX_TYPE_EOE env)"
    and d: "dg_jiffies_sent (datagrams ?m p) = dg_jiffies_sent (cy_resolved cr)"
    using rc wc ft assms(3) by (simp_all add: arrive_simps)
  from response_stray(1) [OF assms(2,3) a b c ln ne assms(5), of "cy_datagram cr"]
  obtain m1 where h: "ec_fsm_eoe_set_ip_response env fsm ?m (cy_datagram cr) =
      Some (fsm\<lparr>frame_type_retries := frame_type_retries fsm - 1,
                jiffies_start := dg_jiffies_sent (cy_resolved cr),
                retries := EC_FSM_RETRIES env,
                state := Some FN_set_ip_check\<rparr>, m1)"
    and s: "slaves m1 = slaves m" "requests m1 = requests m"
    by (auto simp: arrive_simps d)
  have "run env (cr # cs) fsm m =
      run env cs (fsm\<lparr>frame_type_retries := frame_type_retries fsm - 1,
                       jiffies_start := dg_jiffies_sent (cy_resolved cr),
                       retries := EC_FSM_RETRIES env,
                       state := Some FN_set_ip_check,
                       datagram := Some (cy_datagram cr)\<rparr>) m1"
    using run_step [OF assms(3) _ assms(1), of cr env m _ m1 cs] rc h by simp
  with s show ?thesis by blast
qed

lemma stray_exhausted_step:
  assumes "state fsm = Some FN_set_ip_response" and "slave fsm = Some sl"
    and "datagram fsm = Some p" and "stray_frame env (slaves m sl) cr"
    and "frame_type_retries fsm = 0"
  shows "\<exists>fsm' m'. run env [cr] fsm m = Some (fsm', m') \<and> state fsm' = Some FN_error"
proof -
  let ?m = "arrive cr fsm m"
  from assms(4) obtain data where rc: "dg_state (cy_resolved cr) = EC_DATAGRAM_RECEIVED"
    and wc: "working_counter (cy_resolved cr) = 1"
    and ft: "ec_slave_mbox_fetch env (slaves m sl) (cy_resolved cr) =
               Inr (data, EC_MBOX_TYPE_EOE env)"
    and ln: "4 \<le> length data"
    and ne: "data ! 0 AND 0x0f \<noteq> EC_EOE_FRAMETYPE_SET_IP_RES env"
    by (auto simp: stray_frame_def acknowledged_def split: sum.splits)
  have a: "dg_state (datagrams ?m p) = EC_DATAGRAM_RECEIVED"
    and b: "working_counter (datagrams ?m p) = 1"
    and c: "ec_slave_mbox_fetch env (slaves ?m sl) (datagrams ?m p) =
              Inr (data, EC_MBOX_TYPE_EOE env)"
    using rc wc ft assms(3) by (simp_all add: arrive_simps)
  have h: "call_state FN_set_ip_response env fsm ?m (cy_datagram cr) =
      Some (fsm\<lparr>frame_type_retries := frame_type_retries fsm - 1, state := Some FN_error\<rparr>, ?m)"
    using response_stray(2) [OF assms(2,3) a b c ln ne assms(5)] by simp
  show ?thesis
    using run_step [OF assms(3) _ assms(1) h, of "[]"] rc by simp
qed

lemma good_step:
  assumes "state fsm = Some FN_set_ip_response" and "slave fsm = Some sl"
    and "datagram fsm = Some p" and "request fsm = Some rq"
    and "good_frame env (slaves m sl) cr"
  shows "\<exists>fsm' m'. run env [cr] fsm m = Some (fsm', m') \<and> state fsm' = Some FN_end \<and>
           result (requests m' rq) = 0"
proof -
  let ?m = "arrive cr fsm m"
  from assms(5) obtain data where rc: "dg_state (cy_resolved cr) = EC_DATAGRAM_RECEIVED"
    and wc: "working_counter (cy_resolved cr) = 1"
    and ft: "ec_slave_mbox_fetch env (slaves m sl) (cy_resolved cr) =
               Inr (data, EC_MBOX_TYPE_EOE env)"
    and ln: "4 \<le> length data"
    and eq: "data ! 0 AND 0x0f = EC_EOE_FRAMETYPE_SET_IP_RES env"
    and z: "EC_READ_U16 data 2 = 0"
    by (auto simp: good_frame_def acknowledged_def split: sum.splits)
  have a: "dg_state (datagrams ?m p) = EC_DATAGRAM_RECEIVED"
    and b: "working_counter (datagrams ?m p) = 1"
    and c: "ec_slave_mbox_fetch env (slaves ?m sl) (datagrams ?m p) =
              Inr (data, EC_MBOX_TYPE_EOE env)"
    using rc wc ft assms(3) by (simp_all add: arrive_simps)
  from response_good [OF assms(2,3,4) a b c ln eq z, of "cy_datagram cr"]
  obtain m1 where h: "call_state FN_set_ip_response env fsm ?m (cy_datagram cr) =
      Some (fsm\<lparr>state := Some FN_end\<rparr>, m1)" and r: "result (requests m1 rq) = 0"
    by auto
  show ?thesis
    using run_step [OF assms(3) _ assms(1) h, of "[]"] rc r by simp
qed

lemma strays_run:
  "state fsm = Some FN_set_ip_check \<Longrightarrow> slave fsm = Some sl \<Longrightarrow> datagram fsm = Some p \<Longrightarrow>
   \<forall>(cc, cr)\<in>set ps. check_ready env cc \<and> stray_frame env (slaves m sl) cr \<Longrightarrow>
   length ps \<le> unat (frame_type_retries fsm) \<Longrightarrow>
   \<exists>fsm' m'. run env (polls ps) fsm m = Some (fsm', m') \<and>
     state fsm' = Some FN_set_ip_check \<and> slave fsm' = Some sl \<and>
     request fsm' = request fsm \<and> (\<exists>q. datagram fsm' = Some q) \<and>
     slaves m' = slaves m \<and>
     frame_type_retries fsm' = frame_type_retries fsm - of_nat (length ps) \<and>
     (ps \<noteq> [] \<longrightarrow> jiffies_start fsm' = dg_jiffies_sent (cy_resolved (snd (last ps))) \<and>
                  retries fsm' = EC_FSM_RETRIES env)"
proof (induction ps arbitrary: fsm m p)
  case Nil
  then show ?case by simp
next
  case (Cons pr ps)
  obtain cc cr where pr: "pr = (cc, cr)" by (cases pr)
  from Cons.prems(4) pr have ck: "check_ready env cc"
    and sf: "stray_frame env (slaves m sl) cr" by simp_all
  from Cons.prems(5) have nz: "frame_type_retries fsm \<noteq> 0" by auto
  let ?f1 = "fsm\<lparr>retries := EC_FSM_RETRIES env, state := Some FN_set_ip_response,
                  datagram := Some (cy_datagram cc)\<rparr>"
  from poll_step [OF Cons.prems(1,2,3) ck, of "cr # polls ps" m]
  obtain m1 where r1: "run env (cc # cr # polls ps) fsm m = run env (cr # polls ps) ?f1 m1"
    and s1: "slaves m1 = slaves m"
    by blast
  let ?f2 = "?f1\<lparr>frame_type_retries := frame_type_retries ?f1 - 1,
                  jiffies_start := dg_jiffies_sent (cy_resolved cr),
                  retries := EC_FSM_RETRIES env,
                  state := Some FN_set_ip_check,
                  datagram := Some (cy_datagram cr)\<rparr>"
  have "stray_frame env (slaves m1 sl) cr" using sf s1 by simp
  from stray_step [of ?f1 sl "cy_datagram cc" env m1 cr "polls ps", OF _ _ _ this]
    Cons.prems(2) nz
  obtain m2 where r2: "run env (cr # polls ps) ?f1 m1 = run env (polls ps) ?f2 m2"
    and s2: "slaves m2 = slaves m1"
    by auto
  have le: "length ps \<le> unat (frame_type_retries ?f2)"
    using Cons.prems(5) nz by (simp add: unat_minus_one)
  have all: "\<forall>(cc, cr)\<in>set ps. check_ready env cc \<and> stray_frame env (slaves m2 sl) cr"
    using Cons.prems(4) s1 s2 by simp
  from Cons.IH [of ?f2 "cy_datagram cr" m2, OF _ _ _ all le] Cons.prems(2)
  obtain fsm' m' where r3: "run env (polls ps) ?f2 m2 = Some (fsm', m')"
    and i: "state fsm' = Some FN_set_ip_check" "slave fsm' = Some sl"
      "request fsm' = request ?f2" "\<exists>q. datagram fsm' = Some q" "slaves m' = slaves m2"
      "frame_type_retries fsm' = frame_type_retries ?f2 - of_nat (length ps)"
    and j: "ps \<noteq> [] \<longrightarrow> jiffies_start fsm' = dg_jiffies_sent (cy_resolved (snd (last ps))) \<and>
                  retries fsm' = EC_FSM_RETRIES env"
    by auto
  have k: "ps = [] \<longrightarrow> fsm' = ?f2"
    using r3 by auto
  have run: "run env (polls (pr # ps)) fsm m = Some (fsm', m')"
    using r1 r2 r3 pr by simp
  show ?case
    using run i j k s1 s2 pr by auto
qed

lemma request_ack_step:
  assumes "state fsm = Some FN_set_ip_request" and "slave fsm = Some sl"
    and "datagram fsm = Some p" and "acknowledged c0"
  shows "\<exists>m1. (\<forall>cs. run env (c0 # cs) fsm m =
                run env cs (fsm\<lparr>jiffies_start := dg_jiffies_sent (cy_resolved c0),
                                 retries := EC_FSM_RETRIES env,
                                 state := Some FN_set_ip_check,
                                 frame_type_retries := 10,
                                 datagram := Some (cy_datagram c0)\<rparr>) m1) \<and>
              slaves m1 = slaves m \<and> requests m1 = requests m"
proof -
  let ?m = "arrive c0 fsm m"
  from assms(4) have rc: "dg_state (cy_resolved c0) = EC_DATAGRAM_RECEIVED"
    and wc: "working_counter (cy_resolved c0) = 1"
    by (simp_all add: acknowledged_def)
  have a: "dg_state (datagrams ?m p) = EC_DATAGRAM_RECEIVED"
    and b: "working_counter (datagrams ?m p) = 1"
    and d: "dg_jiffies_sent (datagrams ?m p) = dg_jiffies_sent (cy_resolved c0)"
    using rc wc assms(3) by (simp_all add: arrive_simps)
  from request_acknowledged [OF assms(2,3) a b, of env "cy_datagram c0"]
  obtain m1 where h: "ec_fsm_eoe_set_ip_request env fsm ?m (cy_datagram c0) =
      Some (fsm\<lparr>jiffies_start := dg_jiffies_sent (cy_resolved c0),
                retries := EC_FSM_RETRIES env,
                state := Some FN_set_ip_check,
                frame_type_retries := 10\<rparr>, m1)"
    and s: "slaves m1 = slaves m" "requests m1 = requests m"
    by (auto simp: arrive_simps d)
  have "run env (c0 # cs) fsm m =
      run env cs (fsm\<lparr>jiffies_start := dg_jiffies_sent (cy_resolved c0),
                       retries := EC_FSM_RETRIES env,
                       state := Some FN_set_ip_check,
                       frame_type_retries := 10,
                       datagram := Some (cy_datagram c0)\<rparr>) m1" for cs
    using run_step [OF assms(3) _ assms(1), of c0 env m _ m1 cs] rc h by simp
  with s show ?thesis by blast
qed

lemma poll_timeout_step:
  assumes "state fsm = Some FN_set_ip_check" and "slave fsm = Some sl"
    and "datagram fsm = Some p"
    and "dg_state (cy_resolved c) = EC_DATAGRAM_TIMED_OUT" and "retries fsm \<noteq> 0"
  shows "\<exists>m1. (\<forall>cs. run env (c # cs) fsm m =
                run env cs (fsm\<lparr>retries := retries fsm - 1,
                                 datagram := Some (cy_datagram c)\<rparr>) m1) \<and>
              slaves m1 = slaves m"
proof -
  let ?m = "arrive c fsm m"
  have a: "dg_state (datagrams ?m p) = EC_DATAGRAM_TIMED_OUT"
    using assms(3,4) by (simp add: arrive_simps)
  obtain m1 where h: "call_state FN_set_ip_check env fsm ?m (cy_datagram c) =
      Some (fsm\<lparr>retries := retries fsm - 1\<rparr>, m1)" and s: "slaves m1 = slaves m"
    using assms(2,3,5) a
    by (simp add: ec_fsm_eoe_set_ip_check_def timed_out_retry_def arrive_simps)
  show ?thesis
    using run_step [OF assms(3) _ assms(1) h] assms(1,4) s by auto
qed

lemma poll_empty_step:
  assumes "state fsm = Some FN_set_ip_check" and "slave fsm = Some sl"
    and "datagram fsm = Some p"
    and "acknowledged c" and "\<not> ec_slave_mbox_check env (cy_resolved c)"
    and "(jiffies_received (cy_resolved c) - jiffies_start fsm) * 1000 div HZ env < 3000"
  shows "\<exists>m1. (\<forall>cs. run env (c # cs) fsm m =
                run env cs (fsm\<lparr>retries := EC_FSM_RETRIES env,
                                 datagram := Some (cy_datagram c)\<rparr>) m1) \<and>
              slaves m1 = slaves m"
proof -
  let ?m = "arrive c fsm m"
  from assms(4) have rc: "dg_state (cy_resolved c) = EC_DATAGRAM_RECEIVED"
    and wc: "working_counter (cy_resolved c) = 1"
    by (simp_all add: acknowledged_def)
  have a: "datagrams ?m p = cy_resolved c"
    using assms(3) by (simp add: arrive_simps)
  from assms(6)
  have w: "\<not> 3000 \<le> (jiffies_received (cy_resolved c) - jiffies_start fsm) * 1000 div HZ env"
    by (simp add: not_le)
  obtain m1 where h: "call_state FN_set_ip_check env fsm ?m (cy_datagram c) =
      Some (fsm\<lparr>retries := EC_FSM_RETRIES env\<rparr>, m1)" and s: "slaves m1 = slaves m"
    using assms(2,3,5) w a rc wc
    by (simp add: ec_fsm_eoe_set_ip_check_def timed_out_retry_def arrive_simps
          EC_EOE_RESPONSE_TIMEOUT_def)
  show ?thesis
    using run_step [OF assms(3) _ assms(1) h] assms(1) rc s by auto
qed

lemma fetch_timeout_step:
  assumes "state fsm = Some FN_set_ip_response" and "slave fsm = Some sl"
    and "datagram fsm = Some p"
    and "dg_state (cy_resolved c) = EC_DATAGRAM_TIMED_OUT" and "retries fsm \<noteq> 0"
  shows "\<exists>m1. (\<forall>cs. run env (c # cs) fsm m =
                run env cs (fsm\<lparr>retries := retries fsm - 1,
                                 datagram := Some (cy_datagram c)\<rparr>) m1) \<and>
              slaves m1 = slaves m"
proof -
  let ?m = "arrive c fsm m"
  have a: "dg_state (datagrams ?m p) = EC_DATAGRAM_TIMED_OUT"
    using assms(3,4) by (simp add: arrive_simps)
  obtain m1 where h: "call_state FN_set_ip_response env fsm ?m (cy_datagram c) =
      Some (fsm\<lparr>retries := retries fsm - 1\<rparr>, m1)" and s: "slaves m1 = slaves m"
    using assms(2,3,5) a
    by (simp add: ec_fsm_eoe_set_ip_response_def timed_out_retry_def arrive_simps)
  show ?thesis
    using run_step [OF assms(3) _ assms(1) h] assms(1,4) s by auto
qed

lemma exec_terminal_state:
  assumes "state fsm = Some FN_end \<or> state fsm = Some FN_error"
    and "ec_fsm_eoe_exec env fsm m dgram = Some (u, f', m')"
  shows "state f' = state fsm"
  using assms
  by (auto simp: ec_fsm_eoe_exec_def ec_fsm_eoe_end_def ec_fsm_eoe_error_def
      split: if_splits)

lemma run_terminal_state:
  "state fsm = Some FN_end \<or> state fsm = Some FN_error \<Longrightarrow>
   run env cs fsm m = Some (f1, m1) \<Longrightarrow> state f1 = state fsm"
proof (induction cs arbitrary: fsm m)
  case Nil
  then show ?case by simp
next
  case (Cons c cs)
  from Cons.prems(2) obtain u f' m' where
    e: "ec_fsm_eoe_exec env fsm (arrive c fsm m) (cy_datagram c) = Some (u, f', m')"
    and r: "run env cs f' m' = Some (f1, m1)"
    by (auto split: option.splits)
  have s: "state f' = state fsm"
    by (rule exec_terminal_state [OF Cons.prems(1) e])
  with Cons.IH [of f' m'] Cons.prems(1) r show ?case by simp
qed

lemma exec_poll_phase:
  assumes "state fsm = Some FN_set_ip_check \<or> state fsm = Some FN_set_ip_response"
    and "ec_fsm_eoe_exec env fsm m dgram = Some (u, f', m')"
  shows "slaves m' = slaves m \<and> slave f' = slave fsm \<and> request f' = request fsm \<and>
         (state f' = Some FN_set_ip_check \<or> state f' = Some FN_set_ip_response \<or>
          state f' = Some FN_end \<or> state f' = Some FN_error) \<and>
         (state f' = Some FN_set_ip_check \<or> state f' = Some FN_set_ip_response \<longrightarrow>
            (datagram fsm \<noteq> None \<longrightarrow> datagram f' \<noteq> None) \<and>
            (stray_found env fsm m \<longrightarrow>
               frame_type_retries fsm \<noteq> 0 \<and>
               frame_type_retries f' = frame_type_retries fsm - 1) \<and>
            (\<not> stray_found env fsm m \<longrightarrow>
               frame_type_retries f' = frame_type_retries fsm))"
proof (cases "datagram_pending fsm m")
  case True
  then have np: "\<not> stray_found env fsm m"
    by (auto simp: datagram_pending_def stray_found_def split: option.splits)
  from True assms(2) have "f' = fsm" "m' = m"
    by (simp_all add: ec_fsm_eoe_exec_def)
  with assms(1) np show ?thesis by auto
next
  case False
  from assms(1) show ?thesis
  proof
    assume st: "state fsm = Some FN_set_ip_check"
    then have ns: "\<not> stray_found env fsm m" by (simp add: stray_found_def)
    from False st assms(2) obtain g where
      h: "ec_fsm_eoe_set_ip_check env fsm m dgram = Some (g, m')"
      and f: "f' = g\<lparr>datagram := (if state g \<noteq> Some FN_end \<and> state g \<noteq> Some FN_error
                                   then Some dgram else None)\<rparr>"
      by (auto simp: ec_fsm_eoe_exec_def split: option.splits if_splits)
    from check_any [OF h st] f ns show ?thesis by auto
  next
    assume st: "state fsm = Some FN_set_ip_response"
    from False st assms(2) obtain g where
      h: "ec_fsm_eoe_set_ip_response env fsm m dgram = Some (g, m')"
      and f: "f' = g\<lparr>datagram := (if state g \<noteq> Some FN_end \<and> state g \<noteq> Some FN_error
                                   then Some dgram else None)\<rparr>"
      by (auto simp: ec_fsm_eoe_exec_def split: option.splits if_splits)
    from response_any [OF h st] f show ?thesis by auto
  qed
qed

lemma poll_phase_run:
  "state fsm = Some FN_set_ip_check \<or> state fsm = Some FN_set_ip_response \<Longrightarrow>
   datagram fsm \<noteq> None \<Longrightarrow>
   run env cs fsm m = Some (f1, m1) \<Longrightarrow>
   state f1 = Some FN_set_ip_check \<or> state f1 = Some FN_set_ip_response \<Longrightarrow>
   stray_count env cs fsm m \<le> unat (frame_type_retries fsm) \<and>
   frame_type_retries f1 = frame_type_retries fsm - of_nat (stray_count env cs fsm m) \<and>
   slave f1 = slave fsm \<and> request f1 = request fsm \<and> datagram f1 \<noteq> None \<and>
   slaves m1 = slaves m"
proof (induction cs arbitrary: fsm m)
  case Nil
  then show ?case by simp
next
  case (Cons c cs)
  let ?M = "arrive c fsm m"
  from Cons.prems(3) obtain u f' m' where
    e: "ec_fsm_eoe_exec env fsm ?M (cy_datagram c) = Some (u, f', m')"
    and r: "run env cs f' m' = Some (f1, m1)"
    by (auto split: option.splits)
  note P = exec_poll_phase [OF Cons.prems(1) e]
  have alive: "state f' = Some FN_set_ip_check \<or> state f' = Some FN_set_ip_response"
  proof (rule ccontr)
    assume "\<not> ?thesis"
    with P have t: "state f' = Some FN_end \<or> state f' = Some FN_error" by blast
    from run_terminal_state [OF t r] t Cons.prems(4) show False by auto
  qed
  have d: "datagram f' \<noteq> None" using P alive Cons.prems(2) by blast
  note IH = Cons.IH [OF alive d r Cons.prems(4)]
  have sl: "slaves m' = slaves m" using P by (simp add: arrive_simps)
  have cnt: "stray_count env (c # cs) fsm m =
      (if stray_found env fsm ?M then 1 else 0) + stray_count env cs f' m'"
    using e by simp
  show ?case
  proof (cases "stray_found env fsm ?M")
    case True
    with P alive have nz: "frame_type_retries fsm \<noteq> 0"
      and dec: "frame_type_retries f' = frame_type_retries fsm - 1" by blast+
    have "unat (frame_type_retries f') = unat (frame_type_retries fsm) - 1"
      using nz dec by (simp add: unat_minus_one)
    moreover have "0 < unat (frame_type_retries fsm)" using nz by (simp add: unat_gt_0)
    moreover have c1: "stray_count env (c # cs) fsm m = Suc (stray_count env cs f' m')"
      using cnt True by simp
    moreover from IH have "stray_count env cs f' m' \<le> unat (frame_type_retries f')"
      by blast
    ultimately have le: "stray_count env (c # cs) fsm m \<le> unat (frame_type_retries fsm)"
      by arith
    from IH have "frame_type_retries f1 =
        frame_type_retries f' - of_nat (stray_count env cs f' m')"
      by blast
    then have "frame_type_retries f1 =
        frame_type_retries fsm - of_nat (stray_count env (c # cs) fsm m)"
      unfolding c1 by (simp add: dec)
    moreover from IH P sl have "slave f1 = slave fsm \<and> request f1 = request fsm \<and>
        datagram f1 \<noteq> None \<and> slaves m1 = slaves m"
      by simp
    ultimately show ?thesis using le by blast
  next
    case False
    with P alive have same: "frame_type_retries f' = frame_type_retries fsm" by blast
    have c0: "stray_count env (c # cs) fsm m = stray_count env cs f' m'"
      using cnt False by simp
    from IH P sl show ?thesis unfolding c0 same by simp
  qed
qed

lemma request_ack_exec:
  assumes "state fsm = Some FN_set_ip_request" and "slave fsm = Some sl"
    and "datagram fsm = Some p" and "acknowledged c0"
  shows "\<exists>m1. ec_fsm_eoe_exec env fsm (arrive c0 fsm m) (cy_datagram c0) =
                Some (1, fsm\<lparr>jiffies_start := dg_jiffies_sent (cy_resolved c0),
                              retries := EC_FSM_RETRIES env,
                              state := Some FN_set_ip_check,
                              frame_type_retries := 10,
                              datagram := Some (cy_datagram c0)\<rparr>, m1) \<and>
              slaves m1 = slaves m \<and> requests m1 = requests m"
proof -
  let ?m = "arrive c0 fsm m"
  from assms(4) have rc: "dg_state (cy_resolved c0) = EC_DATAGRAM_RECEIVED"
    and wc: "working_counter (cy_resolved c0) = 1"
    by (simp_all add: acknowledged_def)
  have a: "dg_state (datagrams ?m p) = EC_DATAGRAM_RECEIVED"
    and b: "working_counter (datagrams ?m p) = 1"
    and d: "dg_jiffies_sent (datagrams ?m p) = dg_jiffies_sent (cy_resolved c0)"
    using rc wc assms(3) by (simp_all add: arrive_simps)
  from request_acknowledged [OF assms(2,3) a b, of env "cy_datagram c0"]
  obtain m1 where h: "call_state FN_set_ip_request env fsm ?m (cy_datagram c0) =
      Some (fsm\<lparr>jiffies_start := dg_jiffies_sent (cy_resolved c0),
                retries := EC_FSM_RETRIES env,
                state := Some FN_set_ip_check,
                frame_type_retries := 10\<rparr>, m1)"
    and s: "slaves m1 = slaves m" "requests m1 = requests m"
    by (auto simp: arrive_simps d)
  have np: "\<not> datagram_pending fsm ?m"
    using not_pending_arrive [OF assms(3), of c0 m] rc by simp
  from exec_run [OF np assms(1) h] s show ?thesis by simp
qed

lemma budget_left:
  fixes w :: uint
  assumes "k \<le> 10" and "w = 10 - of_nat k"
  shows "unat w = 10 - k"
proof -
  have "of_nat (10 - k) = (of_nat 10 :: uint) - of_nat k"
    using assms(1) by (rule of_nat_diff)
  then have "w = of_nat (10 - k)" using assms(2) by simp
  then show ?thesis by (simp add: unat_of_nat)
qed

text \<open>
  C1. The machine is in REQUEST and the request is acknowledged, which sets
  \<open>frame_type_retries\<close> to 10. Whatever cycles follow (polls that time out or find no
  data, fetches that time out, payloads of another frame type), as long as they bring the
  machine to RESPONSE: the number of payloads of another frame type than the SET IP
  response that RESPONSE has decoded since the acknowledgement is at most 10, and
  \<open>frame_type_retries\<close> is 10 less that number. If the payload fetched next is of
  another frame type and fewer than 10 came before it, the machine goes back to CHECK
  with one frame type retry less, \<open>jiffies_start\<close> the send time of the datagram just
  fetched and \<open>retries = EC_FSM_RETRIES\<close>, whatever \<open>retries\<close> was before; if 10 came
  before it, this one, the eleventh, takes the machine to ERROR. A response frame with
  result 0 takes the machine to END.
\<close>

theorem stray_segment_recovery:
  assumes "state fsm = Some FN_set_ip_request" and "slave fsm = Some sl"
    and "request fsm = Some rq" and "datagram fsm = Some p"
    and "acknowledged c0"
    and "run env (c0 # cs) fsm m = Some (f1, m1)"
    and "state f1 = Some FN_set_ip_response"
  shows "stray_count env (c0 # cs) fsm m \<le> 10 \<and>
         frame_type_retries f1 = 10 - of_nat (stray_count env (c0 # cs) fsm m) \<and>
         (stray_frame env (slaves m sl) c \<and> stray_count env (c0 # cs) fsm m < 10 \<longrightarrow>
            (\<exists>m'. run env (c0 # cs @ [c]) fsm m =
               Some (f1\<lparr>frame_type_retries := frame_type_retries f1 - 1,
                        jiffies_start := dg_jiffies_sent (cy_resolved c),
                        retries := EC_FSM_RETRIES env,
                        state := Some FN_set_ip_check,
                        datagram := Some (cy_datagram c)\<rparr>, m'))) \<and>
         (stray_frame env (slaves m sl) c \<and> stray_count env (c0 # cs) fsm m = 10 \<longrightarrow>
            (\<exists>fsm' m'. run env (c0 # cs @ [c]) fsm m = Some (fsm', m') \<and>
               state fsm' = Some FN_error)) \<and>
         (good_frame env (slaves m sl) c \<longrightarrow>
            (\<exists>fsm' m'. run env (c0 # cs @ [c]) fsm m = Some (fsm', m') \<and>
               state fsm' = Some FN_end \<and> result (requests m' rq) = 0))"
proof -
  let ?k = "stray_count env (c0 # cs) fsm m"
  let ?f0 = "fsm\<lparr>jiffies_start := dg_jiffies_sent (cy_resolved c0),
                  retries := EC_FSM_RETRIES env,
                  state := Some FN_set_ip_check,
                  frame_type_retries := 10,
                  datagram := Some (cy_datagram c0)\<rparr>"
  from request_ack_exec [OF assms(1,2,4,5), of env m]
  obtain m0 where e: "ec_fsm_eoe_exec env fsm (arrive c0 fsm m) (cy_datagram c0) =
      Some (1, ?f0, m0)" and s0: "slaves m0 = slaves m"
    by blast
  have ns: "\<not> stray_found env fsm (arrive c0 fsm m)"
    using assms(1) by (simp add: stray_found_def)
  have k: "?k = stray_count env cs ?f0 m0" using e ns by simp
  have r0: "run env cs ?f0 m0 = Some (f1, m1)" using assms(6) e by simp
  have "stray_count env cs ?f0 m0 \<le> unat (frame_type_retries ?f0) \<and>
      frame_type_retries f1 = frame_type_retries ?f0 - of_nat (stray_count env cs ?f0 m0) \<and>
      slave f1 = slave ?f0 \<and> request f1 = request ?f0 \<and> datagram f1 \<noteq> None \<and>
      slaves m1 = slaves m0"
    by (rule poll_phase_run [OF _ _ r0]) (simp_all add: assms(7))
  then have le: "?k \<le> 10" and ft: "frame_type_retries f1 = 10 - of_nat ?k"
    and sl: "slave f1 = Some sl" and rq: "request f1 = Some rq"
    and dg: "datagram f1 \<noteq> None" and sm: "slaves m1 = slaves m"
    using k assms(2,3) s0 by simp_all
  from dg obtain q where q: "datagram f1 = Some q" by blast
  have left: "unat (frame_type_retries f1) = 10 - ?k"
    by (rule budget_left [OF le ft])
  have app: "run env (c0 # cs @ [c]) fsm m = run env [c] f1 m1"
    using run_append [of env "c0 # cs" "[c]" fsm m] assms(6) by simp
  have A: "stray_frame env (slaves m sl) c \<and> ?k < 10 \<longrightarrow>
            (\<exists>m'. run env (c0 # cs @ [c]) fsm m =
               Some (f1\<lparr>frame_type_retries := frame_type_retries f1 - 1,
                        jiffies_start := dg_jiffies_sent (cy_resolved c),
                        retries := EC_FSM_RETRIES env,
                        state := Some FN_set_ip_check,
                        datagram := Some (cy_datagram c)\<rparr>, m'))"
  proof
    assume h: "stray_frame env (slaves m sl) c \<and> ?k < 10"
    then have sf: "stray_frame env (slaves m1 sl) c" using sm by simp
    from h left have nz: "frame_type_retries f1 \<noteq> 0" by (auto simp: unat_gt_0 [symmetric])
    from stray_step [OF assms(7) sl q sf nz, of "[]"] app
    show "\<exists>m'. run env (c0 # cs @ [c]) fsm m =
               Some (f1\<lparr>frame_type_retries := frame_type_retries f1 - 1,
                        jiffies_start := dg_jiffies_sent (cy_resolved c),
                        retries := EC_FSM_RETRIES env,
                        state := Some FN_set_ip_check,
                        datagram := Some (cy_datagram c)\<rparr>, m')"
      by auto
  qed
  have B: "stray_frame env (slaves m sl) c \<and> ?k = 10 \<longrightarrow>
            (\<exists>fsm' m'. run env (c0 # cs @ [c]) fsm m = Some (fsm', m') \<and>
               state fsm' = Some FN_error)"
  proof
    assume h: "stray_frame env (slaves m sl) c \<and> ?k = 10"
    then have sf: "stray_frame env (slaves m1 sl) c" using sm by simp
    from h left have z: "frame_type_retries f1 = 0" by (simp add: unat_eq_0)
    from stray_exhausted_step [OF assms(7) sl q sf z] app
    show "\<exists>fsm' m'. run env (c0 # cs @ [c]) fsm m = Some (fsm', m') \<and>
               state fsm' = Some FN_error"
      by simp
  qed
  have C: "good_frame env (slaves m sl) c \<longrightarrow>
            (\<exists>fsm' m'. run env (c0 # cs @ [c]) fsm m = Some (fsm', m') \<and>
               state fsm' = Some FN_end \<and> result (requests m' rq) = 0)"
  proof
    assume "good_frame env (slaves m sl) c"
    then have gf: "good_frame env (slaves m1 sl) c" using sm by simp
    from good_step [OF assms(7) sl q rq gf] app
    show "\<exists>fsm' m'. run env (c0 # cs @ [c]) fsm m = Some (fsm', m') \<and>
               state fsm' = Some FN_end \<and> result (requests m' rq) = 0"
      by simp
  qed
  from le ft A B C show ?thesis by (intro conjI)
qed

theorem stray_segment_recovery_witness:
  "(\<exists>m'. run example_env
       (example_cycle 5010 (example_datagram EC_DATAGRAM_RECEIVED 1 []) #
        [example_cycle 5020 (example_datagram EC_DATAGRAM_TIMED_OUT 0 []),
         example_cycle 5030 (example_datagram EC_DATAGRAM_RECEIVED 1 []),
         example_cycle 5040 (example_datagram EC_DATAGRAM_RECEIVED 1 [1]),
         example_cycle 5020 (example_datagram EC_DATAGRAM_TIMED_OUT 0 [])] @
        [example_cycle 5050
           ((example_datagram EC_DATAGRAM_RECEIVED 1 [0, 0, 0, 0])\<lparr>dg_jiffies_sent := 5045\<rparr>)])
       (example_fsm FN_set_ip_request)
       (example_mem (example_datagram EC_DATAGRAM_SENT 0 [])) =
     Some ((example_fsm FN_set_ip_request)
             \<lparr>frame_type_retries := 9, jiffies_start := 5045, retries := 3,
              state := Some FN_set_ip_check, datagram := Some 5\<rparr>, m')) \<and>
   stray_count example_env
       (example_cycle 5010 (example_datagram EC_DATAGRAM_RECEIVED 1 []) #
        example_cycle 5020 (example_datagram EC_DATAGRAM_TIMED_OUT 0 []) #
        example_cycle 5030 (example_datagram EC_DATAGRAM_RECEIVED 1 []) #
        polls (replicate 10
          (example_cycle 5040 (example_datagram EC_DATAGRAM_RECEIVED 1 [1]),
           example_cycle 5050 (example_datagram EC_DATAGRAM_RECEIVED 1 [0, 0, 0, 0]))) @
        [example_cycle 5040 (example_datagram EC_DATAGRAM_RECEIVED 1 [1])])
       (example_fsm FN_set_ip_request)
       (example_mem (example_datagram EC_DATAGRAM_SENT 0 [])) = 10 \<and>
   (\<exists>fsm' m'. run example_env
       (example_cycle 5010 (example_datagram EC_DATAGRAM_RECEIVED 1 []) #
        (example_cycle 5020 (example_datagram EC_DATAGRAM_TIMED_OUT 0 []) #
         example_cycle 5030 (example_datagram EC_DATAGRAM_RECEIVED 1 []) #
         polls (replicate 10
           (example_cycle 5040 (example_datagram EC_DATAGRAM_RECEIVED 1 [1]),
            example_cycle 5050 (example_datagram EC_DATAGRAM_RECEIVED 1 [0, 0, 0, 0]))) @
         [example_cycle 5040 (example_datagram EC_DATAGRAM_RECEIVED 1 [1])]) @
        [example_cycle 5060 (example_datagram EC_DATAGRAM_RECEIVED 1 [3, 0, 0, 0])])
       (example_fsm FN_set_ip_request)
       (example_mem (example_datagram EC_DATAGRAM_SENT 0 [])) = Some (fsm', m') \<and>
     state fsm' = Some FN_end \<and> result (requests m' 2) = 0) \<and>
   (\<exists>fsm' m'. run example_env
       (example_cycle 5010 (example_datagram EC_DATAGRAM_RECEIVED 1 []) #
        (example_cycle 5020 (example_datagram EC_DATAGRAM_TIMED_OUT 0 []) #
         example_cycle 5030 (example_datagram EC_DATAGRAM_RECEIVED 1 []) #
         polls (replicate 10
           (example_cycle 5040 (example_datagram EC_DATAGRAM_RECEIVED 1 [1]),
            example_cycle 5050 (example_datagram EC_DATAGRAM_RECEIVED 1 [0, 0, 0, 0]))) @
         [example_cycle 5040 (example_datagram EC_DATAGRAM_RECEIVED 1 [1])]) @
        [example_cycle 5050 (example_datagram EC_DATAGRAM_RECEIVED 1 [0, 0, 0, 0])])
       (example_fsm FN_set_ip_request)
       (example_mem (example_datagram EC_DATAGRAM_SENT 0 [])) = Some (fsm', m') \<and>
     state fsm' = Some FN_error)"
proof -
  let ?F = "example_fsm FN_set_ip_request"
  let ?M = "example_mem (example_datagram EC_DATAGRAM_SENT 0 [])"
  let ?c0 = "example_cycle 5010 (example_datagram EC_DATAGRAM_RECEIVED 1 [])"
  let ?ct = "example_cycle 5020 (example_datagram EC_DATAGRAM_TIMED_OUT 0 [])"
  let ?ce = "example_cycle 5030 (example_datagram EC_DATAGRAM_RECEIVED 1 [])"
  let ?cc = "example_cycle 5040 (example_datagram EC_DATAGRAM_RECEIVED 1 [1])"
  let ?cs = "example_cycle 5050 (example_datagram EC_DATAGRAM_RECEIVED 1 [0, 0, 0, 0])"
  let ?cl = "example_cycle 5050
      ((example_datagram EC_DATAGRAM_RECEIVED 1 [0, 0, 0, 0])\<lparr>dg_jiffies_sent := 5045\<rparr>)"
  let ?cg = "example_cycle 5060 (example_datagram EC_DATAGRAM_RECEIVED 1 [3, 0, 0, 0])"
  let ?ps = "replicate 10 (?cc, ?cs)"
  let ?f0 = "?F\<lparr>jiffies_start := 5000, retries := 3, state := Some FN_set_ip_check,
               frame_type_retries := 10, datagram := Some 5\<rparr>"
  let ?f3 = "?f0\<lparr>state := Some FN_set_ip_response\<rparr>"
  let ?f4 = "?f3\<lparr>retries := 2\<rparr>"
  have h1: "state ?F = Some FN_set_ip_request" and h2: "slave ?F = Some 1"
    and h3: "request ?F = Some 2" and h4: "datagram ?F = Some 4"
    by (simp_all add: example_defs)
  have h5: "acknowledged ?c0"
    by (simp add: acknowledged_def example_cycle_def example_datagram_def)
  have to: "dg_state (cy_resolved ?ct) = EC_DATAGRAM_TIMED_OUT"
    by (simp add: example_cycle_def example_datagram_def)
  have ae: "acknowledged ?ce"
    by (simp add: acknowledged_def example_cycle_def example_datagram_def)
  have ne: "\<not> ec_slave_mbox_check example_env (cy_resolved ?ce)"
    by (simp add: example_cycle_def example_datagram_def example_env_def)
  have ck: "check_ready example_env ?cc"
    by (simp add: check_ready_def acknowledged_def example_cycle_def example_datagram_def
          example_env_def)
  have sf: "stray_frame example_env (slaves ?M 1) ?cs"
    by (simp add: stray_frame_def acknowledged_def example_cycle_def example_datagram_def
          example_env_def)
  have sl: "stray_frame example_env (slaves ?M 1) ?cl"
    by (simp add: stray_frame_def acknowledged_def example_cycle_def example_datagram_def
          example_env_def)
  have gf: "good_frame example_env (slaves ?M 1) ?cg"
    by (simp add: good_frame_def acknowledged_def example_cycle_def example_datagram_def
          example_env_def EC_READ_U16_def)
  have c0: "dg_jiffies_sent (cy_resolved ?c0) = 5000" "cy_datagram ?c0 = 5"
    and cdt: "cy_datagram ?ct = 5" and cde: "cy_datagram ?ce = 5" and cdc: "cy_datagram ?cc = 5"
    and cdl: "cy_datagram ?cl = 5" "dg_jiffies_sent (cy_resolved ?cl) = 5045"
    by (simp_all add: example_cycle_def example_datagram_def)
  have en: "EC_FSM_RETRIES example_env = 3" "HZ example_env = 1000"
    by (simp_all add: example_env_def)
  have sM: "slaves ?M = (\<lambda>p. example_slave)" by (simp add: example_mem_def)
  from request_ack_step [OF h1 h2 h4 h5, of example_env ?M]
  obtain m0 where r0: "\<forall>cs. run example_env (?c0 # cs) ?F ?M = run example_env cs ?f0 m0"
    and s0: "slaves m0 = slaves ?M"
    unfolding c0 en by blast
  have f0: "state ?f0 = Some FN_set_ip_check" "slave ?f0 = Some 1" "datagram ?f0 = Some 5"
    "retries ?f0 \<noteq> 0" "retries ?f0 - 1 = 2" "frame_type_retries ?f0 = 10"
    "request ?f0 = Some 2"
    by (simp_all add: example_defs)
  from poll_timeout_step [OF f0(1,2,3) to f0(4), of example_env m0]
  obtain ma where ra: "\<forall>cs. run example_env (?ct # cs) ?f0 m0 =
        run example_env cs (?f0\<lparr>retries := 2, datagram := Some 5\<rparr>) ma"
    and sa: "slaves ma = slaves m0"
    unfolding f0(5) cdt by blast
  let ?fa = "?f0\<lparr>retries := 2, datagram := Some 5\<rparr>"
  have fa: "state ?fa = Some FN_set_ip_check" "slave ?fa = Some 1" "datagram ?fa = Some 5"
    "?fa\<lparr>retries := 3, datagram := Some 5\<rparr> = ?f0"
    by (simp_all add: example_defs)
  have wn: "(jiffies_received (cy_resolved ?ce) - jiffies_start ?fa) * 1000 div HZ example_env
      < 3000"
    by (simp add: example_defs example_cycle_def example_datagram_def)
  from poll_empty_step [OF fa(1,2,3) ae ne wn, of ma]
  obtain mb where rb: "\<forall>cs. run example_env (?ce # cs) ?fa ma = run example_env cs ?f0 mb"
    and sb: "slaves mb = slaves ma"
    unfolding en cde fa(4) by blast
  have pre: "\<And>cs. run example_env (?c0 # ?ct # ?ce # cs) ?F ?M = run example_env cs ?f0 mb"
    by (simp only: r0 ra rb)
  have smb: "slaves mb = slaves ?M" using sb sa s0 by simp
  have e3: "?f0\<lparr>retries := EC_FSM_RETRIES example_env, state := Some FN_set_ip_response,
                 datagram := Some (cy_datagram ?cc)\<rparr> = ?f3"
    by (simp add: example_defs example_cycle_def)
  from poll_step [OF f0(1,2,3) ck, of "[?ct]" mb]
  obtain mc where rc: "run example_env [?cc, ?ct] ?f0 mb = run example_env [?ct] ?f3 mc"
    unfolding e3 by blast
  have f3: "state ?f3 = Some FN_set_ip_response" "slave ?f3 = Some 1" "datagram ?f3 = Some 5"
    "retries ?f3 \<noteq> 0" "?f3\<lparr>retries := retries ?f3 - 1, datagram := Some (cy_datagram ?ct)\<rparr> = ?f4"
    by (simp_all add: example_defs example_cycle_def)
  from fetch_timeout_step [OF f3(1,2,3) to f3(4), of example_env mc]
  obtain md where rd: "run example_env [?ct] ?f3 mc = run example_env [] ?f4 md"
    unfolding f3(5) by blast
  have runA: "run example_env (?c0 # [?ct, ?ce, ?cc, ?ct]) ?F ?M = Some (?f4, md)"
    using pre [of "[?cc, ?ct]"] rc rd by simp
  have f4: "state ?f4 = Some FN_set_ip_response" "frame_type_retries ?f4 = 10"
    "?f4\<lparr>frame_type_retries := frame_type_retries ?f4 - 1,
         jiffies_start := dg_jiffies_sent (cy_resolved ?cl),
         retries := EC_FSM_RETRIES example_env,
         state := Some FN_set_ip_check,
         datagram := Some (cy_datagram ?cl)\<rparr> =
     ?F\<lparr>frame_type_retries := 9, jiffies_start := 5045, retries := 3,
         state := Some FN_set_ip_check, datagram := Some 5\<rparr>"
    by (simp_all add: example_defs example_cycle_def example_datagram_def)
  note TA = stray_segment_recovery [OF h1 h2 h3 h4 h5 runA f4(1), of ?cl]
  have "unat (frame_type_retries ?f4) =
      10 - stray_count example_env (?c0 # [?ct, ?ce, ?cc, ?ct]) ?F ?M"
    by (rule budget_left [OF TA [THEN conjunct1] TA [THEN conjunct2, THEN conjunct1]])
  then have kA: "stray_count example_env (?c0 # [?ct, ?ce, ?cc, ?ct]) ?F ?M < 10"
    unfolding f4(2) by simp
  have a: "\<exists>m'. run example_env (?c0 # [?ct, ?ce, ?cc, ?ct] @ [?cl]) ?F ?M =
      Some (?F\<lparr>frame_type_retries := 9, jiffies_start := 5045, retries := 3,
               state := Some FN_set_ip_check, datagram := Some 5\<rparr>, m')"
    using TA [THEN conjunct2, THEN conjunct2, THEN conjunct1, THEN mp, OF conjI [OF sl kA]]
    unfolding f4(3) .
  have h6: "\<forall>(cc, cr)\<in>set ?ps. check_ready example_env cc \<and>
              stray_frame example_env (slaves mb 1) cr"
    using ck sf smb by simp
  have len: "length ?ps \<le> unat (frame_type_retries ?f0)"
    unfolding f0(6) by simp
  from strays_run [OF f0(1,2,3) h6 len]
  obtain g mg q where rg: "run example_env (polls ?ps) ?f0 mb = Some (g, mg)"
    and g: "state g = Some FN_set_ip_check" "slave g = Some 1" "datagram g = Some q"
    and gz: "frame_type_retries g = frame_type_retries ?f0 - of_nat (length ?ps)"
    by blast
  let ?g' = "g\<lparr>retries := EC_FSM_RETRIES example_env, state := Some FN_set_ip_response,
               datagram := Some (cy_datagram ?cc)\<rparr>"
  from poll_step [OF g ck, of "[]" mg]
  obtain mh where rh: "run example_env [?cc] g mg = Some (?g', mh)"
    by auto
  have runB: "run example_env (?c0 # (?ct # ?ce # polls ?ps @ [?cc])) ?F ?M = Some (?g', mh)"
    using pre [of "polls ?ps @ [?cc]"] rg rh by (simp add: run_append)
  have g': "state ?g' = Some FN_set_ip_response" by simp
  have gz': "frame_type_retries ?g' = 0" using gz unfolding f0(6) by simp
  note TB = stray_segment_recovery [OF h1 h2 h3 h4 h5 runB g']
  have "unat (frame_type_retries ?g') =
      10 - stray_count example_env (?c0 # (?ct # ?ce # polls ?ps @ [?cc])) ?F ?M"
    by (rule budget_left [OF TB [THEN conjunct1] TB [THEN conjunct2, THEN conjunct1]])
  with TB [THEN conjunct1]
  have kB: "stray_count example_env (?c0 # (?ct # ?ce # polls ?ps @ [?cc])) ?F ?M = 10"
    unfolding gz' by simp
  have b: "\<exists>fsm' m'. run example_env (?c0 # (?ct # ?ce # polls ?ps @ [?cc]) @ [?cg]) ?F ?M =
        Some (fsm', m') \<and> state fsm' = Some FN_end \<and> result (requests m' 2) = 0"
    by (rule TB [of ?cg, THEN conjunct2, THEN conjunct2, THEN conjunct2, THEN conjunct2,
          THEN mp, OF gf])
  have c: "\<exists>fsm' m'. run example_env (?c0 # (?ct # ?ce # polls ?ps @ [?cc]) @ [?cs]) ?F ?M =
        Some (fsm', m') \<and> state fsm' = Some FN_error"
    by (rule TB [of ?cs, THEN conjunct2, THEN conjunct2, THEN conjunct2, THEN conjunct1,
          THEN mp, OF conjI [OF sf kB]])
  from a kB b c show ?thesis by (intro conjI)
qed

end
